(* ===== verification/Prelude.thy ===== *)
theory Prelude
  imports Complex_Main
begin

text \<open>
  Shared vocabulary of the development. Python exceptions are values of
  \<open>py_error\<close>, carrying the message the raising code passes; a computation
  that may raise returns \<open>'a result\<close> (\<open>Inl\<close> the exception). \<open>rbind\<close>
  sequences two such computations the way Python propagates an uncaught
  exception: the first exception aborts the rest. Python floats are modelled
  as \<open>real\<close> (exact arithmetic), Python ints as \<open>int\<close>.
\<close>

datatype py_error =
    ValueError string
  | RuntimeError string
  | ZeroDivisionError string
  | TypeError string
  | FileNotFoundError string
  | Unsatisfiable string

type_synonym 'a result = "py_error + 'a"

definition rbind :: "'a result \<Rightarrow> ('a \<Rightarrow> 'b result) \<Rightarrow> 'b result" where
  "rbind m k = (case m of Inl e \<Rightarrow> Inl e | Inr a \<Rightarrow> k a)"

text \<open>
  The outcome of one run of a test function: it passed, an assertion failed,
  hypothesis rejected the drawn example (\<open>assume\<close> was false), or an
  exception escaped.
\<close>

datatype test_outcome = Passed | Failed | Rejected | Errored py_error

text \<open>The outcome of \<open>assert cond\<close> where evaluating \<open>cond\<close> may raise.\<close>

definition assert_outcome :: "bool result \<Rightarrow> test_outcome" where
  "assert_outcome r = (case r of Inl e \<Rightarrow> Errored e | Inr b \<Rightarrow> if b then Passed else Failed)"

text \<open>A width function (Python callable \<open>f\<close>) and a separator placement.\<close>

type_synonym curve = "real \<Rightarrow> real"
type_synonym interval = "real \<times> real"

named_theorems result_simps "evaluation rules for result-valued computations"

lemma rbind_Inl [simp, result_simps]: "rbind (Inl e) k = Inl e"
  by (simp add: rbind_def)

lemma rbind_Inr [simp, result_simps]: "rbind (Inr a) k = k a"
  by (simp add: rbind_def)

lemma rbind_eq_Inr:
  "rbind m k = Inr b \<longleftrightarrow> (\<exists>a. m = Inr a \<and> k a = Inr b)"
  by (cases m) simp_all

lemma rbind_eq_Inl:
  "rbind m k = Inl e \<longleftrightarrow> m = Inl e \<or> (\<exists>a. m = Inr a \<and> k a = Inl e)"
  by (cases m) simp_all

lemmas rbind_eqs = rbind_eq_Inr rbind_eq_Inl

subsection \<open>Real arithmetic shared by the numeric components\<close>

text \<open>
  The point returned by a secant step lies between the two bracket ends when
  the function values there have opposite signs.
\<close>

lemma secant_between:
  fixes a b fa fb :: real
  assumes "fa * fb < 0"
  shows "min a b \<le> b - fb * (b - a) / (fb - fa) \<and> b - fb * (b - a) / (fb - fa) \<le> max a b"
proof -
  have ne: "fb - fa \<noteq> 0" using assms by auto
  define t where "t = fb / (fb - fa)"
  have x: "b - fb * (b - a) / (fb - fa) = b - t * (b - a)"
    by (simp add: t_def)
  have "0 \<le> t \<and> t \<le> 1"
  proof (cases "fa < 0")
    case True
    with assms have "0 < fb" by (auto simp: mult_less_0_iff)
    with True show ?thesis by (simp add: t_def divide_simps)
  next
    case False
    with assms have "fa > 0" "fb < 0" by (auto simp: mult_less_0_iff)
    then show ?thesis by (simp add: t_def divide_simps)
  qed
  then have t: "0 \<le> t" "t \<le> 1" by auto
  have "min a b \<le> b - t * (b - a) \<and> b - t * (b - a) \<le> max a b"
  proof (cases "a \<le> b")
    case True
    then have "0 \<le> t * (b - a)" "t * (b - a) \<le> 1 * (b - a)"
      using t by (simp, intro mult_right_mono, simp_all)
    with True show ?thesis by simp
  next
    case False
    then have "0 \<le> t * (a - b)" "t * (a - b) \<le> 1 * (a - b)"
      using t by (simp, intro mult_right_mono, simp_all)
    with False show ?thesis by (simp add: algebra_simps)
  qed
  with x show ?thesis by simp
qed

text \<open>The secant step is the exact root of an affine function.\<close>

lemma secant_affine_root:
  fixes a b c d :: real
  assumes "(c * a + d) * (c * b + d) < 0"
  shows "c * (b - (c * b + d) * (b - a) / ((c * b + d) - (c * a + d))) + d = 0"
proof -
  from assms have "c \<noteq> 0" "a \<noteq> b"
    by (auto simp: mult_less_0_iff)
  then have "(c * b + d) - (c * a + d) \<noteq> 0" by simp
  then show ?thesis by (simp add: field_simps)
qed

end
