(* ===== verification/Numerics.thy ===== *)
theory Numerics
  imports Prelude
begin

text \<open>
  The numerical primitives that \<open>adams_patch.py\<close> calls but does not define:
  \<open>scipy.integrate.quad\<close>, \<open>scipy.optimize.brentq\<close> (called with
  \<open>full_output=True\<close>), \<open>numpy.linspace\<close> and \<open>ndarray.max\<close>. The two scipy
  routines are an interface, the record \<open>numlib\<close>: every operation of the
  program takes a \<open>numlib\<close> and its theorems assume only the contracts stated
  here (\<open>quad_additive\<close>, \<open>quad_positive\<close>, \<open>brentq_sound\<close>,
  \<open>brentq_checks\<close>, \<open>brentq_affine\<close>). \<open>ref_lib\<close> is one implementation
  (a one-panel trapezoid rule and a fuel-bounded secant/regula-falsi search with
  scipy's bracket check and maxiter = 100) that satisfies every contract on the
  functions the witnesses use.
\<close>

record root_results =
  iterations :: nat
  converged :: bool

record numlib =
  quad :: "curve \<Rightarrow> real \<Rightarrow> real \<Rightarrow> real \<times> real"
  brentq :: "(real \<Rightarrow> real result) \<Rightarrow> real \<Rightarrow> real \<Rightarrow> (real \<times> root_results) result"

abbreviation brentq_bracket_error :: py_error where
  "brentq_bracket_error \<equiv> ValueError ''f(a) and f(b) must have different signs''"

subsection \<open>Contracts\<close>

text \<open>\<open>quad\<close> integrates: its value is additive over adjacent intervals.\<close>

definition quad_additive :: "numlib \<Rightarrow> curve \<Rightarrow> bool" where
  "quad_additive lib f \<longleftrightarrow>
     (\<forall>a b c. fst (quad lib f a b) + fst (quad lib f b c) = fst (quad lib f a c))"

text \<open>For a width function that is positive, the area of a proper interval is positive.\<close>

definition quad_positive :: "numlib \<Rightarrow> curve \<Rightarrow> bool" where
  "quad_positive lib f \<longleftrightarrow> (\<forall>a b. a < b \<longrightarrow> 0 < fst (quad lib f a b))"

text \<open>\<open>quad\<close> is exact on affine integrands (Gauss-Kronrod rules are).\<close>

definition quad_exact_affine :: "numlib \<Rightarrow> bool" where
  "quad_exact_affine lib \<longleftrightarrow>
     (\<forall>c d a b. fst (quad lib (\<lambda>x. c * x + d) a b) = c * (b\<^sup>2 - a\<^sup>2) / 2 + d * (b - a))"

text \<open>A root that \<open>brentq\<close> returns is a zero of the target inside the bracket.\<close>

definition brentq_sound :: "numlib \<Rightarrow> bool" where
  "brentq_sound lib \<longleftrightarrow>
     (\<forall>g a b x r. brentq lib g a b = Inr (x, r) \<longrightarrow>
        g x = Inr 0 \<and> min a b \<le> x \<and> x \<le> max a b)"

text \<open>
  \<open>brentq\<close> first evaluates the target at \<open>a\<close>, then at \<open>b\<close> (an exception
  there propagates), and raises \<open>ValueError\<close> when the two values have the same
  strict sign.
\<close>

definition brentq_checks :: "numlib \<Rightarrow> bool" where
  "brentq_checks lib \<longleftrightarrow>
     (\<forall>g a b. brentq lib g a b =
        rbind (g a) (\<lambda>fa. rbind (g b) (\<lambda>fb.
          if 0 < fa * fb then Inl brentq_bracket_error else brentq lib g a b)))"

text \<open>On an affine target with a sign change \<open>brentq\<close> returns (Brent's first secant step is exact).\<close>

definition brentq_affine :: "numlib \<Rightarrow> bool" where
  "brentq_affine lib \<longleftrightarrow>
     (\<forall>c d a b. (c * a + d) * (c * b + d) \<le> 0 \<longrightarrow>
        (\<exists>x r. brentq lib (\<lambda>x. Inr (c * x + d)) a b = Inr (x, r)))"

text \<open>
  \<open>brentq\<close> evaluates the target only inside the bracket: two targets that
  agree on \<open>[min a b, max a b]\<close> give the same result.
\<close>

definition brentq_local :: "numlib \<Rightarrow> bool" where
  "brentq_local lib \<longleftrightarrow>
     (\<forall>g g' a b. (\<forall>x. min a b \<le> x \<and> x \<le> max a b \<longrightarrow> g x = g' x) \<longrightarrow>
        brentq lib g a b = brentq lib g' a b)"

definition scipy_like :: "numlib \<Rightarrow> bool" where
  "scipy_like lib \<longleftrightarrow>
     brentq_sound lib \<and> brentq_checks lib \<and> brentq_affine lib \<and> quad_exact_affine lib"

subsection \<open>numpy helpers\<close>

text \<open>\<open>numpy.linspace(start, stop, num)\<close>: \<open>num\<close> points, the last one set to \<open>stop\<close>.\<close>

definition np_linspace :: "real \<Rightarrow> real \<Rightarrow> nat \<Rightarrow> real list" where
  "np_linspace start stop num =
     (if num = 0 then []
      else if num = 1 then [start]
      else map (\<lambda>i. of_nat i * ((stop - start) / of_nat (num - 1)) + start) [0..<num - 1] @ [stop])"

text \<open>\<open>ndarray.max()\<close>; on an empty array numpy raises.\<close>

fun np_max :: "real list \<Rightarrow> real result" where
  "np_max [] = Inl (ValueError ''zero-size array to reduction operation maximum which has no identity'')"
| "np_max (x # xs) = Inr (fold max xs x)"

subsection \<open>A reference implementation\<close>

definition trapezoid_quad :: "curve \<Rightarrow> real \<Rightarrow> real \<Rightarrow> real \<times> real" where
  "trapezoid_quad f a b = ((b - a) * (f a + f b) / 2, 0)"

fun secant_iter ::
  "nat \<Rightarrow> (real \<Rightarrow> real result) \<Rightarrow> real \<Rightarrow> real \<Rightarrow> real \<Rightarrow> real \<Rightarrow> (real \<times> root_results) result"
where
  "secant_iter 0 g a fa b fb = Inl (RuntimeError ''Failed to converge after 100 iterations'')"
| "secant_iter (Suc n) g a fa b fb =
     (let x = b - fb * (b - a) / (fb - fa) in
      rbind (g x) (\<lambda>fx.
        if fx = 0 then Inr (x, \<lparr>iterations = 100 - n, converged = True\<rparr>)
        else if fa * fx < 0 then secant_iter n g a fa x fx
        else secant_iter n g x fx b fb))"

definition ref_brentq :: "(real \<Rightarrow> real result) \<Rightarrow> real \<Rightarrow> real \<Rightarrow> (real \<times> root_results) result" where
  "ref_brentq g a b =
     rbind (g a) (\<lambda>fa. rbind (g b) (\<lambda>fb.
       if 0 < fa * fb then Inl brentq_bracket_error
       else if fa = 0 then Inr (a, \<lparr>iterations = 0, converged = True\<rparr>)
       else if fb = 0 then Inr (b, \<lparr>iterations = 0, converged = True\<rparr>)
       else secant_iter 100 g a fa b fb))"

definition ref_lib :: numlib where
  "ref_lib = \<lparr>quad = trapezoid_quad, brentq = ref_brentq\<rparr>"

subsection \<open>Consequences of the quad contracts\<close>

lemma quad_additiveD:
  "quad_additive lib f \<Longrightarrow> fst (quad lib f a b) + fst (quad lib f b c) = fst (quad lib f a c)"
  by (simp add: quad_additive_def)

lemma quad_same:
  assumes "quad_additive lib f"
  shows "fst (quad lib f a a) = 0"
  using quad_additiveD [OF assms, of a a a] by simp

lemma quad_swap:
  assumes "quad_additive lib f"
  shows "fst (quad lib f b a) = - fst (quad lib f a b)"
  using quad_additiveD [OF assms, of a b a] quad_same [OF assms, of a] by simp

lemma quad_diff:
  assumes "quad_additive lib f"
  shows "fst (quad lib f a c) - fst (quad lib f a b) = fst (quad lib f b c)"
  using quad_additiveD [OF assms, of a b c] by simp

text \<open>With a positive width function the cumulative area is strictly increasing.\<close>

lemma quad_pos_iff:
  assumes "quad_additive lib f" "quad_positive lib f"
  shows "0 < fst (quad lib f a b) \<longleftrightarrow> a < b"
proof
  assume pos: "0 < fst (quad lib f a b)"
  show "a < b"
  proof (rule ccontr)
    assume "\<not> a < b"
    then consider "b < a" | "a = b" by linarith
    then show False
    proof cases
      case 1
      then have "0 < fst (quad lib f b a)" using assms(2) by (simp add: quad_positive_def)
      with pos quad_swap [OF assms(1), of a b] show False by simp
    next
      case 2
      with pos quad_same [OF assms(1)] show False by simp
    qed
  qed
next
  assume "a < b"
  with assms(2) show "0 < fst (quad lib f a b)" by (simp add: quad_positive_def)
qed

lemma cumulative_area_strict_mono:
  assumes "quad_additive lib f" "quad_positive lib f"
  shows "strict_mono (\<lambda>x. fst (quad lib f x0 x))"
proof (rule strict_monoI)
  fix x y :: real
  assume "x < y"
  then have "0 < fst (quad lib f x y)" using assms(2) by (simp add: quad_positive_def)
  with quad_additiveD [OF assms(1), of x0 x y] show "fst (quad lib f x0 x) < fst (quad lib f x0 y)"
    by simp
qed

lemma quad_affine_additive:
  assumes "quad_exact_affine lib"
  shows "quad_additive lib (\<lambda>x. c * x + d)"
proof -
  have q: "\<And>a b. fst (quad lib (\<lambda>x. c * x + d) a b) = c * (b\<^sup>2 - a\<^sup>2) / 2 + d * (b - a)"
    using assms unfolding quad_exact_affine_def by blast
  show ?thesis
    unfolding quad_additive_def q by (simp add: power2_eq_square field_simps)
qed

lemma quad_const:
  assumes "quad_exact_affine lib"
  shows "fst (quad lib (\<lambda>x. d) a b) = d * (b - a)"
proof -
  have "fst (quad lib (\<lambda>x. 0 * x + d) a b) = 0 * (b\<^sup>2 - a\<^sup>2) / 2 + d * (b - a)"
    using assms unfolding quad_exact_affine_def by blast
  then show ?thesis by simp
qed

lemma quad_const_additive:
  assumes "quad_exact_affine lib"
  shows "quad_additive lib (\<lambda>x. d)"
  unfolding quad_additive_def quad_const [OF assms] by (simp add: algebra_simps)

lemma quad_const_positive:
  assumes "quad_exact_affine lib" "0 < d"
  shows "quad_positive lib (\<lambda>x. d)"
  unfolding quad_positive_def quad_const [OF assms(1)] using assms(2) by simp

lemma brentq_soundD:
  "brentq_sound lib \<Longrightarrow> brentq lib g a b = Inr (x, r) \<Longrightarrow>
     g x = Inr 0 \<and> min a b \<le> x \<and> x \<le> max a b"
  unfolding brentq_sound_def by blast

text \<open>On an affine target with a sign change \<open>brentq\<close> returns exactly its root.\<close>

lemma brentq_affine_root:
  assumes "brentq_sound lib" "brentq_affine lib" "s \<noteq> 0" "(s * a + d) * (s * b + d) \<le> 0"
  shows "\<exists>r. brentq lib (\<lambda>x. Inr (s * x + d)) a b = Inr (- d / s, r)"
proof -
  obtain x r where br: "brentq lib (\<lambda>x. Inr (s * x + d)) a b = Inr (x, r)"
    using assms(2,4) unfolding brentq_affine_def by blast
  have "s * x + d = 0" using brentq_soundD [OF assms(1) br] by simp
  with assms(3) have "x = - d / s" by (simp add: field_simps)
  with br show ?thesis by blast
qed

lemma brentq_localD:
  assumes "brentq_local lib" "\<And>x. min a b \<le> x \<Longrightarrow> x \<le> max a b \<Longrightarrow> g x = g' x"
  shows "brentq lib g a b = brentq lib g' a b"
  using assms unfolding brentq_local_def by blast

lemma brentq_checks_eq:
  "brentq_checks lib \<Longrightarrow> brentq lib g a b =
     rbind (g a) (\<lambda>fa. rbind (g b) (\<lambda>fb.
       if 0 < fa * fb then Inl brentq_bracket_error else brentq lib g a b))"
  unfolding brentq_checks_def by blast

lemma brentq_checks_Inl_a:
  "brentq_checks lib \<Longrightarrow> g a = Inl e \<Longrightarrow> brentq lib g a b = Inl e"
  by (subst brentq_checks_eq) simp_all

lemma brentq_checks_Inl_b:
  "brentq_checks lib \<Longrightarrow> g a = Inr fa \<Longrightarrow> g b = Inl e \<Longrightarrow> brentq lib g a b = Inl e"
  by (subst brentq_checks_eq) simp_all

lemma brentq_checks_same_sign:
  "brentq_checks lib \<Longrightarrow> g a = Inr fa \<Longrightarrow> g b = Inr fb \<Longrightarrow> 0 < fa * fb \<Longrightarrow>
     brentq lib g a b = Inl brentq_bracket_error"
  by (subst brentq_checks_eq) simp_all

subsection \<open>numpy helpers\<close>

lemma length_np_linspace [simp]: "length (np_linspace a b n) = n"
  by (simp add: np_linspace_def)

lemma np_linspace_ne [simp]: "0 < n \<Longrightarrow> np_linspace a b n \<noteq> []"
  by (metis length_np_linspace list.size(3) less_irrefl)

lemma np_max_const:
  "xs \<noteq> [] \<Longrightarrow> np_max (map (\<lambda>x. c) xs) = Inr c"
proof (cases xs)
  case (Cons y ys)
  have "fold max (map (\<lambda>x. c) ys) c = c" by (induction ys) simp_all
  with Cons show ?thesis by simp
qed simp

lemma fold_max_ge: "(z::real) \<le> fold max ys z \<and> (\<forall>y\<in>set ys. y \<le> fold max ys z)"
proof (induction ys arbitrary: z)
  case Nil
  then show ?case by simp
next
  case (Cons a ys)
  have "max a z \<le> fold max ys (max a z) \<and> (\<forall>y\<in>set ys. y \<le> fold max ys (max a z))"
    by (rule Cons.IH)
  then show ?case
    by (auto intro: order_trans [OF max.cobounded1] order_trans [OF max.cobounded2])
qed

lemma np_max_ge: "np_max xs = Inr m \<Longrightarrow> y \<in> set xs \<Longrightarrow> y \<le> m"
  by (cases xs) (auto dest: fold_max_ge [THEN conjunct2, rule_format] simp: fold_max_ge)

subsection \<open>The reference implementation meets the contracts\<close>

lemma sign_change_step:
  fixes fa fb fx :: real
  assumes "fa * fb < 0" "fx \<noteq> 0" "\<not> fa * fx < 0"
  shows "fx * fb < 0"
  using assms by (auto simp: mult_less_0_iff not_less le_less)

lemma secant_iter_sound:
  assumes "g a = Inr fa" "g b = Inr fb" "fa * fb < 0"
    and "secant_iter n g a fa b fb = Inr (x, r)"
  shows "g x = Inr 0 \<and> min a b \<le> x \<and> x \<le> max a b"
  using assms
proof (induction n arbitrary: a fa b fb)
  case 0
  then show ?case by simp
next
  case (Suc n)
  define y where "y = b - fb * (b - a) / (fb - fa)"
  have y: "min a b \<le> y \<and> y \<le> max a b"
    unfolding y_def using secant_between [OF Suc.prems(3)] .
  have "rbind (g y) (\<lambda>fy. if fy = 0 then Inr (y, \<lparr>iterations = 100 - n, converged = True\<rparr>)
            else if fa * fy < 0 then secant_iter n g a fa y fy
            else secant_iter n g y fy b fb) = Inr (x, r)"
    using Suc.prems(4) unfolding y_def by (simp add: Let_def)
  then obtain fy where gy: "g y = Inr fy" and
    rest: "(if fy = 0 then Inr (y, \<lparr>iterations = 100 - n, converged = True\<rparr>)
            else if fa * fy < 0 then secant_iter n g a fa y fy
            else secant_iter n g y fy b fb) = Inr (x, r)"
    unfolding rbind_eq_Inr by blast
  consider "fy = 0" | "fy \<noteq> 0" "fa * fy < 0" | "fy \<noteq> 0" "\<not> fa * fy < 0" by blast
  then show ?case
  proof cases
    case 1
    with rest gy y show ?thesis by simp
  next
    case 2
    with rest have "secant_iter n g a fa y fy = Inr (x, r)" by simp
    from Suc.IH [OF Suc.prems(1) gy 2(2) this] y show ?thesis by auto
  next
    case 3
    with rest have "secant_iter n g y fy b fb = Inr (x, r)" by simp
    from Suc.IH [OF gy Suc.prems(2) sign_change_step [OF Suc.prems(3) 3] this] y
    show ?thesis by auto
  qed
qed

lemma secant_iter_numeral:
  "secant_iter (numeral k) g a fa b fb =
     (let x = b - fb * (b - a) / (fb - fa) in
      rbind (g x) (\<lambda>fx.
        if fx = 0 then Inr (x, \<lparr>iterations = 100 - pred_numeral k, converged = True\<rparr>)
        else if fa * fx < 0 then secant_iter (pred_numeral k) g a fa x fx
        else secant_iter (pred_numeral k) g x fx b fb))"
  by (simp add: numeral_eq_Suc)

lemma ref_lib_brentq_sound: "brentq_sound ref_lib"
  unfolding brentq_sound_def
proof (intro allI impI)
  fix g a b x r
  assume "brentq ref_lib g a b = Inr (x, r)"
  then obtain fa fb where ga: "g a = Inr fa" and gb: "g b = Inr fb" and
    res: "(if 0 < fa * fb then Inl brentq_bracket_error
           else if fa = 0 then Inr (a, \<lparr>iterations = 0, converged = True\<rparr>)
           else if fb = 0 then Inr (b, \<lparr>iterations = 0, converged = True\<rparr>)
           else secant_iter 100 g a fa b fb) = Inr (x, r)"
    by (auto simp: ref_lib_def ref_brentq_def rbind_eq_Inr)
  show "g x = Inr 0 \<and> min a b \<le> x \<and> x \<le> max a b"
  proof (cases "0 < fa * fb \<or> fa = 0 \<or> fb = 0")
    case True
    with res ga gb show ?thesis by (auto split: if_splits)
  next
    case False
    then have "fa * fb < 0" by (auto simp: not_less le_less)
    with False res secant_iter_sound [OF ga gb] show ?thesis by simp
  qed
qed

lemma ref_lib_brentq_checks: "brentq_checks ref_lib"
  unfolding brentq_checks_def
proof (intro allI)
  fix g a b
  show "brentq ref_lib g a b =
     rbind (g a) (\<lambda>fa. rbind (g b) (\<lambda>fb.
       if 0 < fa * fb then Inl brentq_bracket_error else brentq ref_lib g a b))"
    by (cases "g a"; cases "g b") (simp_all add: ref_lib_def ref_brentq_def)
qed

lemma ref_lib_brentq_affine: "brentq_affine ref_lib"
  unfolding brentq_affine_def
proof (intro allI impI)
  fix c d a b :: real
  assume sc: "(c * a + d) * (c * b + d) \<le> 0"
  show "\<exists>x r. brentq ref_lib (\<lambda>x. Inr (c * x + d)) a b = Inr (x, r)"
  proof (cases "c * a + d = 0 \<or> c * b + d = 0")
    case True
    with sc show ?thesis by (auto simp: ref_lib_def ref_brentq_def)
  next
    case False
    with sc have lt: "(c * a + d) * (c * b + d) < 0" by (simp add: le_less)
    have "\<exists>r. secant_iter 100 (\<lambda>x. Inr (c * x + d)) a (c * a + d) b (c * b + d)
               = Inr (b - (c * b + d) * (b - a) / ((c * b + d) - (c * a + d)), r)"
      using secant_affine_root [OF lt] by (simp add: numeral_eq_Suc Let_def)
    with False lt show ?thesis by (auto simp: ref_lib_def ref_brentq_def)
  qed
qed

lemma ref_lib_quad_exact_affine: "quad_exact_affine ref_lib"
  by (simp add: quad_exact_affine_def ref_lib_def trapezoid_quad_def power2_eq_square field_simps)

lemma ref_lib_ops [simp]: "brentq ref_lib = ref_brentq" "quad ref_lib = trapezoid_quad"
  by (simp_all add: ref_lib_def)

lemma scipy_like_ref_lib: "scipy_like ref_lib"
  by (simp add: scipy_like_def ref_lib_brentq_sound ref_lib_brentq_checks
      ref_lib_brentq_affine ref_lib_quad_exact_affine)

lemma secant_iter_local:
  assumes "\<And>x. min a b \<le> x \<Longrightarrow> x \<le> max a b \<Longrightarrow> g x = g' x" "fa * fb < 0"
  shows "secant_iter n g a fa b fb = secant_iter n g' a fa b fb"
  using assms
proof (induction n arbitrary: a fa b fb)
  case (Suc n)
  define y where "y = b - fb * (b - a) / (fb - fa)"
  have y: "min a b \<le> y" "y \<le> max a b"
    unfolding y_def using secant_between [OF Suc.prems(2)] by simp_all
  have gy: "g y = g' y" using Suc.prems(1) y by blast
  have left: "secant_iter n g a fa y fy = secant_iter n g' a fa y fy" if "fa * fy < 0" for fy
    using y that by (intro Suc.IH) (auto intro: Suc.prems(1))
  have right: "secant_iter n g y fy b fb = secant_iter n g' y fy b fb"
    if "fy \<noteq> 0" "\<not> fa * fy < 0" for fy
    using y sign_change_step [OF Suc.prems(2) that] by (intro Suc.IH) (auto intro: Suc.prems(1))
  show ?case
    by (cases "g y") (auto simp: Let_def gy left right simp flip: y_def)
qed simp

lemma ref_lib_brentq_local: "brentq_local ref_lib"
  unfolding brentq_local_def
proof (intro allI impI)
  fix g g' :: "real \<Rightarrow> real result" and a b :: real
  assume eq: "\<forall>x. min a b \<le> x \<and> x \<le> max a b \<longrightarrow> g x = g' x"
  then have ga: "g a = g' a" and gb: "g b = g' b" by auto
  have "secant_iter 100 g a fa b fb = secant_iter 100 g' a fa b fb" if "fa * fb < 0" for fa fb
    using eq that by (intro secant_iter_local) auto
  then show "brentq ref_lib g a b = brentq ref_lib g' a b"
    by (cases "g a"; cases "g b") (auto simp: ref_lib_def ref_brentq_def ga gb not_less le_less)
qed

end
