(* ===== verification/AreaInverse.thy ===== *)
theory AreaInverse
  imports Numerics
begin

text \<open>
  The two leaf steps of the Adam's Patch pipeline (\<open>src/adams_patch/adams_patch.py\<close>):
  \<open>area_under_curve\<close> (the first component of \<open>quad\<close>) and the numerical
  inverse of a function by root finding, \<open>compute_inverse_function_value\<close>,
  which \<open>inverse_area_under_curve\<close> applies to the cumulative area. The
  lemmas show what an inverse that returns has found (a preimage inside the
  bracket), that the inverse of the cumulative area is a round trip when the
  width function is positive, and that for a constant width the inverse returns.
\<close>

definition area_under_curve :: "numlib \<Rightarrow> curve \<Rightarrow> real \<Rightarrow> real \<Rightarrow> real" where
  "area_under_curve lib f xmin xmax = (let (integral, _) = quad lib f xmin xmax in integral)"

definition compute_inverse_function_value ::
  "numlib \<Rightarrow> (real \<Rightarrow> real) \<Rightarrow> real \<Rightarrow> real \<Rightarrow> real \<Rightarrow> real result"
where
  "compute_inverse_function_value lib fn y xmin xmax =
     (let target = (\<lambda>x. Inr (fn x - y))
      in rbind (brentq lib target xmin xmax) (\<lambda>(x_root, _). Inr x_root))"

definition inverse_area_under_curve ::
  "numlib \<Rightarrow> (real \<Rightarrow> real) \<Rightarrow> real \<Rightarrow> real \<Rightarrow> real \<Rightarrow> real result"
where
  "inverse_area_under_curve lib area_fun area xmin xmax =
     (let x_area = compute_inverse_function_value lib area_fun area xmin xmax in x_area)"

text \<open>The cumulative area from \<open>xmin\<close>, the \<open>lambda x: area_under_curve(f, xmin, x)\<close> of the code.\<close>

abbreviation cumulative_area :: "numlib \<Rightarrow> curve \<Rightarrow> real \<Rightarrow> real \<Rightarrow> real" where
  "cumulative_area lib f xmin \<equiv> (\<lambda>x. area_under_curve lib f xmin x)"

lemma area_under_curve_quad [simp]: "area_under_curve lib f a b = fst (quad lib f a b)"
  by (simp add: area_under_curve_def split_def)

lemma inverse_area_under_curve_eq [simp]:
  "inverse_area_under_curve lib area_fun area xmin xmax =
     compute_inverse_function_value lib area_fun area xmin xmax"
  by (simp add: inverse_area_under_curve_def)

lemma compute_inverse_Inr:
  "compute_inverse_function_value lib fn y xmin xmax = Inr x \<longleftrightarrow>
     (\<exists>r. brentq lib (\<lambda>x. Inr (fn x - y)) xmin xmax = Inr (x, r))"
  by (auto simp: compute_inverse_function_value_def rbind_eq_Inr)

lemma compute_inverse_Inl:
  "compute_inverse_function_value lib fn y xmin xmax = Inl e \<longleftrightarrow>
     brentq lib (\<lambda>x. Inr (fn x - y)) xmin xmax = Inl e"
  by (auto simp: compute_inverse_function_value_def rbind_eq_Inl)

text \<open>What a returned inverse has found: a preimage of \<open>y\<close> inside the bracket.\<close>

lemma compute_inverse_sound:
  assumes "brentq_sound lib" "compute_inverse_function_value lib fn y xmin xmax = Inr x"
  shows "fn x = y \<and> min xmin xmax \<le> x \<and> x \<le> max xmin xmax"
proof -
  from assms(2) obtain r where "brentq lib (\<lambda>x. Inr (fn x - y)) xmin xmax = Inr (x, r)"
    by (auto simp: compute_inverse_Inr)
  from brentq_soundD [OF assms(1) this] show ?thesis by simp
qed

text \<open>
  The inverse of the cumulative area undoes it: for a positive width function
  the cumulative area is injective, so a returned preimage is the point itself.
\<close>

lemma inverse_area_roundtrip:
  assumes "quad_additive lib f" "quad_positive lib f" "brentq_sound lib"
    and "inverse_area_under_curve lib (cumulative_area lib f xmin)
           (area_under_curve lib f xmin x0) xmin xmax = Inr x"
  shows "x = x0"
proof -
  have "area_under_curve lib f xmin x = area_under_curve lib f xmin x0"
    using compute_inverse_sound [OF assms(3) assms(4) [unfolded inverse_area_under_curve_eq]]
    by blast
  then show ?thesis
    using strict_mono_eq [OF cumulative_area_strict_mono [OF assms(1,2)]] by simp
qed

text \<open>For a constant width the cumulative area is affine, and the inverse returns.\<close>

lemma cumulative_area_const:
  assumes "quad_exact_affine lib"
  shows "(\<lambda>x. Inr (area_under_curve lib (\<lambda>_. c) xmin x - y) :: real result)
           = (\<lambda>x. Inr (c * x + (- c * xmin - y)))"
  unfolding area_under_curve_quad quad_const [OF assms] by (simp add: algebra_simps)

lemma inverse_area_const:
  assumes "scipy_like lib" "0 < c" "xmin \<le> x0" "x0 \<le> xmax"
  shows "inverse_area_under_curve lib (cumulative_area lib (\<lambda>_. c) xmin)
           (c * (x0 - xmin)) xmin xmax = Inr x0"
proof -
  let ?d = "- c * xmin - c * (x0 - xmin)"
  have lib: "brentq_sound lib" "brentq_affine lib" "quad_exact_affine lib"
    using assms(1) by (simp_all add: scipy_like_def)
  have "(c * xmin + ?d) * (c * xmax + ?d) = (c * c) * ((xmin - x0) * (xmax - x0))"
    by (simp add: algebra_simps)
  also have "\<dots> \<le> 0"
    using assms(3,4) by (intro mult_nonneg_nonpos mult_nonpos_nonneg) simp_all
  finally have "(c * xmin + ?d) * (c * xmax + ?d) \<le> 0" .
  then obtain x r where br: "brentq lib (\<lambda>x. Inr (c * x + ?d)) xmin xmax = Inr (x, r)"
    using lib(2) unfolding brentq_affine_def by blast
  then have "c * x + ?d = 0"
    using brentq_soundD [OF lib(1) br] by simp
  with assms(2) have "x = x0" by (simp add: algebra_simps)
  have eq: "(\<lambda>x. Inr (area_under_curve lib (\<lambda>_. c) xmin x - c * (x0 - xmin)) :: real result)
            = (\<lambda>x. Inr (c * x + ?d))"
    by (rule cumulative_area_const [OF lib(3)])
  show ?thesis
    unfolding inverse_area_under_curve_eq compute_inverse_Inr eq using br \<open>x = x0\<close> by blast
qed

text \<open>Evaluation rules for running the pipeline on the reference library.\<close>

lemmas ref_lib_eval = ref_lib_def trapezoid_quad_def ref_brentq_def
  compute_inverse_function_value_def Let_def

end
