(* ===== verification/CoveredArea.thy ===== *)
theory CoveredArea
  imports AreaInverse
begin

text \<open>
  \<open>compute_covered_area\<close> (\<open>src/adams_patch/adams_patch.py\<close>): starting
  from one patch of area \<open>area_patch\<close> at the left edge, the \<open>for\<close> loop runs
  \<open>npatches - 1\<close> times; each iteration inverts the cumulative area at the
  running total (the end of the current patch), places a separator of fixed
  width \<open>w\<close> there and adds the separator's area and the next patch's area to
  the total. The loop state (\<open>total_area_covered\<close>, \<open>separator_locations\<close>) is
  the record \<open>cover_state\<close>; \<open>cover_step\<close> is one iteration, \<open>cover_loop\<close>
  the loop, and an exception of the root finder aborts the loop.
\<close>

record cover_state =
  total_area_covered :: real
  separator_locations :: "interval list"

definition cover_step ::
  "numlib \<Rightarrow> curve \<Rightarrow> real \<Rightarrow> real \<Rightarrow> real \<Rightarrow> real \<Rightarrow> cover_state \<Rightarrow> cover_state result"
where
  "cover_step lib f area_patch w xmin xmax st =
     rbind (inverse_area_under_curve lib (\<lambda>x. area_under_curve lib f xmin x)
              (total_area_covered st) xmin xmax)
       (\<lambda>x_end_of_patch.
          let x_end_of_separator = x_end_of_patch + w;
              area_separator = area_under_curve lib f x_end_of_patch x_end_of_separator
          in Inr (st\<lparr>total_area_covered := total_area_covered st + (area_separator + area_patch),
                     separator_locations := separator_locations st
                                             @ [(x_end_of_patch, x_end_of_separator)]\<rparr>))"

primrec cover_loop ::
  "numlib \<Rightarrow> curve \<Rightarrow> real \<Rightarrow> real \<Rightarrow> real \<Rightarrow> real \<Rightarrow> nat \<Rightarrow> cover_state \<Rightarrow> cover_state result"
where
  "cover_loop lib f area_patch w xmin xmax 0 st = Inr st"
| "cover_loop lib f area_patch w xmin xmax (Suc n) st =
     rbind (cover_step lib f area_patch w xmin xmax st) (cover_loop lib f area_patch w xmin xmax n)"

definition compute_covered_area ::
  "numlib \<Rightarrow> curve \<Rightarrow> real \<Rightarrow> int \<Rightarrow> real \<Rightarrow> real \<Rightarrow> real \<Rightarrow> (real \<times> interval list) result"
where
  "compute_covered_area lib f area_patch npatches w xmin xmax =
     rbind (cover_loop lib f area_patch w xmin xmax (nat (npatches - 1))
              \<lparr>total_area_covered = area_patch, separator_locations = []\<rparr>)
       (\<lambda>st. Inr (total_area_covered st, separator_locations st))"

subsection \<open>Vocabulary of the layout\<close>

text \<open>
  The patches are the gaps between the separators: the first runs from \<open>xmin\<close>
  to the first separator, each next one from the end of a separator to the start
  of the following one (the last patch, after the last separator, is left open
  by the code). \<open>frontier\<close> is where the placed layout ends.
\<close>

fun patch_intervals :: "real \<Rightarrow> interval list \<Rightarrow> interval list" where
  "patch_intervals a [] = []"
| "patch_intervals a ((s, e) # seps) = (a, s) # patch_intervals e seps"

definition frontier :: "real \<Rightarrow> interval list \<Rightarrow> real" where
  "frontier xmin seps = last (xmin # map snd seps)"

definition placement_points :: "interval list \<Rightarrow> real list" where
  "placement_points seps = concat (map (\<lambda>(s, e). [s, e]) seps)"

definition separator_area_sum :: "numlib \<Rightarrow> curve \<Rightarrow> interval list \<Rightarrow> real" where
  "separator_area_sum lib f seps = sum_list (map (\<lambda>(s, e). area_under_curve lib f s e) seps)"

definition accounting_inv :: "numlib \<Rightarrow> curve \<Rightarrow> real \<Rightarrow> real \<Rightarrow> cover_state \<Rightarrow> bool" where
  "accounting_inv lib f p w st \<longleftrightarrow>
     (\<forall>(s, e) \<in> set (separator_locations st). e = s + w) \<and>
     total_area_covered st = p * of_nat (1 + length (separator_locations st))
                             + separator_area_sum lib f (separator_locations st)"

definition layout_inv :: "numlib \<Rightarrow> curve \<Rightarrow> real \<Rightarrow> real \<Rightarrow> real \<Rightarrow> cover_state \<Rightarrow> bool" where
  "layout_inv lib f p xmin xmax st \<longleftrightarrow>
     total_area_covered st = area_under_curve lib f xmin (frontier xmin (separator_locations st)) + p \<and>
     (\<forall>(a, b) \<in> set (patch_intervals xmin (separator_locations st)). area_under_curve lib f a b = p) \<and>
     (\<forall>(s, e) \<in> set (separator_locations st). min xmin xmax \<le> s \<and> s \<le> max xmin xmax)"

subsection \<open>One iteration, the loop, the function\<close>

lemma cover_state_eq:
  "st\<lparr>total_area_covered := t, separator_locations := s\<rparr> =
     \<lparr>total_area_covered = t, separator_locations = s\<rparr>"
  by (cases st) simp

lemma cover_step_Inr:
  "cover_step lib f p w xmin xmax st = Inr st' \<longleftrightarrow>
     (\<exists>x. compute_inverse_function_value lib (cumulative_area lib f xmin)
            (total_area_covered st) xmin xmax = Inr x \<and>
          st' = \<lparr>total_area_covered = total_area_covered st + (area_under_curve lib f x (x + w) + p),
                 separator_locations = separator_locations st @ [(x, x + w)]\<rparr>)"
  by (auto simp: cover_step_def rbind_eq_Inr Let_def cover_state_eq simp del: area_under_curve_quad)

lemma cover_step_Inl:
  "cover_step lib f p w xmin xmax st = Inl e \<longleftrightarrow>
     compute_inverse_function_value lib (cumulative_area lib f xmin)
       (total_area_covered st) xmin xmax = Inl e"
  by (auto simp: cover_step_def rbind_eq_Inl Let_def simp del: area_under_curve_quad)

text \<open>A property kept by every iteration holds after the loop.\<close>

lemma cover_loop_invariant:
  assumes step: "\<And>st st'. P st \<Longrightarrow> cover_step lib f p w xmin xmax st = Inr st' \<Longrightarrow> P st'"
    and "P st" and "cover_loop lib f p w xmin xmax n st = Inr st'"
  shows "P st'"
  using assms(2,3)
proof (induction n arbitrary: st)
  case 0
  then show ?case by simp
next
  case (Suc n)
  then obtain st1 where s1: "cover_step lib f p w xmin xmax st = Inr st1"
    and rest: "cover_loop lib f p w xmin xmax n st1 = Inr st'"
    by (auto simp: rbind_eq_Inr)
  from step [OF Suc.prems(1) s1] rest show ?case by (rule Suc.IH)
qed

lemma cover_loop_length:
  "cover_loop lib f p w xmin xmax n st = Inr st' \<Longrightarrow>
     length (separator_locations st') = length (separator_locations st) + n"
proof (induction n arbitrary: st)
  case 0
  then show ?case by simp
next
  case (Suc n)
  then obtain st1 where "cover_step lib f p w xmin xmax st = Inr st1"
    and "cover_loop lib f p w xmin xmax n st1 = Inr st'"
    by (auto simp: rbind_eq_Inr)
  with Suc.IH show ?case by (auto simp: cover_step_Inr)
qed

lemma cover_loop_numeral [simp]:
  "cover_loop lib f p w xmin xmax (numeral k) st =
     rbind (cover_step lib f p w xmin xmax st) (cover_loop lib f p w xmin xmax (pred_numeral k))"
  by (simp add: numeral_eq_Suc)

lemma compute_covered_area_Inr:
  "compute_covered_area lib f p npatches w xmin xmax = Inr (t, seps) \<longleftrightarrow>
     (\<exists>st. cover_loop lib f p w xmin xmax (nat (npatches - 1))
             \<lparr>total_area_covered = p, separator_locations = []\<rparr> = Inr st \<and>
           t = total_area_covered st \<and> seps = separator_locations st)"
  by (auto simp: compute_covered_area_def rbind_eq_Inr)

lemma compute_covered_area_Inl:
  "compute_covered_area lib f p npatches w xmin xmax = Inl e \<longleftrightarrow>
     cover_loop lib f p w xmin xmax (nat (npatches - 1))
       \<lparr>total_area_covered = p, separator_locations = []\<rparr> = Inl e"
  by (auto simp: compute_covered_area_def rbind_eq_Inl)

text \<open>
  The layout facts that hold of every run, whatever the numerical library does:
  the separators have width \<open>w\<close> and the total is one patch per placed
  separator plus the first, plus the separators' areas.
\<close>

lemma cover_step_accounting:
  "accounting_inv lib f p w st \<Longrightarrow> cover_step lib f p w xmin xmax st = Inr st' \<Longrightarrow>
     accounting_inv lib f p w st'"
  by (auto simp: accounting_inv_def cover_step_Inr separator_area_sum_def algebra_simps
      simp del: area_under_curve_quad)

lemma cover_loop_accounting:
  "accounting_inv lib f p w st \<Longrightarrow> cover_loop lib f p w xmin xmax n st = Inr st' \<Longrightarrow>
     accounting_inv lib f p w st'"
  using cover_loop_invariant [of "accounting_inv lib f p w" lib f p w xmin xmax st n st']
    cover_step_accounting by blast

subsection \<open>What every run computes\<close>

lemma compute_covered_area_shape:
  assumes "compute_covered_area lib f area_patch npatches w xmin xmax = Inr (tot, seps)"
  shows "length seps = nat (npatches - 1) \<and>
         accounting_inv lib f area_patch w \<lparr>total_area_covered = tot, separator_locations = seps\<rparr>"
proof -
  from assms obtain st where loop: "cover_loop lib f area_patch w xmin xmax (nat (npatches - 1))
      \<lparr>total_area_covered = area_patch, separator_locations = []\<rparr> = Inr st"
    and t: "tot = total_area_covered st" and s: "seps = separator_locations st"
    by (auto simp: compute_covered_area_Inr)
  have "accounting_inv lib f area_patch w
          \<lparr>total_area_covered = area_patch, separator_locations = []\<rparr>"
    by (simp add: accounting_inv_def separator_area_sum_def)
  from cover_loop_accounting [OF this loop] have "accounting_inv lib f area_patch w st" .
  moreover from cover_loop_length [OF loop] have "length (separator_locations st) = nat (npatches - 1)"
    by simp
  ultimately show ?thesis using t s by (simp add: accounting_inv_def)
qed

text \<open>
  C1. On success, \<open>compute_covered_area\<close> has placed \<open>npatches - 1\<close> separators
  (none when \<open>npatches \<le> 1\<close>), each of width \<open>w\<close>, and the covered area it
  returns is \<open>area_patch\<close> once per patch (one more than the separators) plus
  the area under the curve of every separator.
\<close>

theorem compute_covered_area_accounting:
  assumes "compute_covered_area lib f area_patch npatches w xmin xmax = Inr (tot, seps)"
  shows "length seps = nat (npatches - 1) \<and> (\<forall>(s, e) \<in> set seps. e = s + w) \<and>
         tot = area_patch * of_nat (1 + length seps) + separator_area_sum lib f seps"
  using compute_covered_area_shape [OF assms] by (simp add: accounting_inv_def)

text \<open>The pytest case \<open>test_compute_covered_area\<close>, run on the reference library.\<close>

theorem compute_covered_area_accounting_witness:
  "compute_covered_area ref_lib (\<lambda>_. 1) 1 2 1 0 10 = Inr (3, [(1, 2)]) \<and>
   length [(1::real, 2::real)] = nat (2 - 1) \<and> (2::real) = 1 + 1 \<and>
   (3::real) = 1 * of_nat (1 + length [(1::real, 2::real)]) + separator_area_sum ref_lib (\<lambda>_. 1) [(1, 2)]"
proof -
  have run: "compute_covered_area ref_lib (\<lambda>_. 1) 1 2 1 0 10 = Inr (3, [(1, 2)])"
    by (simp add: compute_covered_area_def cover_step_def ref_lib_eval numeral_eq_Suc)
  show ?thesis using compute_covered_area_accounting [OF run] run by simp
qed

subsection \<open>The layout under the library's contracts\<close>

lemma patch_intervals_snoc:
  "patch_intervals a (seps @ [(s, e)]) = patch_intervals a seps @ [(frontier a seps, s)]"
  by (induction a seps rule: patch_intervals.induct) (simp_all add: frontier_def)

lemma frontier_snoc [simp]: "frontier a (seps @ [(s, e)]) = e"
  by (simp add: frontier_def)

lemma frontier_Nil [simp]: "frontier a [] = a"
  by (simp add: frontier_def)

text \<open>
  One iteration under a sound root finder and an additive \<open>quad\<close>: the
  patch ends where the cumulative area reaches the running total, inside the
  bracket, and the new total is the cumulative area up to the end of the new
  separator plus one patch.
\<close>

lemma cover_step_sound:
  assumes "brentq_sound lib" "quad_additive lib f"
    and "cover_step lib f p w xmin xmax st = Inr st'"
  shows "\<exists>x. area_under_curve lib f xmin x = total_area_covered st \<and>
             min xmin xmax \<le> x \<and> x \<le> max xmin xmax \<and>
             total_area_covered st' = area_under_curve lib f xmin (x + w) + p \<and>
             separator_locations st' = separator_locations st @ [(x, x + w)]"
proof -
  from assms(3) obtain x where inv: "compute_inverse_function_value lib (cumulative_area lib f xmin)
      (total_area_covered st) xmin xmax = Inr x"
    and st': "st' = \<lparr>total_area_covered = total_area_covered st + (area_under_curve lib f x (x + w) + p),
                   separator_locations = separator_locations st @ [(x, x + w)]\<rparr>"
    by (auto simp: cover_step_Inr simp del: area_under_curve_quad)
  from compute_inverse_sound [OF assms(1) inv]
  have x: "area_under_curve lib f xmin x = total_area_covered st"
    "min xmin xmax \<le> x" "x \<le> max xmin xmax" by simp_all
  have "total_area_covered st' = area_under_curve lib f xmin (x + w) + p"
    using st' x(1) quad_additiveD [OF assms(2), of xmin x "x + w"] by simp
  with x st' show ?thesis by auto
qed

lemma layout_inv_init:
  "quad_additive lib f \<Longrightarrow>
     layout_inv lib f p xmin xmax \<lparr>total_area_covered = p, separator_locations = []\<rparr>"
  by (simp add: layout_inv_def quad_same)

lemma cover_step_layout:
  assumes "brentq_sound lib" "quad_additive lib f"
    and "layout_inv lib f p xmin xmax st" "cover_step lib f p w xmin xmax st = Inr st'"
  shows "layout_inv lib f p xmin xmax st'"
proof -
  obtain x where x: "area_under_curve lib f xmin x = total_area_covered st"
      "min xmin xmax \<le> x" "x \<le> max xmin xmax"
    and t': "total_area_covered st' = area_under_curve lib f xmin (x + w) + p"
    and s': "separator_locations st' = separator_locations st @ [(x, x + w)]"
    using cover_step_sound [OF assms(1,2,4)] by blast
  let ?fr = "frontier xmin (separator_locations st)"
  have "area_under_curve lib f ?fr x = area_under_curve lib f xmin x - area_under_curve lib f xmin ?fr"
    using quad_diff [OF assms(2), of xmin x ?fr] by simp
  also have "\<dots> = p"
    using x(1) assms(3) by (simp add: layout_inv_def)
  finally have "area_under_curve lib f ?fr x = p" .
  with assms(3) x t' s' show ?thesis
    by (simp add: layout_inv_def patch_intervals_snoc del: area_under_curve_quad)
qed

lemma compute_covered_area_layout:
  assumes "brentq_sound lib" "quad_additive lib f"
    and "compute_covered_area lib f area_patch npatches w xmin xmax = Inr (tot, seps)"
  shows "layout_inv lib f area_patch xmin xmax \<lparr>total_area_covered = tot, separator_locations = seps\<rparr>"
proof -
  from assms(3) obtain st where loop: "cover_loop lib f area_patch w xmin xmax (nat (npatches - 1))
      \<lparr>total_area_covered = area_patch, separator_locations = []\<rparr> = Inr st"
    and "tot = total_area_covered st" "seps = separator_locations st"
    by (auto simp: compute_covered_area_Inr)
  moreover have "layout_inv lib f area_patch xmin xmax st"
    using cover_loop_invariant [of "layout_inv lib f area_patch xmin xmax", OF _ _ loop]
      cover_step_layout [OF assms(1,2)] layout_inv_init [OF assms(2)] by blast
  ultimately show ?thesis by (simp add: layout_inv_def)
qed

lemma ref_lib_const_contracts:
  "brentq_sound ref_lib" "brentq_checks ref_lib"
  "quad_additive ref_lib (\<lambda>_. c)" "0 < c \<Longrightarrow> quad_positive ref_lib (\<lambda>_. c)"
  by (simp_all add: ref_lib_brentq_sound ref_lib_brentq_checks
      quad_const_additive [OF ref_lib_quad_exact_affine]
      quad_const_positive [OF ref_lib_quad_exact_affine])

lemma ref_lib_three_patches:
  "compute_covered_area ref_lib (\<lambda>_. 1) 1 3 1 0 10 = Inr (5, [(1, 2), (3, 4)])"
  by (simp add: compute_covered_area_def cover_step_def ref_lib_eval numeral_eq_Suc)

text \<open>
  C2. Every patch the code has laid out covers exactly \<open>area_patch\<close> under the
  curve: the first from \<open>xmin\<close> to the first separator, each next one from the
  end of a separator to the start of the following one.
\<close>

theorem compute_covered_area_patches_exact:
  assumes "brentq_sound lib" "quad_additive lib f"
    and "compute_covered_area lib f area_patch npatches w xmin xmax = Inr (tot, seps)"
  shows "\<forall>(a, b) \<in> set (patch_intervals xmin seps). area_under_curve lib f a b = area_patch"
  using compute_covered_area_layout [OF assms] by (simp add: layout_inv_def del: area_under_curve_quad)

theorem compute_covered_area_patches_exact_witness:
  "compute_covered_area ref_lib (\<lambda>_. 1) 1 3 1 0 10 = Inr (5, [(1, 2), (3, 4)]) \<and>
   area_under_curve ref_lib (\<lambda>_. 1) 0 1 = 1 \<and> area_under_curve ref_lib (\<lambda>_. 1) 2 3 = 1"
  using compute_covered_area_patches_exact [OF ref_lib_const_contracts(1,3) ref_lib_three_patches]
    ref_lib_three_patches by (simp del: area_under_curve_quad)

text \<open>
  C3. The covered area the code returns is the area under the curve from
  \<open>xmin\<close> up to the end of the last separator, plus one more patch.
\<close>

theorem compute_covered_area_frontier:
  assumes "brentq_sound lib" "quad_additive lib f"
    and "compute_covered_area lib f area_patch npatches w xmin xmax = Inr (tot, seps)"
  shows "tot = area_under_curve lib f xmin (frontier xmin seps) + area_patch"
  using compute_covered_area_layout [OF assms] by (simp add: layout_inv_def del: area_under_curve_quad)

theorem compute_covered_area_frontier_witness:
  "compute_covered_area ref_lib (\<lambda>_. 1) 1 3 1 0 10 = Inr (5, [(1, 2), (3, 4)]) \<and>
   (5::real) = area_under_curve ref_lib (\<lambda>_. 1) 0 (frontier 0 [(1, 2), (3, 4)]) + 1"
  using compute_covered_area_frontier [OF ref_lib_const_contracts(1,3) ref_lib_three_patches]
    ref_lib_three_patches by simp

lemma placement_points_Cons [simp]:
  "placement_points ((s, e) # seps) = s # e # placement_points seps"
  by (simp add: placement_points_def)

lemma sorted_placement_points:
  "(\<forall>(u, v) \<in> set (patch_intervals a seps). u < v) \<Longrightarrow> (\<forall>(s, e) \<in> set seps. s \<le> e) \<Longrightarrow>
     sorted (a # placement_points seps)"
proof (induction a seps rule: patch_intervals.induct)
  case (1 a)
  then show ?case by (simp add: placement_points_def)
next
  case (2 a s e seps)
  then have "sorted (e # placement_points seps)" by simp
  moreover have "a < s" "s \<le> e" using "2.prems" by simp_all
  ultimately show ?case by (simp only: placement_points_Cons sorted2) simp
qed

text \<open>
  The layout is ordered: with a positive width function, a positive patch area
  and a non-negative separator width, \<open>xmin\<close>, then the start and end of each
  separator in turn, form a sorted list.
\<close>

lemma compute_covered_area_sorted:
  assumes "brentq_sound lib" "quad_additive lib f" "quad_positive lib f"
    and "0 < area_patch" "0 \<le> w"
    and "compute_covered_area lib f area_patch npatches w xmin xmax = Inr (tot, seps)"
  shows "sorted (xmin # placement_points seps)"
proof -
  have lay: "layout_inv lib f area_patch xmin xmax
               \<lparr>total_area_covered = tot, separator_locations = seps\<rparr>"
    by (rule compute_covered_area_layout [OF assms(1,2,6)])
  have patch: "\<forall>(a, b) \<in> set (patch_intervals xmin seps). area_under_curve lib f a b = area_patch"
    using lay by (simp add: layout_inv_def del: area_under_curve_quad)
  have "u < v" if uv: "(u, v) \<in> set (patch_intervals xmin seps)" for u v
  proof -
    from patch uv have "area_under_curve lib f u v = area_patch" by fastforce
    with assms(4) quad_pos_iff [OF assms(2,3), of u v] show "u < v" by simp
  qed
  then have "\<forall>(u, v) \<in> set (patch_intervals xmin seps). u < v" by blast
  moreover have "\<forall>(s, e) \<in> set seps. s \<le> e"
    using compute_covered_area_shape [OF assms(6)] assms(5)
    by (auto simp: accounting_inv_def)
  ultimately show ?thesis by (rule sorted_placement_points)
qed

text \<open>
  C4. With a positive width function, a positive patch area and a non-negative
  separator width, the layout is ordered left to right (\<open>xmin\<close>, then the start
  and end of each separator in turn, every patch of positive width) and every
  separator starts inside \<open>[xmin, xmax]\<close>.
\<close>

theorem compute_covered_area_ordered:
  assumes "brentq_sound lib" "quad_additive lib f" "quad_positive lib f"
    and "0 < area_patch" "0 \<le> w"
    and "compute_covered_area lib f area_patch npatches w xmin xmax = Inr (tot, seps)"
  shows "sorted (xmin # placement_points seps) \<and>
         (\<forall>(s, e) \<in> set seps. min xmin xmax \<le> s \<and> s \<le> max xmin xmax)"
proof -
  have "layout_inv lib f area_patch xmin xmax
          \<lparr>total_area_covered = tot, separator_locations = seps\<rparr>"
    by (rule compute_covered_area_layout [OF assms(1,2,6)])
  with compute_covered_area_sorted [OF assms] show ?thesis
    by (simp add: layout_inv_def del: area_under_curve_quad)
qed

theorem compute_covered_area_ordered_witness:
  "compute_covered_area ref_lib (\<lambda>_. 1) 1 3 1 0 10 = Inr (5, [(1, 2), (3, 4)]) \<and>
   sorted [0::real, 1, 2, 3, 4] \<and> (0::real) \<le> 1 \<and> (3::real) \<le> 10"
  using compute_covered_area_ordered [OF ref_lib_const_contracts(1,3) ref_lib_const_contracts(4)
      _ _ ref_lib_three_patches]
  by (simp add: ref_lib_three_patches)

text \<open>
  C5. With \<open>npatches \<le> 1\<close> (\<open>range(npatches - 1)\<close> is empty) the loop body never
  runs, no root finding takes place and the result is one patch and no separator.
\<close>

theorem compute_covered_area_single_patch:
  assumes "npatches \<le> 1"
  shows "compute_covered_area lib f area_patch npatches w xmin xmax = Inr (area_patch, [])"
  using assms by (simp add: compute_covered_area_def)

theorem compute_covered_area_single_patch_witness:
  "(0::int) \<le> 1 \<and> compute_covered_area ref_lib (\<lambda>_. 1) 4 0 10 0 4 = Inr (4, [])"
  using compute_covered_area_single_patch [of 0 ref_lib "\<lambda>_. 1" 4 10 0 4] by simp

lemma cover_loop_error:
  "cover_loop lib f p w xmin xmax n st = Inl e \<Longrightarrow>
     \<exists>y. brentq lib (\<lambda>x. Inr (area_under_curve lib f xmin x - y)) xmin xmax = Inl e"
proof (induction n arbitrary: st)
  case 0
  then show ?case by simp
next
  case (Suc n)
  show ?case
  proof (cases "cover_step lib f p w xmin xmax st")
    case (Inl e')
    with Suc.prems have "cover_step lib f p w xmin xmax st = Inl e" by simp
    then show ?thesis
      by (auto simp: cover_step_Inl compute_inverse_Inl simp del: area_under_curve_quad)
  next
    case (Inr st1)
    with Suc.prems have "cover_loop lib f p w xmin xmax n st1 = Inl e" by simp
    then show ?thesis by (rule Suc.IH)
  qed
qed

lemma ref_lib_overshoot:
  "compute_covered_area ref_lib (\<lambda>_. 1) 11 2 1 0 10 = Inl brentq_bracket_error"
  by (simp add: compute_covered_area_def cover_step_def ref_lib_eval numeral_eq_Suc)

text \<open>
  C6. \<open>compute_covered_area\<close> raises no exception of its own: every exception it
  propagates is one the root finder raised while inverting the cumulative area
  from \<open>xmin\<close> over \<open>[xmin, xmax]\<close> at some running total.
\<close>

theorem compute_covered_area_error_origin:
  assumes "compute_covered_area lib f area_patch npatches w xmin xmax = Inl e"
  shows "\<exists>y. brentq lib (\<lambda>x. Inr (area_under_curve lib f xmin x - y)) xmin xmax = Inl e"
  using assms by (simp add: compute_covered_area_Inl cover_loop_error del: area_under_curve_quad)

theorem compute_covered_area_error_origin_witness:
  "compute_covered_area ref_lib (\<lambda>_. 1) 11 2 1 0 10 = Inl brentq_bracket_error \<and>
   (\<exists>y. brentq ref_lib (\<lambda>x. Inr (area_under_curve ref_lib (\<lambda>_. 1) 0 x - y)) 0 10
          = Inl brentq_bracket_error)"
  using compute_covered_area_error_origin [OF ref_lib_overshoot] ref_lib_overshoot by blast

text \<open>
  C7. There is no check that the layout fits the interval: when one patch
  alone exceeds the area under the curve on \<open>[xmin, xmax]\<close> and a separator is
  to be placed, the first inversion has no sign change in its bracket and the
  call raises the root finder's \<open>ValueError\<close>.
\<close>

theorem compute_covered_area_overshoot:
  assumes "brentq_checks lib" "quad_additive lib f"
    and "2 \<le> npatches" "0 < area_patch" "area_under_curve lib f xmin xmax < area_patch"
  shows "compute_covered_area lib f area_patch npatches w xmin xmax = Inl brentq_bracket_error"
proof -
  have m: "nat (npatches - 1) = Suc (nat (npatches - 2))"
    using assms(3) by arith
  let ?g = "\<lambda>x. Inr (area_under_curve lib f xmin x - area_patch) :: real result"
  have "0 < (area_under_curve lib f xmin xmin - area_patch) *
            (area_under_curve lib f xmin xmax - area_patch)"
    using assms(4,5) quad_same [OF assms(2)] by (simp add: mult_pos_neg)
  with brentq_checks_same_sign [OF assms(1), of ?g xmin
      "area_under_curve lib f xmin xmin - area_patch" xmax
      "area_under_curve lib f xmin xmax - area_patch"]
  have "brentq lib ?g xmin xmax = Inl brentq_bracket_error" by simp
  then have "cover_step lib f area_patch w xmin xmax
               \<lparr>total_area_covered = area_patch, separator_locations = []\<rparr> = Inl brentq_bracket_error"
    by (simp add: cover_step_Inl compute_inverse_Inl del: area_under_curve_quad)
  then show ?thesis by (simp add: compute_covered_area_Inl m)
qed

theorem compute_covered_area_overshoot_witness:
  "(2::int) \<le> 2 \<and> (0::real) < 11 \<and> area_under_curve ref_lib (\<lambda>_. 1) 0 10 < 11 \<and>
   compute_covered_area ref_lib (\<lambda>_. 1) 11 2 1 0 10 = Inl brentq_bracket_error"
proof -
  have a: "area_under_curve ref_lib (\<lambda>_. 1) 0 10 < 11"
    by (simp add: ref_lib_eval)
  show ?thesis
    using compute_covered_area_overshoot [OF ref_lib_const_contracts(2,3) _ _ a] a by simp
qed

lemma cover_loop_mono:
  assumes "brentq_sound lib" "quad_additive lib f" "quad_positive lib f" "p1 \<le> p2"
  shows "total_area_covered st1 < total_area_covered st2 \<Longrightarrow>
         cover_loop lib f p1 w xmin xmax n st1 = Inr st1' \<Longrightarrow>
         cover_loop lib f p2 w xmin xmax n st2 = Inr st2' \<Longrightarrow>
         total_area_covered st1' < total_area_covered st2'"
proof (induction n arbitrary: st1 st2)
  case 0
  then show ?case by simp
next
  case (Suc n)
  from Suc.prems(2) obtain s1 where step1: "cover_step lib f p1 w xmin xmax st1 = Inr s1"
    and loop1: "cover_loop lib f p1 w xmin xmax n s1 = Inr st1'" by (auto simp: rbind_eq_Inr)
  from Suc.prems(3) obtain s2 where step2: "cover_step lib f p2 w xmin xmax st2 = Inr s2"
    and loop2: "cover_loop lib f p2 w xmin xmax n s2 = Inr st2'" by (auto simp: rbind_eq_Inr)
  obtain x1 where x1: "area_under_curve lib f xmin x1 = total_area_covered st1"
    "total_area_covered s1 = area_under_curve lib f xmin (x1 + w) + p1"
    using cover_step_sound [OF assms(1,2) step1] by blast
  obtain x2 where x2: "area_under_curve lib f xmin x2 = total_area_covered st2"
    "total_area_covered s2 = area_under_curve lib f xmin (x2 + w) + p2"
    using cover_step_sound [OF assms(1,2) step2] by blast
  have mono: "strict_mono (\<lambda>x. fst (quad lib f xmin x))"
    by (rule cumulative_area_strict_mono [OF assms(2,3)])
  from x1(1) x2(1) Suc.prems(1)
  have "area_under_curve lib f xmin x1 < area_under_curve lib f xmin x2" by simp
  then have "x1 < x2"
    using strict_mono_less [OF mono, of x1 x2] by simp
  then have "area_under_curve lib f xmin (x1 + w) < area_under_curve lib f xmin (x2 + w)"
    using strict_mono_less [OF mono, of "x1 + w" "x2 + w"] by simp
  with x1(2) x2(2) assms(4) have "total_area_covered s1 < total_area_covered s2" by simp
  from Suc.IH [OF this loop1 loop2] show ?case .
qed

lemma compute_covered_area_less:
  assumes "brentq_sound lib" "quad_additive lib f" "quad_positive lib f"
    and "p1 < p2"
    and "compute_covered_area lib f p1 npatches w xmin xmax = Inr (t1, seps1)"
    and "compute_covered_area lib f p2 npatches w xmin xmax = Inr (t2, seps2)"
  shows "t1 < t2"
proof -
  from assms(5) obtain st1 where l1: "cover_loop lib f p1 w xmin xmax (nat (npatches - 1))
      \<lparr>total_area_covered = p1, separator_locations = []\<rparr> = Inr st1" and t1: "t1 = total_area_covered st1"
    by (auto simp: compute_covered_area_Inr)
  from assms(6) obtain st2 where l2: "cover_loop lib f p2 w xmin xmax (nat (npatches - 1))
      \<lparr>total_area_covered = p2, separator_locations = []\<rparr> = Inr st2" and t2: "t2 = total_area_covered st2"
    by (auto simp: compute_covered_area_Inr)
  have "total_area_covered st1 < total_area_covered st2"
    using cover_loop_mono [OF assms(1-3) less_imp_le [OF assms(4)], OF _ l1 l2] assms(4) by simp
  then show ?thesis by (simp add: t1 t2)
qed

text \<open>
  C8. With a positive width function the covered area that
  \<open>compute_covered_area\<close> returns is strictly increasing in \<open>area_patch\<close>: a
  larger patch area covers strictly more, so at most one patch area covers a
  given total (which makes the root that \<open>optimize_patch_area\<close> searches unique).
\<close>

theorem compute_covered_area_strict_mono:
  assumes "brentq_sound lib" "quad_additive lib f" "quad_positive lib f"
    and "p1 < p2"
    and "compute_covered_area lib f p1 npatches w xmin xmax = Inr (t1, seps1)"
    and "compute_covered_area lib f p2 npatches w xmin xmax = Inr (t2, seps2)"
  shows "t1 < t2"
  by (rule compute_covered_area_less [OF assms])

lemma ref_lib_two_patches:
  "compute_covered_area ref_lib (\<lambda>_. 1) 2 2 1 0 10 = Inr (5, [(2, 3)])"
  by (simp add: compute_covered_area_def cover_step_def ref_lib_eval numeral_eq_Suc)

theorem compute_covered_area_strict_mono_witness:
  "compute_covered_area ref_lib (\<lambda>_. 1) 1 2 1 0 10 = Inr (3, [(1, 2)]) \<and>
   compute_covered_area ref_lib (\<lambda>_. 1) 2 2 1 0 10 = Inr (5, [(2, 3)]) \<and> (3::real) < 5"
proof -
  have r1: "compute_covered_area ref_lib (\<lambda>_. 1) 1 2 1 0 10 = Inr (3, [(1, 2)])"
    by (simp add: compute_covered_area_def cover_step_def ref_lib_eval numeral_eq_Suc)
  have "(3::real) < 5"
    using compute_covered_area_strict_mono [OF ref_lib_const_contracts(1,3)
        ref_lib_const_contracts(4) _ r1 ref_lib_two_patches] by simp
  with r1 ref_lib_two_patches show ?thesis by simp
qed

subsection \<open>Running the loop for a constant width\<close>

text \<open>
  For a constant width \<open>c > 0\<close> and a library meeting the contracts, one
  iteration is determined: it returns when the running total is at most the
  area \<open>c * (xmax - xmin)\<close>, placing the separator where the total is reached,
  and raises the bracket error when the total exceeds it. As conditional
  rewrite rules these let \<open>simp\<close> run the loop on concrete numbers.
\<close>

lemma cover_step_const_Inr:
  assumes "scipy_like lib" "0 < c" "0 \<le> total_area_covered st"
    "total_area_covered st \<le> c * (xmax - xmin)"
  shows "cover_step lib (\<lambda>_. c) p w xmin xmax st =
    Inr \<lparr>total_area_covered = total_area_covered st + (c * w + p),
         separator_locations = separator_locations st
           @ [(xmin + total_area_covered st / c, xmin + total_area_covered st / c + w)]\<rparr>"
proof -
  let ?t = "total_area_covered st" and ?x = "xmin + total_area_covered st / c"
  have lib: "quad_exact_affine lib" using assms(1) by (simp add: scipy_like_def)
  have x: "xmin \<le> ?x" "?x \<le> xmax"
    using assms(2-4) by (simp_all add: field_simps)
  have t: "c * (?x - xmin) = ?t" using assms(2) by simp
  have "inverse_area_under_curve lib (cumulative_area lib (\<lambda>_. c) xmin) ?t xmin xmax = Inr ?x"
    using inverse_area_const [OF assms(1,2) x] by (simp only: t)
  moreover have "area_under_curve lib (\<lambda>_. c) ?x (?x + w) = c * w"
    using quad_const [OF lib] by simp
  ultimately show ?thesis
    by (simp add: cover_step_def Let_def cover_state_eq del: area_under_curve_quad)
qed

lemma cover_step_const_Inl:
  assumes "scipy_like lib" "0 < c" "xmin \<le> xmax" "c * (xmax - xmin) < total_area_covered st"
  shows "cover_step lib (\<lambda>_. c) p w xmin xmax st = Inl brentq_bracket_error"
proof -
  let ?t = "total_area_covered st"
  have lib: "brentq_checks lib" "quad_exact_affine lib" using assms(1) by (simp_all add: scipy_like_def)
  have "0 \<le> c * (xmax - xmin)" using assms(2,3) by simp
  with assms(4) have "0 < ?t" by linarith
  then have "0 < (area_under_curve lib (\<lambda>_. c) xmin xmin - ?t) *
                 (area_under_curve lib (\<lambda>_. c) xmin xmax - ?t)"
    using assms(4) quad_const [OF lib(2)] by (simp add: mult_pos_neg)
  with brentq_checks_same_sign [OF lib(1), of "\<lambda>x. Inr (area_under_curve lib (\<lambda>_. c) xmin x - ?t)"
      xmin "area_under_curve lib (\<lambda>_. c) xmin xmin - ?t" xmax
      "area_under_curve lib (\<lambda>_. c) xmin xmax - ?t"]
  have "brentq lib (\<lambda>x. Inr (area_under_curve lib (\<lambda>_. c) xmin x - ?t)) xmin xmax
          = Inl brentq_bracket_error" by simp
  then show ?thesis by (simp add: cover_step_Inl compute_inverse_Inl del: area_under_curve_quad)
qed

end
