(* ===== verification/PatchOptimizer.thy ===== *)
theory PatchOptimizer
  imports CoveredArea
begin

text \<open>
  \<open>optimize_patch_area\<close> (\<open>src/adams_patch/adams_patch.py\<close>), the entry point
  of the solver. It rejects separator layouts that cannot fit
  (\<open>ValueError('Unsatisfieable constraints')\<close>), returns the whole area for
  \<open>npatches = 0\<close>, and otherwise root-finds, with \<open>brentq\<close>, the patch area at
  which \<open>compute_covered_area\<close> covers the whole area under the curve. The
  bracket comes from the maximum of the width function sampled on 100 points
  (\<open>patch_area_bracket\<close>); the root finder's target is \<open>optimize_target\<close>,
  which raises whatever \<open>compute_covered_area\<close> raises. The sample
  \<open>f(np.linspace(xmin, xmax, 100))\<close> is \<open>f\<close> mapped over the grid, which is
  what numpy computes for a vectorised \<open>f\<close>; a width function that is not
  vectorised is outside the model.
\<close>

definition optimize_target ::
  "numlib \<Rightarrow> curve \<Rightarrow> real \<Rightarrow> real \<Rightarrow> int \<Rightarrow> real \<Rightarrow> real \<Rightarrow> real \<Rightarrow> real result"
where
  "optimize_target lib f xmin xmax npatches w total_available_area area_patch =
     rbind (compute_covered_area lib f area_patch npatches w xmin xmax)
       (\<lambda>(area_patched, _). Inr (total_available_area - area_patched))"

definition patch_area_bracket :: "real \<Rightarrow> real \<Rightarrow> real \<Rightarrow> int \<Rightarrow> real \<times> real" where
  "patch_area_bracket total_available_area w f_max npatches =
     (let area_patch_min = max ((total_available_area - (w * f_max) * of_int (npatches - 1))
                                / of_int npatches) 0;
          area_patch_max = total_available_area / of_int npatches
      in (area_patch_min * 0.9, area_patch_max * 1.1))"

definition optimize_patch_area :: "numlib \<Rightarrow> curve \<Rightarrow> real \<Rightarrow> real \<Rightarrow> int \<Rightarrow> real \<Rightarrow> real result" where
  "optimize_patch_area lib f xmin xmax npatches w =
     (if w * of_int (npatches - 1) \<ge> xmax - xmin
      then Inl (ValueError ''Unsatisfieable constraints'')
      else
        let total_available_area = area_under_curve lib f xmin xmax in
        if npatches = 0 then Inr total_available_area
        else
          rbind (np_max (map f (np_linspace xmin xmax 100))) (\<lambda>f_max.
            let (lo, hi) = patch_area_bracket total_available_area w f_max npatches
            in rbind (brentq lib (optimize_target lib f xmin xmax npatches w total_available_area) lo hi)
                 (\<lambda>(area_patch, _). Inr area_patch)))"

subsection \<open>Unfolding the entry point\<close>

lemma optimize_guard:
  "w * of_int (npatches - 1) \<ge> xmax - xmin \<Longrightarrow>
     optimize_patch_area lib f xmin xmax npatches w = Inl (ValueError ''Unsatisfieable constraints'')"
  by (simp add: optimize_patch_area_def)

lemma optimize_search:
  assumes "\<not> w * of_int (npatches - 1) \<ge> xmax - xmin" "npatches \<noteq> 0"
  shows "optimize_patch_area lib f xmin xmax npatches w =
    rbind (np_max (map f (np_linspace xmin xmax 100))) (\<lambda>f_max.
      rbind (brentq lib (optimize_target lib f xmin xmax npatches w (area_under_curve lib f xmin xmax))
               (fst (patch_area_bracket (area_under_curve lib f xmin xmax) w f_max npatches))
               (snd (patch_area_bracket (area_under_curve lib f xmin xmax) w f_max npatches)))
        (\<lambda>(area_patch, _). Inr area_patch))"
  using assms by (simp add: optimize_patch_area_def Let_def split_def del: area_under_curve_quad)

lemma optimize_Inr_root:
  assumes "\<not> w * of_int (npatches - 1) \<ge> xmax - xmin" "npatches \<noteq> 0"
    and "optimize_patch_area lib f xmin xmax npatches w = Inr p"
  shows "\<exists>lo hi r. brentq lib (optimize_target lib f xmin xmax npatches w
                     (area_under_curve lib f xmin xmax)) lo hi = Inr (p, r)"
  using assms(3) unfolding optimize_search [OF assms(1,2)]
  by (auto simp: rbind_eq_Inr split: prod.splits simp del: area_under_curve_quad)

lemma optimize_target_zero:
  "optimize_target lib f xmin xmax npatches w T p = Inr 0 \<longleftrightarrow>
     (\<exists>seps. compute_covered_area lib f p npatches w xmin xmax = Inr (T, seps))"
  by (auto simp: optimize_target_def rbind_eq_Inr split: prod.splits)

lemma np_max_const_linspace [simp]: "np_max (map (\<lambda>_. c) (np_linspace a b 100)) = Inr c"
  by (rule np_max_const) simp

lemma optimize_Inr_guard:
  "optimize_patch_area lib f xmin xmax npatches w = Inr p \<Longrightarrow>
     \<not> w * of_int (npatches - 1) \<ge> xmax - xmin"
  using optimize_guard by fastforce

text \<open>
  A returned patch area is a zero of the target: fed back into
  \<open>compute_covered_area\<close> it covers the whole area.
\<close>

lemma optimize_sound_aux:
  assumes "brentq_sound lib" "npatches \<noteq> 0"
    and "optimize_patch_area lib f xmin xmax npatches w = Inr p"
  shows "\<exists>seps. compute_covered_area lib f p npatches w xmin xmax
                 = Inr (area_under_curve lib f xmin xmax, seps)"
proof -
  obtain lo hi r where "brentq lib (optimize_target lib f xmin xmax npatches w
      (area_under_curve lib f xmin xmax)) lo hi = Inr (p, r)"
    using optimize_Inr_root [OF optimize_Inr_guard [OF assms(3)] assms(2,3)] by blast
  from brentq_soundD [OF assms(1) this]
  have "optimize_target lib f xmin xmax npatches w (area_under_curve lib f xmin xmax) p = Inr 0"
    by simp
  then show ?thesis by (simp only: optimize_target_zero)
qed

lemma ref_lib_optimize_three:
  "optimize_patch_area ref_lib (\<lambda>_. 1) 0 4 3 (1/2) = Inr 1"
proof -
  note run = optimize_target_def compute_covered_area_def cover_step_const_Inr [OF scipy_like_ref_lib]
  have bracket: "patch_area_bracket 4 (1/2) 1 3 = (9/10, 22/15)"
    by (simp add: patch_area_bracket_def)
  have area: "area_under_curve ref_lib (\<lambda>_. 1) 0 4 = 4" by (simp add: trapezoid_quad_def)
  have t1: "optimize_target ref_lib (\<lambda>_. 1) 0 4 3 (1/2) 4 (9/10) = Inr (3/10)" by (simp add: run)
  have t2: "optimize_target ref_lib (\<lambda>_. 1) 0 4 3 (1/2) 4 (22/15) = Inr (-7/5)" by (simp add: run)
  have t3: "optimize_target ref_lib (\<lambda>_. 1) 0 4 3 (1/2) 4 1 = Inr 0" by (simp add: run)
  show ?thesis
    by (subst optimize_search; simp add: area bracket t1 t2 t3 ref_brentq_def secant_iter_numeral
        del: area_under_curve_quad)
qed

subsection \<open>Properties of the entry point\<close>

text \<open>
  C9. When the separators alone do not fit, \<open>w * (npatches - 1) \<ge> xmax - xmin\<close>,
  \<open>optimize_patch_area\<close> raises \<open>ValueError('Unsatisfieable constraints')\<close>
  before anything is integrated or searched, whatever the width function.
\<close>

theorem optimize_patch_area_infeasible:
  assumes "xmax - xmin \<le> w * of_int (npatches - 1)"
  shows "optimize_patch_area lib f xmin xmax npatches w = Inl (ValueError ''Unsatisfieable constraints'')"
  using assms by (rule optimize_guard)

text \<open>The pytest case \<open>optimize_patch_area('f', 0, 1, 2, 1)\<close>.\<close>

theorem optimize_patch_area_infeasible_witness:
  "(1::real) - 0 \<le> 1 * of_int (2 - 1) \<and>
   optimize_patch_area ref_lib (\<lambda>_. 1) 0 1 2 1 = Inl (ValueError ''Unsatisfieable constraints'')"
  using optimize_patch_area_infeasible [of 1 0 1 2 ref_lib "\<lambda>_. 1"] by simp

text \<open>
  C10. With \<open>npatches = 0\<close> (and the guard passed, which for \<open>npatches = 0\<close> means
  \<open>xmin - xmax < w\<close>) the result is the whole area under the curve, with no
  root finding.
\<close>

theorem optimize_patch_area_no_patches:
  assumes "xmin - xmax < w"
  shows "optimize_patch_area lib f xmin xmax 0 w = Inr (area_under_curve lib f xmin xmax)"
  using assms by (simp add: optimize_patch_area_def del: area_under_curve_quad)

text \<open>The pytest case \<open>(0*x + 1, (0, 4), npatches = 0, w = 10) \<mapsto> 4\<close>.\<close>

theorem optimize_patch_area_no_patches_witness:
  "(0::real) - 4 < 10 \<and> optimize_patch_area ref_lib (\<lambda>_. 1) 0 4 0 10 = Inr 4"
  using optimize_patch_area_no_patches [of 0 4 10 ref_lib "\<lambda>_. 1"]
  by (simp add: trapezoid_quad_def)

text \<open>
  C11. For a non-negative total area, separator width and sampled maximum and
  at least one patch, the search bracket is a proper interval of non-negative
  patch areas: the lower end \<open>0.9 * max((A - w f_max (n - 1)) / n, 0)\<close> does not
  exceed the upper end \<open>1.1 * A / n\<close>.
\<close>

theorem patch_area_bracket_bounds:
  assumes "1 \<le> npatches" "0 \<le> total_available_area" "0 \<le> w" "0 \<le> f_max"
  shows "0 \<le> fst (patch_area_bracket total_available_area w f_max npatches) \<and>
         fst (patch_area_bracket total_available_area w f_max npatches)
           \<le> snd (patch_area_bracket total_available_area w f_max npatches)"
proof -
  let ?n = "of_int npatches :: real" and ?A = "total_available_area"
  have n: "0 < ?n" using assms(1) by simp
  have "0 \<le> (w * f_max) * of_int (npatches - 1)"
    using assms(1,3,4) by simp
  then have "(?A - (w * f_max) * of_int (npatches - 1)) / ?n \<le> ?A / ?n"
    using n by (simp add: divide_right_mono)
  moreover have "0 \<le> ?A / ?n" using assms(2) n by simp
  ultimately have le: "max ((?A - (w * f_max) * of_int (npatches - 1)) / ?n) 0 \<le> ?A / ?n"
    by simp
  define m where "m = max ((?A - (w * f_max) * of_int (npatches - 1)) / ?n) 0"
  define a where "a = ?A / ?n"
  have "m \<le> a" "0 \<le> a" "0 \<le> m"
    using le \<open>0 \<le> ?A / ?n\<close> by (simp_all add: m_def a_def)
  then have "m * 0.9 \<le> a * 1.1" by linarith
  then show ?thesis using \<open>0 \<le> m\<close> by (simp add: patch_area_bracket_def Let_def m_def a_def)
qed

theorem patch_area_bracket_bounds_witness:
  "(1::int) \<le> 3 \<and> (0::real) \<le> 4 \<and> (0::real) \<le> 1/2 \<and> (0::real) \<le> 1 \<and>
   patch_area_bracket 4 (1/2) 1 3 = (9/10, 22/15) \<and> (0::real) \<le> 9/10 \<and> (9/10::real) \<le> 22/15"
  using patch_area_bracket_bounds [of 3 4 "1/2" 1] by (simp add: patch_area_bracket_def)

text \<open>
  C12. A patch area that \<open>optimize_patch_area\<close> returns solves the problem: fed
  back into \<open>compute_covered_area\<close> it covers exactly the whole area under the
  curve on \<open>[xmin, xmax]\<close>.
\<close>

theorem optimize_patch_area_sound:
  assumes "brentq_sound lib" "npatches \<noteq> 0"
    and "optimize_patch_area lib f xmin xmax npatches w = Inr p"
  shows "\<exists>seps. compute_covered_area lib f p npatches w xmin xmax
                 = Inr (area_under_curve lib f xmin xmax, seps)"
  by (rule optimize_sound_aux [OF assms])

text \<open>The pytest case \<open>(0*x + 1, (0, 4), npatches = 3, w = 0.5) \<mapsto> 1\<close>.\<close>

theorem optimize_patch_area_sound_witness:
  "optimize_patch_area ref_lib (\<lambda>_. 1) 0 4 3 (1/2) = Inr 1 \<and>
   (\<exists>seps. compute_covered_area ref_lib (\<lambda>_. 1) 1 3 (1/2) 0 4 = Inr (4, seps))"
  using optimize_patch_area_sound [OF ref_lib_brentq_sound _ ref_lib_optimize_three]
    ref_lib_optimize_three by (simp add: trapezoid_quad_def)

text \<open>
  C13. For a positive width function the answer is unique: every patch area
  whose layout covers the whole area is the one \<open>optimize_patch_area\<close> returned.
\<close>

theorem optimize_patch_area_unique:
  assumes "brentq_sound lib" "quad_additive lib f" "quad_positive lib f" "npatches \<noteq> 0"
    and "optimize_patch_area lib f xmin xmax npatches w = Inr p"
    and "compute_covered_area lib f q npatches w xmin xmax
           = Inr (area_under_curve lib f xmin xmax, seps)"
  shows "q = p"
proof -
  obtain seps' where p: "compute_covered_area lib f p npatches w xmin xmax
                          = Inr (area_under_curve lib f xmin xmax, seps')"
    using optimize_sound_aux [OF assms(1,4,5)] by blast
  show ?thesis
  proof (rule linorder_cases [of q p])
    assume "q < p"
    from compute_covered_area_less [OF assms(1-3) this assms(6) p] show ?thesis by simp
  next
    assume "p < q"
    from compute_covered_area_less [OF assms(1-3) this p assms(6)] show ?thesis by simp
  qed
qed

theorem optimize_patch_area_unique_witness:
  "optimize_patch_area ref_lib (\<lambda>_. 1) 0 4 3 (1/2) = Inr 1 \<and>
   compute_covered_area ref_lib (\<lambda>_. 1) 1 3 (1/2) 0 4 = Inr (4, [(1, 3/2), (5/2, 3)]) \<and>
   (1::real) = 1"
proof -
  have run: "compute_covered_area ref_lib (\<lambda>_. 1) 1 3 (1/2) 0 4 = Inr (4, [(1, 3/2), (5/2, 3)])"
    by (simp add: compute_covered_area_def cover_step_const_Inr [OF scipy_like_ref_lib])
  have area: "area_under_curve ref_lib (\<lambda>_. 1) 0 4 = 4" by (simp add: trapezoid_quad_def)
  have run': "compute_covered_area ref_lib (\<lambda>_. 1) 1 3 (1/2) 0 4
               = Inr (area_under_curve ref_lib (\<lambda>_. 1) 0 4, [(1, 3/2), (5/2, 3)])"
    using run area by simp
  have "(1::real) = 1"
    using optimize_patch_area_unique [OF ref_lib_const_contracts(1,3) ref_lib_const_contracts(4)
        _ ref_lib_optimize_three run'] by simp
  with run show ?thesis using ref_lib_optimize_three by simp
qed

text \<open>
  C14. The search can raise on a feasible problem. For the constant width 1 on
  \<open>[0, 10]\<close> with 10 patches and separators of width 0.5, the patch area
  0.55 covers the area exactly; the bracket is \<open>[0.495, 1.1]\<close>. But \<open>brentq\<close>
  evaluates its target at the upper end 1.1, where \<open>compute_covered_area\<close> runs
  past the interval (the 7th inversion asks for area 10.7 of 10) and raises the
  root finder's \<open>ValueError\<close>, which propagates out of \<open>optimize_patch_area\<close>.
  This holds for every library meeting the contracts.
\<close>

theorem optimize_patch_area_feasible_raises:
  assumes "scipy_like lib"
  shows "optimize_patch_area lib (\<lambda>_. 1) 0 10 10 (1/2) = Inl brentq_bracket_error \<and>
         (\<exists>seps. compute_covered_area lib (\<lambda>_. 1) (11/20) 10 (1/2) 0 10
                   = Inr (area_under_curve lib (\<lambda>_. 1) 0 10, seps))"
proof -
  have lib: "brentq_checks lib" "quad_exact_affine lib"
    using assms by (simp_all add: scipy_like_def)
  note run = optimize_target_def compute_covered_area_def
    cover_step_const_Inr [OF assms] cover_step_const_Inl [OF assms]
  have area: "area_under_curve lib (\<lambda>_. 1) 0 10 = 10"
    using quad_const [OF lib(2), of 1 0 10] by simp
  have bracket: "patch_area_bracket 10 (1/2) 1 10 = (99/200, 11/10)"
    by (simp add: patch_area_bracket_def)
  have lo: "optimize_target lib (\<lambda>_. 1) 0 10 10 (1/2) 10 (99/200) = Inr (11/20)"
    by (simp add: run)
  have hi: "optimize_target lib (\<lambda>_. 1) 0 10 10 (1/2) 10 (11/10) = Inl brentq_bracket_error"
    by (simp add: run)
  have sol: "\<exists>seps. compute_covered_area lib (\<lambda>_. 1) (11/20) 10 (1/2) 0 10 = Inr (10, seps)"
    by (simp add: run)
  have "optimize_patch_area lib (\<lambda>_. 1) 0 10 10 (1/2) = Inl brentq_bracket_error"
    by (subst optimize_search; simp add: area bracket brentq_checks_Inl_b [OF lib(1) lo hi]
        del: area_under_curve_quad)
  with sol area show ?thesis by simp
qed

theorem optimize_patch_area_feasible_raises_witness:
  "optimize_patch_area ref_lib (\<lambda>_. 1) 0 10 10 (1/2) = Inl brentq_bracket_error \<and>
   (\<exists>seps. compute_covered_area ref_lib (\<lambda>_. 1) (11/20) 10 (1/2) 0 10
             = Inr (area_under_curve ref_lib (\<lambda>_. 1) 0 10, seps))"
  by (rule optimize_patch_area_feasible_raises [OF scipy_like_ref_lib])

end
