(* ===== verification/ConstantWidth.thy ===== *)
theory ConstantWidth
  imports PatchOptimizer
begin

text \<open>
  The solver on a constant width function \<open>f = c > 0\<close>, for every library
  meeting the contracts. The loop of \<open>compute_covered_area\<close> has a closed form:
  iteration \<open>i\<close> inverts the running total \<open>p + i (c w + p)\<close> and places a
  separator at \<open>xmin + (p + i (c w + p)) / c\<close>, and the call raises
  \<open>brentq\<close>'s bracket error exactly when the last running total it inverts
  exceeds the area \<open>c (xmax - xmin)\<close> (\<open>const_fits\<close>). From it follows an exact
  characterisation of \<open>optimize_patch_area\<close>: it returns the exact solution
  \<open>(A - (n - 1) c w) / n\<close> when the layout at the upper bracket end
  \<open>1.1 A / n\<close> still fits, and raises \<open>ValueError\<close> otherwise, although a
  solution then exists as well.
\<close>

text \<open>The separators the loop places from running total \<open>t\<close> in steps of \<open>d\<close>.\<close>

definition const_seps :: "real \<Rightarrow> real \<Rightarrow> real \<Rightarrow> real \<Rightarrow> real \<Rightarrow> nat \<Rightarrow> interval list" where
  "const_seps c w xmin t d k =
     map (\<lambda>i. (xmin + (t + of_nat i * d) / c, xmin + (t + of_nat i * d) / c + w)) [0..<k]"

text \<open>Every running total the loop inverts stays within the area.\<close>

definition const_fits :: "real \<Rightarrow> real \<Rightarrow> real \<Rightarrow> int \<Rightarrow> real \<Rightarrow> bool" where
  "const_fits c w area npatches p \<longleftrightarrow> npatches \<le> 1 \<or> p + of_int (npatches - 2) * (c * w + p) \<le> area"

subsection \<open>Lemmas\<close>

lemma const_seps_0 [simp]: "const_seps c w xmin t d 0 = []"
  by (simp add: const_seps_def)

lemma const_seps_Suc:
  "const_seps c w xmin t d (Suc k) =
     (xmin + t / c, xmin + t / c + w) # const_seps c w xmin (t + d) d k"
  unfolding const_seps_def
  by (simp add: map_upt_Suc del: upt_Suc) (simp add: algebra_simps)

lemma cover_loop_const:
  assumes lib: "scipy_like lib" and c: "0 < c" and x: "xmin \<le> xmax"
    and t: "0 \<le> total_area_covered st" and d: "0 \<le> c * w + p"
  shows "cover_loop lib (\<lambda>_. c) p w xmin xmax k st =
    (if k = 0 \<or> total_area_covered st + of_nat (k - 1) * (c * w + p) \<le> c * (xmax - xmin)
     then Inr \<lparr>total_area_covered = total_area_covered st + of_nat k * (c * w + p),
               separator_locations = separator_locations st
                 @ const_seps c w xmin (total_area_covered st) (c * w + p) k\<rparr>
     else Inl brentq_bracket_error)"
  using t
proof (induction k arbitrary: st)
  case 0
  then show ?case by simp
next
  case (Suc k)
  let ?t = "total_area_covered st" and ?d = "c * w + p"
  show ?case
  proof (cases "?t \<le> c * (xmax - xmin)")
    case True
    let ?st1 = "\<lparr>total_area_covered = ?t + ?d,
                 separator_locations = separator_locations st @ [(xmin + ?t / c, xmin + ?t / c + w)]\<rparr>"
    have step: "cover_step lib (\<lambda>_. c) p w xmin xmax st = Inr ?st1"
      using cover_step_const_Inr [OF lib c Suc.prems True] by (simp add: add.commute)
    have t1: "0 \<le> total_area_covered ?st1" using Suc.prems d by simp
    have cond: "(k = 0 \<or> ?t + ?d + of_nat (k - 1) * ?d \<le> c * (xmax - xmin)) \<longleftrightarrow>
                ?t + of_nat (Suc k - 1) * ?d \<le> c * (xmax - xmin)"
    proof (cases k)
      case (Suc j)
      have eqj: "?t + ?d + of_nat j * ?d = ?t + of_nat (Suc j) * ?d" by (simp add: algebra_simps)
      show ?thesis by (simp only: Suc diff_Suc_1 eqj) simp
    qed (simp add: True)
    have eq: "?t + ?d + of_nat k * ?d = ?t + of_nat (Suc k) * ?d" by (simp add: algebra_simps)
    have "cover_loop lib (\<lambda>_. c) p w xmin xmax (Suc k) st = cover_loop lib (\<lambda>_. c) p w xmin xmax k ?st1"
      by (simp add: step)
    also have "\<dots> = (if k = 0 \<or> ?t + ?d + of_nat (k - 1) * ?d \<le> c * (xmax - xmin)
         then Inr \<lparr>total_area_covered = ?t + ?d + of_nat k * ?d,
                   separator_locations = (separator_locations st @ [(xmin + ?t / c, xmin + ?t / c + w)])
                     @ const_seps c w xmin (?t + ?d) ?d k\<rparr>
         else Inl brentq_bracket_error)"
      by (subst Suc.IH [OF t1]) (simp only: cover_state.select_convs)
    also have "\<dots> = (if ?t + of_nat (Suc k - 1) * ?d \<le> c * (xmax - xmin)
         then Inr \<lparr>total_area_covered = ?t + of_nat (Suc k) * ?d,
                   separator_locations = separator_locations st @ const_seps c w xmin ?t ?d (Suc k)\<rparr>
         else Inl brentq_bracket_error)"
      by (subst cond) (simp only: eq append_assoc const_seps_Suc append_Cons append_Nil)
    finally show ?thesis by simp
  next
    case False
    then have "cover_step lib (\<lambda>_. c) p w xmin xmax st = Inl brentq_bracket_error"
      using cover_step_const_Inl [OF lib c x] by simp
    moreover have "\<not> ?t + of_nat (Suc k - 1) * ?d \<le> c * (xmax - xmin)"
    proof -
      have "0 \<le> of_nat (Suc k - 1) * ?d" using d by simp
      then show ?thesis using False by linarith
    qed
    ultimately show ?thesis by simp
  qed
qed

lemma const_fits_loop:
  "(nat (npatches - 1) = 0 \<or> p + of_nat (nat (npatches - 1) - 1) * (c * w + p) \<le> area) \<longleftrightarrow>
     const_fits c w area npatches p"
proof (cases "npatches \<le> 1")
  case False
  then have "nat (npatches - 1) - 1 = nat (npatches - 2)" "nat (npatches - 1) \<noteq> 0" by arith+
  moreover have "(of_nat (nat (npatches - 2)) :: real) = of_int (npatches - 2)" using False by simp
  ultimately show ?thesis using False by (simp add: const_fits_def)
qed (simp add: const_fits_def)

lemma compute_covered_area_const_eq:
  assumes lib: "scipy_like lib" and c: "0 < c" and x: "xmin \<le> xmax" and p: "0 \<le> p" and w: "0 \<le> w"
  shows "compute_covered_area lib (\<lambda>_. c) p npatches w xmin xmax =
    (if const_fits c w (c * (xmax - xmin)) npatches p
     then Inr (p + of_nat (nat (npatches - 1)) * (c * w + p),
               const_seps c w xmin p (c * w + p) (nat (npatches - 1)))
     else Inl brentq_bracket_error)"
proof -
  have d: "0 \<le> c * w + p" using c w p by simp
  show ?thesis
    unfolding compute_covered_area_def
    using cover_loop_const [OF lib c x _ d, of "\<lparr>total_area_covered = p, separator_locations = []\<rparr>"]
      const_fits_loop [of npatches p c w "c * (xmax - xmin)"] p
    by simp
qed

lemma const_fits_mono:
  assumes "const_fits c w area npatches p" "q \<le> p"
  shows "const_fits c w area npatches q"
proof (cases "npatches \<le> 1")
  case False
  let ?k = "of_int (npatches - 2) :: real"
  have k: "0 \<le> ?k" using False by simp
  have "(1 + ?k) * q \<le> (1 + ?k) * p" using assms(2) k by (intro mult_left_mono) simp_all
  then have "q + ?k * (c * w + q) \<le> p + ?k * (c * w + p)" by (simp add: algebra_simps)
  then show ?thesis using assms(1) False unfolding const_fits_def by linarith
qed (simp add: const_fits_def)

lemma optimize_target_const:
  assumes lib: "scipy_like lib" and c: "0 < c" and x: "xmin \<le> xmax" and p: "0 \<le> p" and w: "0 \<le> w"
  shows "optimize_target lib (\<lambda>_. c) xmin xmax npatches w T p =
    (if const_fits c w (c * (xmax - xmin)) npatches p
     then Inr (T - (p + of_nat (nat (npatches - 1)) * (c * w + p)))
     else Inl brentq_bracket_error)"
  by (simp add: optimize_target_def compute_covered_area_const_eq [OF lib c x p w])

lemma optimize_patch_area_const_eq:
  assumes lib: "scipy_like lib" and loc: "brentq_local lib" and c: "0 < c"
    and n: "1 \<le> npatches" and w: "0 \<le> w" and guard: "w * of_int (npatches - 1) < xmax - xmin"
  shows "optimize_patch_area lib (\<lambda>_. c) xmin xmax npatches w =
    (let area = c * (xmax - xmin) in
     if const_fits c w area npatches (area / of_int npatches * 1.1)
     then Inr ((area - of_int (npatches - 1) * (c * w)) / of_int npatches)
     else Inl brentq_bracket_error)"
proof -
  define A where "A = c * (xmax - xmin)"
  define N where "N = (of_int npatches :: real)"
  define pstar where "pstar = (A - of_int (npatches - 1) * (c * w)) / N"
  define lo where "lo = max ((A - (w * c) * of_int (npatches - 1)) / N) 0 * 0.9"
  define hi where "hi = A / N * 1.1"
  define target where "target = optimize_target lib (\<lambda>_. c) xmin xmax npatches w A"
  have sound: "brentq_sound lib" "brentq_checks lib" "brentq_affine lib" "quad_exact_affine lib"
    using lib by (simp_all add: scipy_like_def)
  have N: "0 < N" using n by (simp add: N_def)
  have m: "0 \<le> w * of_int (npatches - 1)" using n w by simp
  then have x: "xmin \<le> xmax" using guard by linarith
  have "A - of_int (npatches - 1) * (c * w) = c * ((xmax - xmin) - w * of_int (npatches - 1))"
    by (simp add: A_def algebra_simps)
  also have "\<dots> > 0" using c guard by simp
  finally have pos: "0 < A - of_int (npatches - 1) * (c * w)" .
  have pstar_pos: "0 < pstar" using pos N by (simp add: pstar_def)
  have NP: "N * pstar = A - of_int (npatches - 1) * (c * w)" using N by (simp add: pstar_def)
  then have NP1: "N * pstar = A - (N - 1) * (c * w)" by (simp add: N_def)
  have "(A - (w * c) * of_int (npatches - 1)) / N = pstar" by (simp add: pstar_def algebra_simps)
  then have lo_eq: "lo = pstar * 0.9" using pstar_pos by (simp add: lo_def)
  have A0: "0 \<le> A" using c x by (simp add: A_def)
  have "pstar \<le> A / N"
    unfolding pstar_def using N n c w by (intro divide_right_mono) simp_all
  moreover have "A / N \<le> A / N * 1.1"
  proof -
    have "0 \<le> A / N" using A0 N by simp
    then have "A / N * 1 \<le> A / N * 1.1" by (intro mult_left_mono) simp_all
    then show ?thesis by simp
  qed
  ultimately have pstar_hi: "pstar \<le> hi" by (simp add: hi_def)
  have lo0: "0 \<le> lo" "lo \<le> pstar" using pstar_pos by (simp_all add: lo_eq)
  have fits_pstar: "const_fits c w A npatches pstar"
  proof (cases "npatches \<le> 1")
    case False
    have "pstar + of_int (npatches - 2) * (c * w + pstar) = N * pstar - pstar + (N - 2) * (c * w)"
      by (simp add: N_def algebra_simps)
    also have "\<dots> = (A - (N - 1) * (c * w)) - pstar + (N - 2) * (c * w)" by (simp only: NP1)
    also have "\<dots> = A - pstar - c * w" by (simp add: algebra_simps)
    finally have e: "pstar + of_int (npatches - 2) * (c * w + pstar) = A - pstar - c * w" .
    have "0 \<le> c * w" using c w by simp
    then show ?thesis using e pstar_pos unfolding const_fits_def by linarith
  qed (simp add: const_fits_def)
  have bracket: "patch_area_bracket A w c npatches = (lo, hi)"
    by (simp add: patch_area_bracket_def lo_def hi_def N_def)
  have area: "area_under_curve lib (\<lambda>_. c) xmin xmax = A"
    using quad_const [OF sound(4)] by (simp add: A_def)
  have search: "optimize_patch_area lib (\<lambda>_. c) xmin xmax npatches w =
      rbind (brentq lib target lo hi) (\<lambda>(area_patch, _). Inr area_patch)"
    using guard n
    by (subst optimize_search) (simp_all add: area bracket target_def del: area_under_curve_quad)
  have k: "(of_nat (nat (npatches - 1)) :: real) = N - 1" using n by (simp add: N_def)
  have target_at: "target p = (if const_fits c w A npatches p
        then Inr (A - (p + (N - 1) * (c * w + p))) else Inl brentq_bracket_error)" if "0 \<le> p" for p
    using that by (simp add: target_def optimize_target_const [OF lib c x _ w] A_def k)
  show ?thesis
  proof (cases "const_fits c w A npatches hi")
    case True
    have aff: "target p = Inr ((- N) * p + N * pstar)" if "min lo hi \<le> p" "p \<le> max lo hi" for p
    proof -
      have p: "0 \<le> p" "p \<le> hi" using that lo0 pstar_hi by auto
      then have "const_fits c w A npatches p" using const_fits_mono [OF True] by blast
      then show ?thesis using p by (simp add: target_at NP1 algebra_simps)
    qed
    have "((- N) * lo + N * pstar) * ((- N) * hi + N * pstar) \<le> 0"
    proof (rule mult_nonneg_nonpos)
      show "0 \<le> (- N) * lo + N * pstar" using N lo0 by (simp add: algebra_simps)
      show "(- N) * hi + N * pstar \<le> 0" using N pstar_hi by (simp add: algebra_simps)
    qed
    moreover have "- N \<noteq> 0" using N by simp
    ultimately obtain r where "brentq lib (\<lambda>p. Inr ((- N) * p + N * pstar)) lo hi = Inr (- (N * pstar) / (- N), r)"
      using brentq_affine_root [OF sound(1,3)] by blast
    then have "optimize_patch_area lib (\<lambda>_. c) xmin xmax npatches w = Inr pstar"
      using N by (simp add: search brentq_localD [OF loc aff])
    then show ?thesis using True by (simp add: Let_def A_def N_def pstar_def hi_def)
  next
    case False
    have "target lo = Inr (A - (lo + (N - 1) * (c * w + lo)))"
      using const_fits_mono [OF fits_pstar lo0(2)] lo0 by (simp add: target_at)
    moreover have "target hi = Inl brentq_bracket_error"
      using False lo0 pstar_hi by (simp add: target_at)
    ultimately have "brentq lib target lo hi = Inl brentq_bracket_error"
      by (rule brentq_checks_Inl_b [OF sound(2)])
    then show ?thesis using False by (simp add: search Let_def A_def N_def hi_def)
  qed
qed

subsection \<open>Properties\<close>

text \<open>
  C32. On a constant width \<open>c > 0\<close> with \<open>area_patch, w \<ge> 0\<close>,
  \<open>compute_covered_area\<close> returns the covered area
  \<open>p + (npatches - 1) (c w + p)\<close> and the separators
  \<open>[xmin + (p + i (c w + p)) / c, ... + w]\<close> for \<open>i < npatches - 1\<close> when every
  running total it inverts fits in the area, and raises \<open>brentq\<close>'s
  \<open>ValueError\<close> otherwise.
\<close>

theorem compute_covered_area_const:
  assumes "scipy_like lib" "0 < c" "xmin \<le> xmax" "0 \<le> p" "0 \<le> w"
  shows "compute_covered_area lib (\<lambda>_. c) p npatches w xmin xmax =
    (if const_fits c w (c * (xmax - xmin)) npatches p
     then Inr (p + of_nat (nat (npatches - 1)) * (c * w + p),
               const_seps c w xmin p (c * w + p) (nat (npatches - 1)))
     else Inl brentq_bracket_error)"
  by (rule compute_covered_area_const_eq [OF assms])

theorem compute_covered_area_const_witness:
  "scipy_like ref_lib \<and> (0::real) < 1 \<and> (0::real) \<le> 10 \<and> (0::real) \<le> 1 \<and> (0::real) \<le> 6 \<and>
   compute_covered_area ref_lib (\<lambda>_. 1) 1 3 1 0 10 = Inr (5, [(1, 2), (3, 4)]) \<and>
   compute_covered_area ref_lib (\<lambda>_. 1) 6 3 1 0 10 = Inl brentq_bracket_error"
  using compute_covered_area_const [OF scipy_like_ref_lib, of 1 0 10 1 1 3]
    compute_covered_area_const [OF scipy_like_ref_lib, of 1 0 10 6 1 3]
  by (simp add: scipy_like_ref_lib const_fits_def const_seps_def upt_rec)

text \<open>
  C33. On a constant width \<open>c > 0\<close>, with \<open>n \<ge> 1\<close> patches, \<open>w \<ge> 0\<close> and the
  guard passed, \<open>optimize_patch_area\<close> returns exactly the solution
  \<open>(A - (n - 1) c w) / n\<close>, \<open>A = c (xmax - xmin)\<close>, if and only if the layout
  for the upper bracket end \<open>1.1 A / n\<close> fits in the area; otherwise it raises
  \<open>brentq\<close>'s \<open>ValueError\<close>. The second case is the defect of C14, here for
  every input.
\<close>

theorem optimize_patch_area_const:
  assumes "scipy_like lib" "brentq_local lib" "0 < c" "1 \<le> npatches" "0 \<le> w"
    "w * of_int (npatches - 1) < xmax - xmin"
  shows "optimize_patch_area lib (\<lambda>_. c) xmin xmax npatches w =
    (let area = c * (xmax - xmin) in
     if const_fits c w area npatches (area / of_int npatches * 1.1)
     then Inr ((area - of_int (npatches - 1) * (c * w)) / of_int npatches)
     else Inl brentq_bracket_error)"
  by (rule optimize_patch_area_const_eq [OF assms])

theorem optimize_patch_area_const_witness:
  "scipy_like ref_lib \<and> brentq_local ref_lib \<and> (0::real) < 1 \<and> (1::int) \<le> 3 \<and> (1::int) \<le> 10 \<and>
   (0::real) \<le> 1 / 2 \<and> 1 / 2 * of_int (3 - 1 :: int) < (4::real) - 0 \<and>
   1 / 2 * of_int (10 - 1 :: int) < (10::real) - 0 \<and>
   optimize_patch_area ref_lib (\<lambda>_. 1) 0 4 3 (1 / 2) = Inr 1 \<and>
   optimize_patch_area ref_lib (\<lambda>_. 1) 0 10 10 (1 / 2) = Inl brentq_bracket_error"
  using optimize_patch_area_const [OF scipy_like_ref_lib ref_lib_brentq_local, of 1 3 "1 / 2" 4 0]
    optimize_patch_area_const [OF scipy_like_ref_lib ref_lib_brentq_local, of 1 10 "1 / 2" 10 0]
  by (simp add: scipy_like_ref_lib ref_lib_brentq_local const_fits_def Let_def)

end
