(* ===== verification/Convergence.thy ===== *)
theory Convergence
  imports AreaInverse
begin

text \<open>
  Two further contracts on the scipy interface of \<open>Numerics\<close>, for the test
  cases whose integrands and targets are not affine.
  \<^item> \<open>quad_exact_quadratic\<close>: \<open>quad\<close> is exact on quadratic integrands.
    Gauss-Kronrod rules integrate polynomials of low degree exactly, up to
    rounding, which the model leaves out.
  \<^item> \<open>brentq_converges\<close>: \<open>brentq\<close> returns when the target is continuous on the
    bracket and changes sign there. Brent's method converges on such targets;
    with \<open>brentq_sound\<close>, what it returns is an exact zero, the same
    idealisation as before.
  \<open>ideal_lib\<close> shows that the contracts can hold together: Simpson's rule,
  exact up to cubics, and the idealised root finder, which returns a zero
  chosen in the bracket. No executable method finds exact zeros, so the root
  finder is a choice (\<open>SOME\<close>); it exists only to instantiate the contracts.
\<close>

definition quad_exact_quadratic :: "numlib \<Rightarrow> bool" where
  "quad_exact_quadratic lib \<longleftrightarrow>
     (\<forall>p q r a b. fst (quad lib (\<lambda>x. p * x\<^sup>2 + q * x + r) a b) =
        p * (b ^ 3 - a ^ 3) / 3 + q * (b\<^sup>2 - a\<^sup>2) / 2 + r * (b - a))"

definition brentq_converges :: "numlib \<Rightarrow> bool" where
  "brentq_converges lib \<longleftrightarrow>
     (\<forall>g h a b. (\<forall>x. min a b \<le> x \<and> x \<le> max a b \<longrightarrow> g x = Inr (h x)) \<longrightarrow>
        continuous_on {min a b..max a b} h \<longrightarrow> h a * h b \<le> 0 \<longrightarrow>
        (\<exists>x r. brentq lib g a b = Inr (x, r)))"

definition simpson_quad :: "curve \<Rightarrow> real \<Rightarrow> real \<Rightarrow> real \<times> real" where
  "simpson_quad f a b = ((b - a) / 6 * (f a + 4 * f ((a + b) / 2) + f b), 0)"

definition ideal_brentq :: "(real \<Rightarrow> real result) \<Rightarrow> real \<Rightarrow> real \<Rightarrow> (real \<times> root_results) result" where
  "ideal_brentq g a b =
     rbind (g a) (\<lambda>fa. rbind (g b) (\<lambda>fb.
       if 0 < fa * fb then Inl brentq_bracket_error
       else if \<exists>x. min a b \<le> x \<and> x \<le> max a b \<and> g x = Inr 0
       then Inr (SOME x. min a b \<le> x \<and> x \<le> max a b \<and> g x = Inr 0,
                 \<lparr>iterations = 0, converged = True\<rparr>)
       else Inl (RuntimeError ''Failed to converge after 100 iterations'')))"

definition ideal_lib :: numlib where
  "ideal_lib = \<lparr>quad = simpson_quad, brentq = ideal_brentq\<rparr>"

subsection \<open>Consequences of the contracts\<close>

lemma quad_exact_quadratic_affine:
  assumes "quad_exact_quadratic lib"
  shows "quad_exact_affine lib"
  unfolding quad_exact_affine_def
proof (intro allI)
  fix c d a b :: real
  have "fst (quad lib (\<lambda>x. 0 * x\<^sup>2 + c * x + d) a b) =
        0 * (b ^ 3 - a ^ 3) / 3 + c * (b\<^sup>2 - a\<^sup>2) / 2 + d * (b - a)"
    using assms unfolding quad_exact_quadratic_def by blast
  then show "fst (quad lib (\<lambda>x. c * x + d) a b) = c * (b\<^sup>2 - a\<^sup>2) / 2 + d * (b - a)" by simp
qed

text \<open>A continuous target with a sign change has a zero in the bracket.\<close>

lemma sign_change_zero:
  fixes h :: "real \<Rightarrow> real"
  assumes "continuous_on {min a b..max a b} h" "h a * h b \<le> 0"
  shows "\<exists>x. min a b \<le> x \<and> x \<le> max a b \<and> h x = 0"
proof -
  have prod: "h (min a b) * h (max a b) \<le> 0"
    using assms(2) by (cases "a \<le> b") (simp_all add: min_def max_def mult.commute)
  have le: "min a b \<le> max a b" by simp
  show ?thesis
  proof (cases "h (min a b) \<le> 0")
    case True
    with prod have "0 \<le> h (max a b) \<or> h (min a b) = 0"
      by (auto simp: mult_le_0_iff)
    then show ?thesis
    proof
      assume "0 \<le> h (max a b)"
      from IVT' [of h "min a b" 0 "max a b", OF True this le assms(1)] show ?thesis .
    next
      assume "h (min a b) = 0"
      then show ?thesis using le by blast
    qed
  next
    case False
    with prod have "h (max a b) \<le> 0" by (auto simp: mult_le_0_iff)
    from IVT2' [of h "max a b" 0 "min a b", OF this _ le assms(1)] False show ?thesis by simp
  qed
qed

lemma brentq_converges_root:
  assumes "brentq_sound lib" "brentq_converges lib"
    and "\<forall>x. min a b \<le> x \<and> x \<le> max a b \<longrightarrow> g x = Inr (h x)"
    and "continuous_on {min a b..max a b} h" "h a * h b \<le> 0"
  shows "\<exists>x r. brentq lib g a b = Inr (x, r) \<and> h x = 0 \<and> min a b \<le> x \<and> x \<le> max a b"
proof -
  obtain x r where br: "brentq lib g a b = Inr (x, r)"
    using assms(2-5) unfolding brentq_converges_def by blast
  with assms(1) have "g x = Inr 0" "min a b \<le> x" "x \<le> max a b"
    unfolding brentq_sound_def by blast+
  with assms(3) br show ?thesis by auto
qed

text \<open>
  \<open>compute_inverse_function_value\<close> returns a preimage whenever the function
  is continuous on the bracket and \<open>y\<close> lies between its values at the ends.
\<close>

lemma compute_inverse_exists:
  assumes "brentq_sound lib" "brentq_converges lib"
    and "continuous_on {min xmin xmax..max xmin xmax} fn" "(fn xmin - y) * (fn xmax - y) \<le> 0"
  shows "\<exists>x. compute_inverse_function_value lib fn y xmin xmax = Inr x \<and> fn x = y \<and>
             min xmin xmax \<le> x \<and> x \<le> max xmin xmax"
proof -
  have "continuous_on {min xmin xmax..max xmin xmax} (\<lambda>x. fn x - y)"
    using assms(3) by (intro continuous_intros)
  from brentq_converges_root [OF assms(1,2) _ this, of "\<lambda>x. Inr (fn x - y)"] assms(4)
  obtain x r where "brentq lib (\<lambda>x. Inr (fn x - y)) xmin xmax = Inr (x, r)" "fn x - y = 0"
      "min xmin xmax \<le> x" "x \<le> max xmin xmax"
    by auto
  then show ?thesis by (auto simp: compute_inverse_Inr)
qed

subsection \<open>The idealised library meets every contract\<close>

lemma simpson_exact_quadratic:
  "fst (simpson_quad (\<lambda>x. p * x\<^sup>2 + q * x + r) a b) =
     p * (b ^ 3 - a ^ 3) / 3 + q * (b\<^sup>2 - a\<^sup>2) / 2 + r * (b - a)"
proof -
  have "(b - a) / 6 * ((p * a\<^sup>2 + q * a + r) + 4 * (p * ((a + b) / 2)\<^sup>2 + q * ((a + b) / 2) + r)
          + (p * b\<^sup>2 + q * b + r)) =
        p * (b ^ 3 - a ^ 3) / 3 + q * (b\<^sup>2 - a\<^sup>2) / 2 + r * (b - a)"
    by (simp add: power2_eq_square power3_eq_cube field_simps)
  then show ?thesis by (simp add: simpson_quad_def)
qed

lemma ideal_lib_quad_exact_quadratic: "quad_exact_quadratic ideal_lib"
  by (simp add: quad_exact_quadratic_def ideal_lib_def simpson_exact_quadratic)

lemma ideal_brentq_Inr:
  assumes "ideal_brentq g a b = Inr (x, r)"
  shows "g x = Inr 0 \<and> min a b \<le> x \<and> x \<le> max a b"
proof -
  let ?P = "\<lambda>x. min a b \<le> x \<and> x \<le> max a b \<and> g x = Inr 0"
  have ex: "Ex ?P" and x: "x = Eps ?P"
    using assms by (auto simp: ideal_brentq_def rbind_eq_Inr split: if_splits)
  from someI_ex [OF ex] show ?thesis unfolding x by blast
qed

lemma ideal_lib_brentq_sound: "brentq_sound ideal_lib"
  by (auto simp: brentq_sound_def ideal_lib_def dest: ideal_brentq_Inr)

lemma ideal_lib_brentq_checks: "brentq_checks ideal_lib"
  unfolding brentq_checks_def
proof (intro allI)
  fix g :: "real \<Rightarrow> real result" and a b :: real
  show "brentq ideal_lib g a b = rbind (g a) (\<lambda>fa. rbind (g b) (\<lambda>fb.
          if 0 < fa * fb then Inl brentq_bracket_error else brentq ideal_lib g a b))"
    by (cases "g a"; cases "g b") (simp_all add: ideal_lib_def ideal_brentq_def)
qed

lemma ideal_lib_brentq_converges: "brentq_converges ideal_lib"
  unfolding brentq_converges_def
proof (intro allI impI)
  fix g :: "real \<Rightarrow> real result" and h :: "real \<Rightarrow> real" and a b :: real
  assume gh: "\<forall>x. min a b \<le> x \<and> x \<le> max a b \<longrightarrow> g x = Inr (h x)"
    and cont: "continuous_on {min a b..max a b} h" and sc: "h a * h b \<le> 0"
  obtain z where z: "min a b \<le> z" "z \<le> max a b" "h z = 0"
    using sign_change_zero [OF cont sc] by blast
  have "g a = Inr (h a)" "g b = Inr (h b)" using gh by simp_all
  moreover have "\<exists>x. min a b \<le> x \<and> x \<le> max a b \<and> g x = Inr 0" using z gh by auto
  ultimately show "\<exists>x r. brentq ideal_lib g a b = Inr (x, r)"
    using sc by (simp add: ideal_lib_def ideal_brentq_def)
qed

lemma ideal_lib_brentq_local: "brentq_local ideal_lib"
  unfolding brentq_local_def ideal_lib_def
proof (intro allI impI)
  fix g g' :: "real \<Rightarrow> real result" and a b :: real
  assume eq: "\<forall>x. min a b \<le> x \<and> x \<le> max a b \<longrightarrow> g x = g' x"
  then have ab: "g a = g' a" "g b = g' b" by simp_all
  have pred: "(\<lambda>x. min a b \<le> x \<and> x \<le> max a b \<and> g x = Inr 0) =
        (\<lambda>x. min a b \<le> x \<and> x \<le> max a b \<and> g' x = Inr 0)"
    using eq by auto
  then show "brentq \<lparr>quad = simpson_quad, brentq = ideal_brentq\<rparr> g a b =
             brentq \<lparr>quad = simpson_quad, brentq = ideal_brentq\<rparr> g' a b"
    by (simp only: numlib.select_convs ideal_brentq_def pred ab)
qed

lemma ideal_lib_brentq_affine: "brentq_affine ideal_lib"
  unfolding brentq_affine_def
proof (intro allI impI)
  fix c d a b :: real
  assume sc: "(c * a + d) * (c * b + d) \<le> 0"
  have cont: "continuous_on {min a b..max a b} (\<lambda>x. c * x + d)" by (intro continuous_intros)
  have "\<forall>x. min a b \<le> x \<and> x \<le> max a b \<longrightarrow> (\<lambda>x. Inr (c * x + d)) x = Inr ((\<lambda>x. c * x + d) x)"
    by simp
  from ideal_lib_brentq_converges [unfolded brentq_converges_def,
      THEN spec [where x = "\<lambda>x. Inr (c * x + d)"], THEN spec [where x = "\<lambda>x. c * x + d"],
      THEN spec [where x = a], THEN spec [where x = b]] cont sc
  show "\<exists>x r. brentq ideal_lib (\<lambda>x. Inr (c * x + d)) a b = Inr (x, r)" by simp
qed

lemma ideal_lib_scipy_like: "scipy_like ideal_lib"
  by (simp add: scipy_like_def ideal_lib_brentq_sound ideal_lib_brentq_checks
      ideal_lib_brentq_affine quad_exact_quadratic_affine [OF ideal_lib_quad_exact_quadratic])

lemmas ideal_lib_contracts =
  ideal_lib_scipy_like ideal_lib_brentq_local ideal_lib_brentq_converges ideal_lib_quad_exact_quadratic

subsection \<open>Properties\<close>

text \<open>
  C27. The round trip of \<open>InverseOfIntegral\<close> on the cumulative area, as a
  total statement: for a positive width function whose cumulative area is
  continuous, and a root finder meeting the contracts, inverting the area up
  to any \<open>x0\<close> in \<open>[xmin, xmax]\<close> returns, and returns \<open>x0\<close>.
\<close>

theorem inverse_area_roundtrip_total:
  assumes "brentq_sound lib" "brentq_converges lib" "quad_additive lib f" "quad_positive lib f"
    and "continuous_on {xmin..xmax} (cumulative_area lib f xmin)" "xmin \<le> x0" "x0 \<le> xmax"
  shows "inverse_area_under_curve lib (cumulative_area lib f xmin) (area_under_curve lib f xmin x0)
           xmin xmax = Inr x0"
proof -
  have mm: "min xmin xmax = xmin" "max xmin xmax = xmax" using assms(6,7) by simp_all
  have z: "area_under_curve lib f xmin xmin = 0" using quad_same [OF assms(3)] by simp
  have nn: "0 \<le> area_under_curve lib f xmin x0"
    using quad_pos_iff [OF assms(3,4), of xmin x0] assms(6) z by (cases "xmin = x0") auto
  have "0 \<le> area_under_curve lib f x0 xmax"
    using quad_pos_iff [OF assms(3,4), of x0 xmax] assms(7) quad_same [OF assms(3), of x0]
    by (cases "x0 = xmax") auto
  then have le: "area_under_curve lib f xmin x0 \<le> area_under_curve lib f xmin xmax"
    using quad_additiveD [OF assms(3), of xmin x0 xmax] by simp
  have "(area_under_curve lib f xmin xmin - area_under_curve lib f xmin x0) *
        (area_under_curve lib f xmin xmax - area_under_curve lib f xmin x0) \<le> 0"
    unfolding z using nn le by (intro mult_nonpos_nonneg) simp_all
  then obtain x where x: "compute_inverse_function_value lib (cumulative_area lib f xmin)
      (area_under_curve lib f xmin x0) xmin xmax = Inr x"
    using compute_inverse_exists [OF assms(1,2), of xmin xmax "cumulative_area lib f xmin"] assms(5)
    unfolding mm by blast
  with inverse_area_roundtrip [OF assms(3,4,1)] have "x = x0" by simp
  with x show ?thesis by simp
qed

theorem inverse_area_roundtrip_total_witness:
  "brentq_sound ideal_lib \<and> brentq_converges ideal_lib \<and>
   quad_additive ideal_lib (\<lambda>_. 1) \<and> quad_positive ideal_lib (\<lambda>_. 1) \<and>
   continuous_on {0..4} (cumulative_area ideal_lib (\<lambda>_. 1) 0) \<and> (0::real) \<le> 1 \<and> (1::real) \<le> 4 \<and>
   inverse_area_under_curve ideal_lib (cumulative_area ideal_lib (\<lambda>_. 1) 0)
     (area_under_curve ideal_lib (\<lambda>_. 1) 0 1) 0 4 = Inr 1"
proof -
  have aff: "quad_exact_affine ideal_lib"
    by (rule quad_exact_quadratic_affine [OF ideal_lib_quad_exact_quadratic])
  have lib: "quad_additive ideal_lib (\<lambda>_. 1)" "quad_positive ideal_lib (\<lambda>_. 1)"
    using quad_const_additive [OF aff] quad_const_positive [OF aff, of 1] by simp_all
  have cum: "cumulative_area ideal_lib (\<lambda>_. 1) 0 = (\<lambda>x. x)"
    using quad_const [OF aff, of 1 0] by simp
  have cont: "continuous_on {0..4} (cumulative_area ideal_lib (\<lambda>_. 1) 0)"
    unfolding cum by (rule continuous_on_id)
  show ?thesis
    using inverse_area_roundtrip_total [OF ideal_lib_brentq_sound ideal_lib_brentq_converges lib cont,
        of 1] ideal_lib_brentq_sound ideal_lib_brentq_converges lib cont
    by simp
qed

end
