(* ===== verification/AdamsPatchTests.thy ===== *)
theory AdamsPatchTests
  imports ConstantWidth Convergence
begin

text \<open>
  The pytest suite of the solver, \<open>src/adams_patch/test_adams_patch.py\<close>. Each
  test is a function of the library (the \<open>numlib\<close> of \<open>Numerics\<close>) to its
  outcome, and each \<open>parametrize\<close> list is a list of cases. The theorems show
  which tests pass for every library meeting the contracts. The contracts of
  \<open>Numerics\<close> decide the cases with affine integrands and targets and the
  constant-width layouts. The contracts of \<open>Convergence\<close> (\<open>quad\<close> exact on
  quadratics, \<open>brentq\<close> returning on continuous targets with a sign change)
  decide the rest: the area of \<open>x**2 + 1\<close>, the quadratic inverses, and the
  optimizer case with width \<open>x\<close>, whose exact answer is \<open>4 - sqrt 31 / 4\<close>.
\<close>

text \<open>The tolerance checks of the tests: \<open>expected - tol < actual < expected + tol\<close>.\<close>

definition close_to :: "real \<Rightarrow> real \<Rightarrow> real \<Rightarrow> bool" where
  "close_to tol expected actual \<longleftrightarrow> expected - tol < actual \<and> actual < expected + tol"

definition area_cases :: "(curve \<times> (real \<times> real) \<times> real) list" where
  "area_cases =
     [((\<lambda>x. 0 * x + 1), (0, 1), 1),
      ((\<lambda>x. 1 * x + 0), (0, 1), 0.5),
      ((\<lambda>x. 1 * x\<^sup>2 + 1), (0, 2), 14 / 3)]"

definition test_area_under_curve :: "numlib \<Rightarrow> curve \<Rightarrow> real \<Rightarrow> real \<Rightarrow> real \<Rightarrow> test_outcome" where
  "test_area_under_curve lib fn xmin xmax integral =
     (let integral_actual = area_under_curve lib fn xmin xmax
      in assert_outcome (Inr (close_to (1 / 10 ^ 4) integral integral_actual)))"

definition inverse_cases :: "(curve \<times> real \<times> (real \<times> real) \<times> real) list" where
  "inverse_cases =
     [((\<lambda>x. x), 2, (-1, 3), 2),
      ((\<lambda>x. x\<^sup>2 + 1), 5, (0, 4), 2)]"

definition test_compute_inverse_function_value ::
  "numlib \<Rightarrow> curve \<Rightarrow> real \<Rightarrow> real \<Rightarrow> real \<Rightarrow> real \<Rightarrow> test_outcome"
where
  "test_compute_inverse_function_value lib fn y xmin xmax x =
     assert_outcome (rbind (compute_inverse_function_value lib fn y xmin xmax)
       (\<lambda>x_actual. Inr (close_to (1 / 10 ^ 4) x x_actual)))"

definition test_inverse_area_under_curve :: "numlib \<Rightarrow> test_outcome" where
  "test_inverse_area_under_curve lib =
     (let xmin = 0; xmax = 4; area = 2; x_expected = 2; f = (\<lambda>x. x);
          area_fun = (\<lambda>x. area_under_curve lib f xmin x)
      in assert_outcome (rbind (inverse_area_under_curve lib area_fun area xmin xmax)
           (\<lambda>x_actual. Inr (close_to (1 / 10 ^ 4) x_expected x_actual))))"

text \<open>
  \<open>numpy.testing.assert_allclose\<close> with its defaults (\<open>rtol = 1e-7\<close>,
  \<open>atol = 0\<close>) on an array of pairs: equal shapes and every entry close.
\<close>

definition allclose_pairs :: "interval list \<Rightarrow> interval list \<Rightarrow> bool" where
  "allclose_pairs actual desired \<longleftrightarrow>
     length actual = length desired \<and>
     list_all2 (\<lambda>(a1, a2) (d1, d2). \<bar>a1 - d1\<bar> \<le> 1 / 10 ^ 7 * \<bar>d1\<bar> \<and> \<bar>a2 - d2\<bar> \<le> 1 / 10 ^ 7 * \<bar>d2\<bar>)
       actual desired"

definition test_compute_covered_area :: "numlib \<Rightarrow> test_outcome" where
  "test_compute_covered_area lib =
     (let f = (\<lambda>x. 0 * x + 1); area_patch = 1; npatches = 2; w = 1
      in case compute_covered_area lib f area_patch npatches w 0 10 of
           Inl e \<Rightarrow> Errored e
         | Inr (covered, seps) \<Rightarrow>
             if covered = 3 then assert_outcome (Inr (allclose_pairs seps [(1, 2)]))
             else Failed)"

text \<open>\<open>with pytest.raises(ValueError): optimize_patch_area('f', 0, 1, 2, 1)\<close>; the
  string \<open>'f'\<close> is never called, so the test holds for every width function.\<close>

definition test_that_optimize_patch_area_raises_value_error :: "numlib \<Rightarrow> curve \<Rightarrow> test_outcome" where
  "test_that_optimize_patch_area_raises_value_error lib f =
     (case optimize_patch_area lib f 0 1 2 1 of
        Inl (ValueError _) \<Rightarrow> Passed
      | Inl e \<Rightarrow> Errored e
      | Inr _ \<Rightarrow> Failed)"

definition optimize_cases :: "(curve \<times> (real \<times> real) \<times> int \<times> real \<times> real) list" where
  "optimize_cases =
     [((\<lambda>x. 0 * x + 1), (0, 4), 0, 10, 4),
      ((\<lambda>x. 0 * x + 1), (0, 4), 3, 0.5, 1),
      ((\<lambda>x. 1 * x + 0), (0, 4), 2, 1, 2.608058909292573)]"

definition test_optimize_patch_area ::
  "numlib \<Rightarrow> curve \<Rightarrow> real \<times> real \<Rightarrow> int \<Rightarrow> real \<Rightarrow> real \<Rightarrow> test_outcome"
where
  "test_optimize_patch_area lib fn xmin_xmax npatches w area_patch =
     assert_outcome (rbind (optimize_patch_area lib fn (fst xmin_xmax) (snd xmin_xmax) npatches w)
       (\<lambda>area_patch_actual. Inr (\<bar>area_patch_actual - area_patch\<bar> < 1 / 10 ^ 5)))"

subsection \<open>Lemmas\<close>

lemma quad_identity:
  "quad_exact_affine lib \<Longrightarrow> fst (quad lib (\<lambda>x. x) a b) = (b\<^sup>2 - a\<^sup>2) / 2"
proof -
  assume "quad_exact_affine lib"
  then have "fst (quad lib (\<lambda>x. 1 * x + 0) a b) = 1 * (b\<^sup>2 - a\<^sup>2) / 2 + 0 * (b - a)"
    unfolding quad_exact_affine_def by blast
  then show ?thesis by simp
qed

text \<open>
  For every library meeting the contracts and searching only inside the bracket,
  the second optimizer case returns exactly \<open>1\<close>: the layout at the upper
  bracket end fits (\<open>ConstantWidth\<close>).
\<close>

lemma optimize_three_const:
  assumes "scipy_like lib" "brentq_local lib"
  shows "optimize_patch_area lib (\<lambda>_. 1) 0 4 3 (1/2) = Inr 1"
  using optimize_patch_area_const_eq [OF assms, of 1 3 "1/2" 4 0]
  by (simp add: const_fits_def Let_def)

lemma quad_quadratic_case:
  assumes "quad_exact_quadratic lib"
  shows "fst (quad lib (\<lambda>x. x\<^sup>2 + 1) 0 2) = 14 / 3"
proof -
  have "fst (quad lib (\<lambda>x. 1 * x\<^sup>2 + 0 * x + 1) 0 2) =
        1 * (2 ^ 3 - 0 ^ 3) / 3 + 0 * (2\<^sup>2 - 0\<^sup>2) / 2 + 1 * (2 - 0)"
    using assms unfolding quad_exact_quadratic_def by blast
  then show ?thesis by simp
qed

lemma sqrt_of_square:
  fixes x y :: real
  assumes "x\<^sup>2 = y" "0 \<le> x"
  shows "x = sqrt y"
  using real_sqrt_unique [OF assms] by simp

lemma inverse_quadratic_case:
  assumes "brentq_sound lib" "brentq_converges lib"
  shows "compute_inverse_function_value lib (\<lambda>x. x\<^sup>2 + 1) 5 0 4 = Inr 2"
proof -
  have "continuous_on {min 0 4..max 0 4} (\<lambda>x::real. x\<^sup>2 + 1)" by (intro continuous_intros)
  then obtain x where x: "compute_inverse_function_value lib (\<lambda>x. x\<^sup>2 + 1) 5 0 4 = Inr x"
      "x\<^sup>2 + 1 = 5" "0 \<le> x"
    using compute_inverse_exists [OF assms, of 0 4 "\<lambda>x. x\<^sup>2 + 1" 5] by auto
  have "x = sqrt 4" using x(2,3) by (intro sqrt_of_square) simp_all
  then have "x = 2" by simp
  with x(1) show ?thesis by simp
qed

lemma cumulative_linear:
  "quad_exact_affine lib \<Longrightarrow> cumulative_area lib (\<lambda>x. x) a = (\<lambda>x. (x\<^sup>2 - a\<^sup>2) / 2)"
proof
  fix x
  assume "quad_exact_affine lib"
  then have "fst (quad lib (\<lambda>x. 1 * x + 0) a x) = 1 * (x\<^sup>2 - a\<^sup>2) / 2 + 0 * (x - a)"
    unfolding quad_exact_affine_def by blast
  then show "area_under_curve lib (\<lambda>x. x) a x = (x\<^sup>2 - a\<^sup>2) / 2" by simp
qed

text \<open>Inverting the cumulative area of the width \<open>x\<close> from \<open>0\<close> on \<open>[0, 4]\<close>.\<close>

lemma inverse_linear_area:
  assumes "scipy_like lib" "brentq_converges lib" "0 \<le> y" "y \<le> 8"
  shows "compute_inverse_function_value lib (cumulative_area lib (\<lambda>x. x) 0) y 0 4 = Inr (sqrt (2 * y))"
proof -
  have lib: "brentq_sound lib" "quad_exact_affine lib" using assms(1) by (simp_all add: scipy_like_def)
  have cum: "cumulative_area lib (\<lambda>x. x) 0 = (\<lambda>x. x\<^sup>2 / 2)"
    using cumulative_linear [OF lib(2), of 0] by simp
  have "continuous_on {min 0 4..max 0 4} (\<lambda>x::real. x\<^sup>2 / 2)" by (intro continuous_intros) simp
  moreover have "(0\<^sup>2 / 2 - y) * (4\<^sup>2 / 2 - y) \<le> 0"
    using assms(3,4) by (intro mult_nonpos_nonneg) simp_all
  ultimately obtain x where x: "compute_inverse_function_value lib (\<lambda>x. x\<^sup>2 / 2) y 0 4 = Inr x"
      "x\<^sup>2 / 2 = y" "0 \<le> x"
    using compute_inverse_exists [OF lib(1) assms(2), of 0 4 "\<lambda>x. x\<^sup>2 / 2" y] by auto
  have "x = sqrt (2 * y)" using x(2,3) by (intro sqrt_of_square) simp_all
  with x(1) show ?thesis unfolding cum by simp
qed

text \<open>
  The optimizer's target for the width \<open>x\<close> on \<open>[0, 4]\<close>, two patches and
  \<open>w = 1\<close>: the separator starts where the first patch's area \<open>p\<close> is reached,
  at \<open>sqrt(2p)\<close>, and has area \<open>sqrt(2p) + 1/2\<close>.
\<close>

lemma optimize_target_linear:
  assumes "scipy_like lib" "brentq_converges lib" "0 \<le> p" "p \<le> 8"
  shows "optimize_target lib (\<lambda>x. x) 0 4 2 1 8 p = Inr (15 / 2 - 2 * p - sqrt (2 * p))"
proof -
  have lib: "quad_exact_affine lib" using assms(1) by (simp add: scipy_like_def)
  have sep: "area_under_curve lib (\<lambda>x. x) s (s + 1) = s + 1 / 2" for s
    using fun_cong [OF cumulative_linear [OF lib, of s], of "s + 1"]
    by (simp add: power2_eq_square field_simps)
  show ?thesis
    using inverse_linear_area [OF assms]
    by (simp add: optimize_target_def compute_covered_area_def cover_step_def sep
        del: area_under_curve_quad)
qed

lemma np_max_linspace:
  assumes "a \<le> b"
  shows "np_max (np_linspace a b 100) = Inr b"
proof -
  obtain x xs where l: "np_linspace a b 100 = x # xs"
    by (cases "np_linspace a b 100") simp_all
  have mem: "b \<in> set (np_linspace a b 100)" by (simp add: np_linspace_def)
  have le: "y \<le> b" if "y \<in> set (np_linspace a b 100)" for y
  proof -
    from that consider "y = b" | i where "i < 99" "y = of_nat i * ((b - a) / 99) + a"
      by (auto simp: np_linspace_def)
    then show ?thesis
    proof cases
      case 1
      then show ?thesis by simp
    next
      case 2
      have "of_nat i * ((b - a) / 99) \<le> 99 * ((b - a) / 99)"
        using 2(1) assms by (intro mult_right_mono) simp_all
      then show ?thesis using 2(2) by simp
    qed
  qed
  have "Max (set (x # xs)) = b"
    using mem le unfolding l by (intro Max_eqI) auto
  then have "fold max xs x = b" by (simp only: Max.set_eq_fold)
  then show ?thesis by (simp add: l)
qed

text \<open>The zero of \<open>15/2 - 2p - sqrt(2p)\<close> is \<open>4 - sqrt 31 / 4\<close>.\<close>

lemma linear_root:
  fixes p :: real
  assumes "0 \<le> p" "15 / 2 - 2 * p - sqrt (2 * p) = 0"
  shows "p = 4 - sqrt 31 / 4"
proof -
  define t where "t = sqrt (2 * p)"
  have t0: "0 \<le> t" and tt: "t\<^sup>2 = 2 * p" using assms(1) by (simp_all add: t_def)
  have "t\<^sup>2 + t = 15 / 2" using assms(2) tt by (simp add: t_def)
  then have "(2 * t + 1)\<^sup>2 = 31" by (simp add: power2_eq_square algebra_simps)
  then have s: "2 * t + 1 = sqrt 31" using t0 by (intro sqrt_of_square) simp_all
  have t: "t = (sqrt 31 - 1) / 2" using s by simp
  have "p = t\<^sup>2 / 2" using tt by simp
  also have "\<dots> = ((sqrt 31 - 1) / 2)\<^sup>2 / 2" by (simp only: t)
  also have "\<dots> = 4 - sqrt 31 / 4"
    by (simp add: power2_diff power_divide field_simps)
  finally show ?thesis .
qed

lemma optimize_linear_case:
  assumes "scipy_like lib" "brentq_converges lib"
  shows "optimize_patch_area lib (\<lambda>x. x) 0 4 2 1 = Inr (4 - sqrt 31 / 4)"
proof -
  have lib: "brentq_sound lib" "quad_exact_affine lib" using assms(1) by (simp_all add: scipy_like_def)
  have A: "area_under_curve lib (\<lambda>x. x) 0 4 = 8"
    using fun_cong [OF cumulative_linear [OF lib(2), of 0], of 4] by simp
  define h where "h p = 15 / 2 - 2 * p - sqrt (2 * p)" for p :: real
  have g: "\<forall>x. min (9 / 5) (22 / 5) \<le> x \<and> x \<le> max (9 / 5) (22 / 5) \<longrightarrow>
             optimize_target lib (\<lambda>x. x) 0 4 2 1 8 x = Inr (h x)"
    using optimize_target_linear [OF assms] by (simp add: h_def)
  have cont: "continuous_on {min (9 / 5) (22 / 5)..max (9 / 5) (22 / 5)} h"
    unfolding h_def by (intro continuous_intros)
  have "sqrt (18 / 5) < 2" by (rule real_less_lsqrt) simp_all
  then have "0 \<le> h (9 / 5)" by (simp add: h_def)
  moreover have "h (22 / 5) \<le> 0"
  proof -
    have "h (22 / 5) = - (13 / 10) - sqrt (44 / 5)" by (simp add: h_def)
    with real_sqrt_ge_zero [of "44 / 5"] show ?thesis by linarith
  qed
  ultimately have sc: "h (9 / 5) * h (22 / 5) \<le> 0" by (rule mult_nonneg_nonpos)
  obtain p r where br: "brentq lib (optimize_target lib (\<lambda>x. x) 0 4 2 1 8) (9 / 5) (22 / 5) = Inr (p, r)"
      and hp: "h p = 0" and p0: "9 / 5 \<le> p"
    using brentq_converges_root [OF lib(1) assms(2) g cont sc] by auto
  have p: "p = 4 - sqrt 31 / 4"
    using linear_root [of p] hp p0 by (simp add: h_def)
  have bracket: "patch_area_bracket 8 1 4 2 = (9 / 5, 22 / 5)"
    by (simp add: patch_area_bracket_def)
  have "np_max (map (\<lambda>x. x) (np_linspace 0 4 100)) = Inr 4" by (simp add: np_max_linspace)
  then have mx: "np_max (np_linspace 0 4 100) = Inr 4" by simp
  have "optimize_patch_area lib (\<lambda>x. x) 0 4 2 1 =
    rbind (np_max (map (\<lambda>x. x) (np_linspace 0 4 100))) (\<lambda>f_max.
      rbind (brentq lib (optimize_target lib (\<lambda>x. x) 0 4 2 1 (area_under_curve lib (\<lambda>x. x) 0 4))
               (fst (patch_area_bracket (area_under_curve lib (\<lambda>x. x) 0 4) 1 f_max 2))
               (snd (patch_area_bracket (area_under_curve lib (\<lambda>x. x) 0 4) 1 f_max 2)))
        (\<lambda>(area_patch, _). Inr area_patch))"
    by (rule optimize_search) simp_all
  also have "\<dots> = Inr p"
    unfolding A by (simp add: mx bracket br)
  finally show ?thesis by (simp only: p)
qed

lemma sqrt_31_bounds: "556773 / 100000 < sqrt 31" "sqrt 31 < 55678 / 10000"
proof -
  show "556773 / 100000 < sqrt 31" by (rule real_less_rsqrt) (simp add: power2_eq_square)
  show "sqrt 31 < 55678 / 10000" by (rule real_less_lsqrt) (simp_all add: power2_eq_square)
qed

subsection \<open>Properties\<close>

text \<open>
  The first two cases of \<open>test_area_under_curve\<close> (\<open>0*x + 1\<close> and \<open>x\<close> on
  \<open>[0, 1]\<close>) need only that \<open>quad\<close> is exact on affine integrands.
\<close>

theorem test_area_affine_cases_pass:
  assumes "quad_exact_affine lib"
  shows "list_all (\<lambda>(fn, (xmin, xmax), integral). test_area_under_curve lib fn xmin xmax integral = Passed)
           (take 2 area_cases)"
  by (simp add: area_cases_def test_area_under_curve_def assert_outcome_def close_to_def
      quad_const [OF assms] quad_identity [OF assms])

text \<open>
  C28. All three cases of \<open>test_area_under_curve\<close> pass for every library
  whose \<open>quad\<close> is exact on quadratic integrands, \<open>x**2 + 1\<close> on \<open>[0, 2]\<close>
  (area \<open>14/3\<close>) included.
\<close>

theorem test_area_under_curve_passes:
  assumes "quad_exact_quadratic lib"
  shows "list_all (\<lambda>(fn, (xmin, xmax), integral). test_area_under_curve lib fn xmin xmax integral = Passed)
           area_cases"
proof -
  have "quad_exact_affine lib" by (rule quad_exact_quadratic_affine [OF assms])
  then show ?thesis
    by (simp add: area_cases_def test_area_under_curve_def assert_outcome_def close_to_def
        quad_const quad_identity quad_quadratic_case [OF assms])
qed

theorem test_area_under_curve_passes_witness:
  "quad_exact_quadratic ideal_lib \<and> test_area_under_curve ideal_lib (\<lambda>x. 1 * x\<^sup>2 + 1) 0 2 (14 / 3) = Passed"
  using test_area_under_curve_passes [OF ideal_lib_quad_exact_quadratic]
  by (simp add: area_cases_def ideal_lib_quad_exact_quadratic)

text \<open>
  The affine case of \<open>test_compute_inverse_function_value\<close> (\<open>x = 2\<close> on
  \<open>[-1, 3]\<close>) needs only the contracts of \<open>Numerics\<close>: \<open>brentq\<close> returns on
  the affine target and what it returns is its zero.
\<close>

theorem test_inverse_affine_case_passes:
  assumes "scipy_like lib"
  shows "list_all (\<lambda>(fn, y, (xmin, xmax), x). test_compute_inverse_function_value lib fn y xmin xmax x = Passed)
           (take 1 inverse_cases)"
proof -
  have lib: "brentq_sound lib" "brentq_affine lib" using assms by (simp_all add: scipy_like_def)
  have "(1 * (-1) + (-2)) * (1 * 3 + (-2)) \<le> (0::real)" by simp
  then obtain r where br: "brentq lib (\<lambda>x. Inr (1 * x + (-2))) (-1) 3 = Inr (2, r)"
    using brentq_affine_root [OF lib, of 1 "-1" "-2" 3] by auto
  have eq: "(\<lambda>x::real. Inr (1 * x + (-2)) :: real result) = (\<lambda>x. Inr (x - 2))" by simp
  have "compute_inverse_function_value lib (\<lambda>x. x) 2 (-1) 3 = Inr 2"
    using br [unfolded eq] by (auto simp: compute_inverse_Inr)
  then show ?thesis
    by (simp add: inverse_cases_def test_compute_inverse_function_value_def assert_outcome_def close_to_def)
qed

text \<open>
  C29. Both cases of \<open>test_compute_inverse_function_value\<close> and
  \<open>test_inverse_area_under_curve\<close> pass for every library meeting the
  contracts whose \<open>brentq\<close> returns on continuous targets with a sign change:
  \<open>x**2 + 1 = 5\<close> on \<open>[0, 4]\<close> is inverted at \<open>2\<close>, and so is the area
  \<open>x**2 / 2 = 2\<close> of the width \<open>x\<close>.
\<close>

theorem test_inverse_tests_pass:
  assumes "scipy_like lib" "brentq_converges lib"
  shows "list_all (\<lambda>(fn, y, (xmin, xmax), x). test_compute_inverse_function_value lib fn y xmin xmax x = Passed)
           inverse_cases \<and>
         test_inverse_area_under_curve lib = Passed"
proof -
  have lib: "brentq_sound lib" using assms(1) by (simp add: scipy_like_def)
  have "test_compute_inverse_function_value lib (\<lambda>x. x) 2 (-1) 3 2 = Passed"
    using test_inverse_affine_case_passes [OF assms(1)] by (simp add: inverse_cases_def)
  moreover have "test_compute_inverse_function_value lib (\<lambda>x. x\<^sup>2 + 1) 5 0 4 2 = Passed"
    by (simp add: test_compute_inverse_function_value_def assert_outcome_def close_to_def
        inverse_quadratic_case [OF lib assms(2)])
  moreover have "test_inverse_area_under_curve lib = Passed"
    using inverse_linear_area [OF assms, of 2]
    by (simp add: test_inverse_area_under_curve_def assert_outcome_def close_to_def Let_def
        del: area_under_curve_quad)
  ultimately show ?thesis by (simp add: inverse_cases_def)
qed

theorem test_inverse_tests_pass_witness:
  "scipy_like ideal_lib \<and> brentq_converges ideal_lib \<and>
   test_compute_inverse_function_value ideal_lib (\<lambda>x. x\<^sup>2 + 1) 5 0 4 2 = Passed \<and>
   test_inverse_area_under_curve ideal_lib = Passed"
  using test_inverse_tests_pass [OF ideal_lib_scipy_like ideal_lib_brentq_converges]
  by (simp add: inverse_cases_def ideal_lib_contracts)

text \<open>
  C30. \<open>test_compute_covered_area\<close> (width 1, \<open>area_patch = 1\<close>, two patches,
  \<open>w = 1\<close> on \<open>[0, 10]\<close>) passes for every library meeting the contracts: the
  covered area is \<open>3\<close> and the only separator is \<open>[1, 2]\<close>.
\<close>

theorem test_compute_covered_area_passes:
  assumes "scipy_like lib"
  shows "test_compute_covered_area lib = Passed"
proof -
  have "compute_covered_area lib (\<lambda>_. 1) 1 2 1 0 10 = Inr (3, [(1, 2)])"
    by (simp add: compute_covered_area_def cover_step_const_Inr [OF assms])
  then show ?thesis
    by (simp add: test_compute_covered_area_def assert_outcome_def allclose_pairs_def)
qed

theorem test_compute_covered_area_passes_witness:
  "scipy_like ref_lib \<and> test_compute_covered_area ref_lib = Passed"
  using test_compute_covered_area_passes [OF scipy_like_ref_lib] by (simp add: scipy_like_ref_lib)

text \<open>
  \<open>test_that_optimize_patch_area_raises_value_error\<close> passes for every
  library and every width function: the guard raises before \<open>f\<close> is used.
\<close>

theorem test_optimize_raises_passes:
  "test_that_optimize_patch_area_raises_value_error lib f = Passed"
  by (simp add: test_that_optimize_patch_area_raises_value_error_def optimize_guard)

text \<open>
  The two constant-width cases of \<open>test_optimize_patch_area\<close> pass for
  every library meeting the contracts that searches only inside the bracket:
  no patches gives the whole area \<open>4\<close>, three patches with \<open>w = 0.5\<close> give
  \<open>1\<close>.
\<close>

theorem test_optimize_constant_cases_pass:
  assumes "scipy_like lib" "brentq_local lib"
  shows "list_all (\<lambda>(fn, xmin_xmax, npatches, w, area_patch).
             test_optimize_patch_area lib fn xmin_xmax npatches w area_patch = Passed)
           (take 2 optimize_cases)"
proof -
  have "quad_exact_affine lib" using assms(1) by (simp add: scipy_like_def)
  then have "optimize_patch_area lib (\<lambda>_. 1) 0 4 0 10 = Inr 4"
    by (simp add: optimize_patch_area_def quad_const)
  then show ?thesis
    by (simp add: optimize_cases_def test_optimize_patch_area_def assert_outcome_def
        optimize_three_const [OF assms])
qed

text \<open>
  C31. All three cases of \<open>test_optimize_patch_area\<close> pass for every library
  meeting the contracts that searches only inside the bracket and returns on
  continuous targets with a sign change. For the width \<open>x\<close> on \<open>[0, 4]\<close>,
  two patches and \<open>w = 1\<close>, the optimizer returns exactly \<open>4 - sqrt 31 / 4\<close>,
  within \<open>1e-5\<close> of the expected \<open>2.608058909292573\<close>.
\<close>

theorem test_optimize_patch_area_passes:
  assumes "scipy_like lib" "brentq_local lib" "brentq_converges lib"
  shows "list_all (\<lambda>(fn, xmin_xmax, npatches, w, area_patch).
             test_optimize_patch_area lib fn xmin_xmax npatches w area_patch = Passed)
           optimize_cases"
proof -
  have two: "list_all (\<lambda>(fn, xmin_xmax, npatches, w, area_patch).
             test_optimize_patch_area lib fn xmin_xmax npatches w area_patch = Passed)
           (take 2 optimize_cases)"
    by (rule test_optimize_constant_cases_pass [OF assms(1,2)])
  have lo: "- (1 / 10 ^ 5) < 4 - sqrt 31 / 4 - 2.608058909292573"
    and hi: "4 - sqrt 31 / 4 - 2.608058909292573 < (1 / 10 ^ 5 :: real)"
    using sqrt_31_bounds by simp_all
  have "\<bar>4 - sqrt 31 / 4 - 2.608058909292573\<bar> < 1 / 10 ^ 5"
    unfolding abs_less_iff
  proof
    show "4 - sqrt 31 / 4 - 2.608058909292573 < 1 / 10 ^ 5" by (rule hi)
    show "- (4 - sqrt 31 / 4 - 2.608058909292573) < 1 / 10 ^ 5" using lo by linarith
  qed
  then have "test_optimize_patch_area lib (\<lambda>x. 1 * x + 0) (0, 4) 2 1 2.608058909292573 = Passed"
    by (simp add: test_optimize_patch_area_def assert_outcome_def optimize_linear_case [OF assms(1,3)])
  with two show ?thesis by (simp add: optimize_cases_def)
qed

theorem test_optimize_patch_area_passes_witness:
  "scipy_like ideal_lib \<and> brentq_local ideal_lib \<and> brentq_converges ideal_lib \<and>
   test_optimize_patch_area ideal_lib (\<lambda>x. 1 * x + 0) (0, 4) 2 1 2.608058909292573 = Passed"
  using test_optimize_patch_area_passes [OF ideal_lib_scipy_like ideal_lib_brentq_local
      ideal_lib_brentq_converges]
  by (simp add: optimize_cases_def ideal_lib_contracts)

end
