(* ===== verification/Pipeline.thy ===== *)
theory Pipeline
  imports ConstantWidth
begin

text \<open>
  The script part of \<open>src/adams_patch/adams_patch.py\<close> (its \<open>__main__\<close>
  block): the input (an interval, a patch count, a separator width and the
  width function \<open>fupper - flower\<close>), then the solve step, which calls
  \<open>optimize_patch_area\<close> and lays out the patches with the area it returned by
  \<open>compute_covered_area\<close>. The plotting that follows is in \<open>Plot\<close>. The
  theorem composes the optimizer's soundness with the layout invariant of
  \<open>CoveredArea\<close>: when the pipeline returns, the interval is split into
  \<open>npatches\<close> patches of exactly the same area, the last one (from the end of
  the last separator to \<open>xmax\<close>) included.
\<close>

text \<open>
  The solve step, lines \<open>area_patch = optimize_patch_area(...)\<close> and
  \<open>area_patch, separator_locations = compute_covered_area(...)\<close>; the second
  assignment rebinds \<open>area_patch\<close> to the covered area the call returns.
\<close>

definition solve_layout ::
  "numlib \<Rightarrow> curve \<Rightarrow> real \<Rightarrow> real \<Rightarrow> int \<Rightarrow> real \<Rightarrow> (real \<times> interval list) result"
where
  "solve_layout lib area_function xmin xmax npatches w =
     rbind (optimize_patch_area lib area_function xmin xmax npatches w) (\<lambda>area_patch.
       compute_covered_area lib area_function area_patch npatches w xmin xmax)"

definition adams_patch_main :: "numlib \<Rightarrow> (real \<times> interval list) result" where
  "adams_patch_main lib =
     (let xmin = 0; xmax = 3; npatches = 3; w = 0.3;
          flower = (\<lambda>x. 0 * x); fupper = (\<lambda>x. x\<^sup>2 + 1);
          area_function = (\<lambda>x. fupper x - flower x)
      in solve_layout lib area_function xmin xmax npatches w)"

subsection \<open>Lemmas\<close>

lemma solve_layout_Inr:
  "solve_layout lib f xmin xmax npatches w = Inr (covered, seps) \<longleftrightarrow>
     (\<exists>p. optimize_patch_area lib f xmin xmax npatches w = Inr p \<and>
          compute_covered_area lib f p npatches w xmin xmax = Inr (covered, seps))"
  by (simp add: solve_layout_def rbind_eq_Inr)

lemma adams_patch_main_eq:
  "adams_patch_main lib = solve_layout lib (\<lambda>x. x\<^sup>2 + 1) 0 3 3 0.3"
  by (simp add: adams_patch_main_def)

text \<open>The patch after the last separator, up to \<open>xmax\<close>.\<close>

lemma last_patch_area:
  assumes "quad_additive lib f"
    and "area_under_curve lib f xmin xmax = area_under_curve lib f xmin fr + p"
  shows "area_under_curve lib f fr xmax = p"
  using assms quad_additiveD [OF assms(1), of xmin fr xmax] by simp

subsection \<open>Properties\<close>

text \<open>
  C34. Composition of the solver's two steps: for a sound root finder and an
  additive \<open>quad\<close>, when the solve step returns \<open>(covered, seps)\<close>, the
  optimizer returned some patch area \<open>p\<close>, the covered area is the whole area
  under the curve, there are \<open>npatches - 1\<close> separators, and every one of the
  \<open>npatches\<close> patches, the last one from the final separator to \<open>xmax\<close>
  included, has area exactly \<open>p\<close>.
\<close>

theorem solve_layout_sound:
  assumes "brentq_sound lib" "quad_additive lib f" "npatches \<noteq> 0"
    and "solve_layout lib f xmin xmax npatches w = Inr (covered, seps)"
  shows "\<exists>p. optimize_patch_area lib f xmin xmax npatches w = Inr p \<and>
             covered = area_under_curve lib f xmin xmax \<and> length seps = nat (npatches - 1) \<and>
             (\<forall>(a, b) \<in> set (patch_intervals xmin seps @ [(frontier xmin seps, xmax)]).
                area_under_curve lib f a b = p)"
proof -
  obtain p where opt: "optimize_patch_area lib f xmin xmax npatches w = Inr p"
    and cov: "compute_covered_area lib f p npatches w xmin xmax = Inr (covered, seps)"
    using assms(4) unfolding solve_layout_Inr by blast
  obtain seps' where "compute_covered_area lib f p npatches w xmin xmax
      = Inr (area_under_curve lib f xmin xmax, seps')"
    using optimize_sound_aux [OF assms(1,3) opt] by blast
  with cov have whole: "covered = area_under_curve lib f xmin xmax" by simp
  have len: "length seps = nat (npatches - 1)"
    using compute_covered_area_shape [OF cov] by simp
  have lay: "layout_inv lib f p xmin xmax \<lparr>total_area_covered = covered, separator_locations = seps\<rparr>"
    by (rule compute_covered_area_layout [OF assms(1,2) cov])
  then have inner: "\<forall>(a, b) \<in> set (patch_intervals xmin seps). area_under_curve lib f a b = p"
    and fr: "covered = area_under_curve lib f xmin (frontier xmin seps) + p"
    by (simp_all add: layout_inv_def del: area_under_curve_quad)
  have "area_under_curve lib f (frontier xmin seps) xmax = p"
    using last_patch_area [OF assms(2) fr [unfolded whole]] .
  with opt whole len inner show ?thesis by auto
qed

theorem solve_layout_sound_witness:
  "brentq_sound ref_lib \<and> quad_additive ref_lib (\<lambda>_. 1) \<and> (3::int) \<noteq> 0 \<and>
   solve_layout ref_lib (\<lambda>_. 1) 0 4 3 (1 / 2) = Inr (4, [(1, 3 / 2), (5 / 2, 3)]) \<and>
   optimize_patch_area ref_lib (\<lambda>_. 1) 0 4 3 (1 / 2) = Inr 1 \<and>
   area_under_curve ref_lib (\<lambda>_. 1) 3 4 = 1"
proof -
  have run: "solve_layout ref_lib (\<lambda>_. 1) 0 4 3 (1 / 2) = Inr (4, [(1, 3 / 2), (5 / 2, 3)])"
    using compute_covered_area_const_eq [OF scipy_like_ref_lib, of 1 0 4 1 "1 / 2" 3]
    by (simp add: solve_layout_def ref_lib_optimize_three const_fits_def const_seps_def upt_rec)
  have lib: "brentq_sound ref_lib" "quad_additive ref_lib (\<lambda>_. 1)"
    by (simp_all add: ref_lib_const_contracts)
  have n: "(3::int) \<noteq> 0" by simp
  obtain p where opt: "optimize_patch_area ref_lib (\<lambda>_. 1) 0 4 3 (1 / 2) = Inr p"
    and all: "\<forall>(a, b) \<in> set (patch_intervals 0 [(1, 3 / 2), (5 / 2, 3)]
                             @ [(frontier 0 [(1, 3 / 2), (5 / 2, 3)], 4)]).
                area_under_curve ref_lib (\<lambda>_. 1) a b = p"
    using solve_layout_sound [OF lib n run] by blast
  have "area_under_curve ref_lib (\<lambda>_. 1) 0 1 = p" "area_under_curve ref_lib (\<lambda>_. 1) 3 4 = p"
    using all by (simp_all add: frontier_def del: area_under_curve_quad)
  moreover have "area_under_curve ref_lib (\<lambda>_. 1) 0 1 = 1" by (simp add: trapezoid_quad_def)
  ultimately show ?thesis using lib run opt by simp
qed

end
