(* ===== verification/Plot.thy ===== *)
theory Plot
  imports Pipeline "HOL-Library.State_Monad"
begin

text \<open>
  The plotting half of the \<open>__main__\<close> block of \<open>src/adams_patch/adams_patch.py\<close>
  (lines 125 to 160) and \<open>fancy_plot\<close> of \<open>src/doctest/solutions.py\<close>.
  Matplotlib's pyplot keeps global state: the figures created so far, the ones
  still open, and (for the model) the figures a call of \<open>plt.show()\<close> has
  displayed. numpy's global random generator is state as well. Both are the
  record \<open>pyplot\<close>, threaded through the script with HOL-Library's state monad,
  one monadic step per statement of the script. An axes handle \<open>ax\<close> is the
  position of its figure in \<open>figures\<close>, so that drawing through \<open>ax\<close> updates
  that figure in place. The generator is an interface (\<open>generator\<close>) with the
  one contract the script relies on (\<open>generator_ok\<close>): \<open>random_sample\<close> returns
  a float in \<open>[0, 1)\<close> and \<open>randint n\<close> an index below \<open>n\<close>.
\<close>

subsection \<open>Matplotlib and numpy state\<close>

text \<open>
  The artists the script adds to an axes: \<open>ax.plot\<close> adds a line
  (\<open>Line2D\<close>: x data, y data, colour), \<open>ax.fill_between\<close> a polygon collection
  (x, lower and upper curve, the optional \<open>where\<close> mask, face colour, alpha,
  label), \<open>ax.scatter\<close> a path collection (the points, their colours and
  sizes, the marker, the label). A label \<open>None\<close> is no legend entry.
\<close>

datatype artist =
    Line2D "real list" "real list" string
  | PolyCollection "real list" "real list" "real list" "bool list option" string "real option"
      "string option"
  | PathCollection "(real \<times> real) list" "string list" "real list" string "string option"

record axes =
  children :: "artist list"
  legend_labels :: "string list option"

record 'g pyplot =
  figures :: "axes list"
  open_figures :: "nat list"
  displayed :: "axes list"
  rng :: 'g

record 'g generator =
  random_sample :: "'g \<Rightarrow> real \<times> 'g"
  randint :: "nat \<Rightarrow> 'g \<Rightarrow> nat \<times> 'g"

type_synonym ('g, 'a) plt = "('g pyplot, 'a) state"

definition generator_ok :: "'g generator \<Rightarrow> bool" where
  "generator_ok gen \<longleftrightarrow>
     (\<forall>g. 0 \<le> fst (random_sample gen g) \<and> fst (random_sample gen g) < 1) \<and>
     (\<forall>n g. 0 < n \<longrightarrow> fst (randint gen n g) < n)"

definition pyplot_init :: "'g \<Rightarrow> 'g pyplot" where
  "pyplot_init g = \<lparr>figures = [], open_figures = [], displayed = [], rng = g\<rparr>"

text \<open>
  \<open>plt.show()\<close> displays every open figure; with a non-interactive backend it
  returns once they are closed.
\<close>

definition plt_show :: "('g, unit) plt" where
  "plt_show = State (\<lambda>s. ((), s\<lparr>displayed := displayed s @ map (\<lambda>i. figures s ! i) (open_figures s),
                                open_figures := []\<rparr>))"

definition plt_subplots :: "('g, nat) plt" where
  "plt_subplots = State (\<lambda>s. let i = length (figures s) in
     (i, s\<lparr>figures := figures s @ [\<lparr>children = [], legend_labels = None\<rparr>],
           open_figures := open_figures s @ [i]\<rparr>))"

definition update_axes :: "nat \<Rightarrow> (axes \<Rightarrow> axes) \<Rightarrow> ('g, unit) plt" where
  "update_axes ax f = State (\<lambda>s. ((), s\<lparr>figures := (figures s)[ax := f (figures s ! ax)]\<rparr>))"

definition add_artist :: "nat \<Rightarrow> artist \<Rightarrow> ('g, unit) plt" where
  "add_artist ax a = update_axes ax (\<lambda>axs. axs\<lparr>children := children axs @ [a]\<rparr>)"

fun artist_label :: "artist \<Rightarrow> string option" where
  "artist_label (Line2D _ _ _) = None"
| "artist_label (PolyCollection _ _ _ _ _ _ l) = l"
| "artist_label (PathCollection _ _ _ _ l) = l"

text \<open>\<open>ax.legend()\<close> collects the labels of the artists that have one, in order.\<close>

definition ax_legend :: "nat \<Rightarrow> ('g, unit) plt" where
  "ax_legend ax = update_axes ax (\<lambda>axs. axs\<lparr>legend_labels :=
     Some (List.map_filter artist_label (children axs))\<rparr>)"

definition np_random_rand1 :: "'g generator \<Rightarrow> ('g, real) plt" where
  "np_random_rand1 gen = State (\<lambda>s. let (u, g') = random_sample gen (rng s) in (u, s\<lparr>rng := g'\<rparr>))"

primrec np_random_rand :: "'g generator \<Rightarrow> nat \<Rightarrow> ('g, real list) plt" where
  "np_random_rand gen 0 = State_Monad.return []"
| "np_random_rand gen (Suc n) = do {
     u \<leftarrow> np_random_rand1 gen;
     us \<leftarrow> np_random_rand gen n;
     State_Monad.return (u # us) }"

definition np_random_randint1 :: "'g generator \<Rightarrow> nat \<Rightarrow> ('g, nat) plt" where
  "np_random_randint1 gen n = State (\<lambda>s. let (i, g') = randint gen n (rng s) in (i, s\<lparr>rng := g'\<rparr>))"

primrec np_random_choice :: "'g generator \<Rightarrow> 'a list \<Rightarrow> nat \<Rightarrow> ('g, 'a list) plt" where
  "np_random_choice gen xs 0 = State_Monad.return []"
| "np_random_choice gen xs (Suc n) = do {
     i \<leftarrow> np_random_randint1 gen (length xs);
     ys \<leftarrow> np_random_choice gen xs n;
     State_Monad.return (xs ! i # ys) }"

subsection \<open>The script\<close>

text \<open>
  The loop over the separators (lines 151 to 157): each separator is shaded
  grey where the grid point lies in \<open>[separator_xmin, separator_xmax)\<close>; the
  first gets the label \<open>'separators'\<close>, and \<open>label = None\<close> afterwards keeps the
  legend from repeating it.
\<close>

fun draw_separators ::
  "nat \<Rightarrow> real list \<Rightarrow> real list \<Rightarrow> real list \<Rightarrow> string option \<Rightarrow> interval list \<Rightarrow> ('g, unit) plt"
where
  "draw_separators ax x ylower yupper label [] = State_Monad.return ()"
| "draw_separators ax x ylower yupper label ((separator_xmin, separator_xmax) # seps) = do {
     add_artist ax (PolyCollection x ylower yupper
       (Some (map (\<lambda>xi. separator_xmin \<le> xi \<and> xi < separator_xmax) x)) ''grey'' None label);
     draw_separators ax x ylower yupper None seps }"

text \<open>
  Lines 139 to 149: 80 flowers, \<open>x\<close> uniform in \<open>[xmin, xmax)\<close>, \<open>y\<close> uniform
  between the curves (one \<open>np.random.rand()\<close> per flower, in order), then the
  scatter call, whose keyword arguments draw the colours before the sizes.
\<close>

definition draw_flowers ::
  "'g generator \<Rightarrow> nat \<Rightarrow> real \<Rightarrow> real \<Rightarrow> curve \<Rightarrow> curve \<Rightarrow> ('g, unit) plt"
where
  "draw_flowers gen ax xmin xmax flower fupper = do {
     let n_flowers = 80;
     us \<leftarrow> np_random_rand gen n_flowers;
     let flowers_x = map (\<lambda>u. xmin + (xmax - xmin) * u) us;
     flowers_y \<leftarrow> traverse_list (\<lambda>x. do {
         u \<leftarrow> np_random_rand1 gen;
         State_Monad.return (flower x + (fupper x - flower x) * u) }) flowers_x;
     let flowers = zip flowers_x flowers_y;
     c \<leftarrow> np_random_choice gen [''r'', ''b'', ''y'', ''c'', ''m'', ''y''] n_flowers;
     sz \<leftarrow> np_random_rand gen n_flowers;
     add_artist ax (PathCollection flowers c (map (\<lambda>v. v * 30) sz) ''*'' (Some ''flowers'')) }"

text \<open>
  Lines 125 to 159, from the separator locations the solve step returned.
  \<open>plt.show()\<close> comes before \<open>plt.subplots()\<close>, as in the source.
\<close>

definition adams_patch_plot ::
  "'g generator \<Rightarrow> real \<Rightarrow> real \<Rightarrow> curve \<Rightarrow> curve \<Rightarrow> interval list \<Rightarrow> ('g, nat) plt"
where
  "adams_patch_plot gen xmin xmax flower fupper seps = do {
     let x = np_linspace xmin xmax 100;
     let ylower = map flower x;
     let yupper = map fupper x;
     plt_show;
     ax \<leftarrow> plt_subplots;
     add_artist ax (Line2D x ylower ''grey'');
     add_artist ax (Line2D x yupper ''grey'');
     add_artist ax (PolyCollection x ylower yupper None ''green'' (Some 0.5) (Some ''patches''));
     draw_flowers gen ax xmin xmax flower fupper;
     draw_separators ax x ylower yupper (Some ''separators'') seps;
     ax_legend ax;
     State_Monad.return ax }"

text \<open>
  The whole \<open>__main__\<close> block: the solve step of \<open>Pipeline\<close>; an exception
  there ends the script before anything is drawn.
\<close>

definition adams_patch_script :: "numlib \<Rightarrow> 'g generator \<Rightarrow> ('g, nat result) plt" where
  "adams_patch_script lib gen =
     (case adams_patch_main lib of
        Inl e \<Rightarrow> State_Monad.return (Inl e)
      | Inr (area_patch, seps) \<Rightarrow> do {
          ax \<leftarrow> adams_patch_plot gen 0 3 (\<lambda>x. 0 * x) (\<lambda>x. x\<^sup>2 + 1) seps;
          State_Monad.return (Inr ax) })"

text \<open>
  \<open>fancy_plot\<close>: \<open>ax.plot([1, 2])\<close> draws the values against their indices in
  the first colour of the default cycle.
\<close>

definition fancy_plot :: "('g, nat) plt" where
  "fancy_plot = do {
     ax \<leftarrow> plt_subplots;
     add_artist ax (Line2D [0, 1] [1, 2] ''C0'');
     State_Monad.return ax }"

text \<open>
  Observations of an axes: the points of its scatter plots and the \<open>where\<close>
  masks of its filled regions.
\<close>

definition scatter_points :: "artist list \<Rightarrow> (real \<times> real) list" where
  "scatter_points as = concat (map (\<lambda>a. case a of PathCollection pts _ _ _ _ \<Rightarrow> pts | _ \<Rightarrow> []) as)"

definition fill_masks :: "artist list \<Rightarrow> bool list list" where
  "fill_masks as = List.map_filter (\<lambda>a. case a of PolyCollection _ _ _ m _ _ _ \<Rightarrow> m | _ \<Rightarrow> None) as"

text \<open>The artists the separator loop adds, as a list.\<close>

fun separator_fills ::
  "real list \<Rightarrow> real list \<Rightarrow> real list \<Rightarrow> string option \<Rightarrow> interval list \<Rightarrow> artist list"
where
  "separator_fills x ylower yupper label [] = []"
| "separator_fills x ylower yupper label ((a, b) # seps) =
     PolyCollection x ylower yupper (Some (map (\<lambda>xi. a \<le> xi \<and> xi < b) x)) ''grey'' None label
       # separator_fills x ylower yupper None seps"

definition in_bed :: "real \<Rightarrow> real \<Rightarrow> curve \<Rightarrow> curve \<Rightarrow> real \<times> real \<Rightarrow> bool" where
  "in_bed xmin xmax flower fupper p \<longleftrightarrow>
     xmin \<le> fst p \<and> fst p \<le> xmax \<and> flower (fst p) \<le> snd p \<and> snd p \<le> fupper (fst p)"

text \<open>A generator for the examples: every draw is \<open>0.5\<close>, every index \<open>0\<close>.\<close>

definition half_gen :: "unit generator" where
  "half_gen = \<lparr>random_sample = (\<lambda>g. (1 / 2, g)), randint = (\<lambda>n g. (0, g))\<rparr>"

subsection \<open>Lemmas\<close>

lemma run_state_plt_show [simp]:
  "run_state plt_show s =
     ((), s\<lparr>displayed := displayed s @ map (\<lambda>i. figures s ! i) (open_figures s), open_figures := []\<rparr>)"
  by (simp add: plt_show_def)

lemma run_state_plt_subplots [simp]:
  "run_state plt_subplots s =
     (length (figures s), s\<lparr>figures := figures s @ [\<lparr>children = [], legend_labels = None\<rparr>],
                           open_figures := open_figures s @ [length (figures s)]\<rparr>)"
  by (simp add: plt_subplots_def Let_def)

lemma run_state_update_axes [simp]:
  "run_state (update_axes ax f) s = ((), s\<lparr>figures := (figures s)[ax := f (figures s ! ax)]\<rparr>)"
  by (simp add: update_axes_def)

lemma run_state_np_random_rand1 [simp]:
  "run_state (np_random_rand1 gen) s =
     (fst (random_sample gen (rng s)), s\<lparr>rng := snd (random_sample gen (rng s))\<rparr>)"
  by (simp add: np_random_rand1_def split_beta)

lemma run_state_np_random_randint1 [simp]:
  "run_state (np_random_randint1 gen n) s =
     (fst (randint gen n (rng s)), s\<lparr>rng := snd (randint gen n (rng s))\<rparr>)"
  by (simp add: np_random_randint1_def split_beta)

lemma generator_okD:
  assumes "generator_ok gen"
  shows "0 \<le> fst (random_sample gen g)" "fst (random_sample gen g) < 1"
  using assms by (simp_all add: generator_ok_def)

text \<open>Drawing random numbers changes only the generator state.\<close>

lemma np_random_rand_frame:
  "run_state (np_random_rand gen n) s = (us, s') \<Longrightarrow>
     s' = s\<lparr>rng := rng s'\<rparr> \<and> length us = n \<and>
     (generator_ok gen \<longrightarrow> list_all (\<lambda>u. 0 \<le> u \<and> u < 1) us)"
proof (induction n arbitrary: s us s')
  case 0
  then show ?case by simp
next
  case (Suc n)
  obtain us' s1 where r: "run_state (np_random_rand gen n)
      (s\<lparr>rng := snd (random_sample gen (rng s))\<rparr>) = (us', s1)"
    by fastforce
  from Suc.prems r have us: "us = fst (random_sample gen (rng s)) # us'" and s': "s' = s1"
    by simp_all
  from Suc.IH [OF r] show ?case
    unfolding us s' by (auto dest: generator_okD)
qed

lemma np_random_choice_frame:
  "run_state (np_random_choice gen xs n) s = (ys, s') \<Longrightarrow> s' = s\<lparr>rng := rng s'\<rparr> \<and> length ys = n"
proof (induction n arbitrary: s ys s')
  case 0
  then show ?case by simp
next
  case (Suc n)
  obtain ys' s1 where r: "run_state (np_random_choice gen xs n)
      (s\<lparr>rng := snd (randint gen (length xs) (rng s))\<rparr>) = (ys', s1)"
    by fastforce
  from Suc.prems r Suc.IH [OF r] show ?case by auto
qed

lemma between_curves:
  fixes lo hi u :: real
  assumes "lo \<le> hi" "0 \<le> u" "u < 1"
  shows "lo \<le> lo + (hi - lo) * u" "lo + (hi - lo) * u \<le> hi"
proof -
  have "0 \<le> (hi - lo) * u" using assms by (intro mult_nonneg_nonneg) simp_all
  then show "lo \<le> lo + (hi - lo) * u" by simp
  have "(hi - lo) * u \<le> hi - lo" using assms by (simp add: mult_left_le)
  then show "lo + (hi - lo) * u \<le> hi" by simp
qed

text \<open>The list comprehension of line 141: one draw per flower, each between the curves.\<close>

lemma flowers_y_frame:
  "run_state (traverse_list (\<lambda>x. do {
       u \<leftarrow> np_random_rand1 gen;
       State_Monad.return (flower x + (fupper x - flower x) * u) }) xs) s = (ys, s') \<Longrightarrow>
   s' = s\<lparr>rng := rng s'\<rparr> \<and> length ys = length xs \<and>
   (generator_ok gen \<longrightarrow> (\<forall>x. flower x \<le> fupper x) \<longrightarrow>
      list_all2 (\<lambda>x y. flower x \<le> y \<and> y \<le> fupper x) xs ys)"
proof (induction xs arbitrary: s ys s')
  case Nil
  then show ?case by simp
next
  case (Cons x xs)
  obtain ys' s1 where r: "run_state (traverse_list (\<lambda>x. do {
       u \<leftarrow> np_random_rand1 gen;
       State_Monad.return (flower x + (fupper x - flower x) * u) }) xs)
      (s\<lparr>rng := snd (random_sample gen (rng s))\<rparr>) = (ys', s1)"
    by fastforce
  from Cons.prems r have ys: "ys = (flower x + (fupper x - flower x) * fst (random_sample gen (rng s))) # ys'"
    and s': "s' = s1"
    by simp_all
  have "flower x \<le> y \<and> y \<le> fupper x"
    if "generator_ok gen" "\<forall>x. flower x \<le> fupper x" and y: "y = hd ys" for y
    using between_curves [OF spec [OF that(2), of x] generator_okD [OF that(1)]] y ys by simp
  with Cons.IH [OF r] show ?case
    unfolding ys s' by auto
qed

lemma list_all_scaled:
  fixes xmin xmax :: real
  shows "xmin \<le> xmax \<Longrightarrow> list_all (\<lambda>u. 0 \<le> u \<and> u < 1) us \<Longrightarrow>
     list_all (\<lambda>x. xmin \<le> x \<and> x \<le> xmax) (map (\<lambda>u. xmin + (xmax - xmin) * u) us)"
proof (induction us)
  case Nil
  then show ?case by simp
next
  case (Cons a us)
  then have "0 \<le> a" "a < 1" by simp_all
  from between_curves [OF Cons.prems(1) this] Cons show ?case by simp
qed

lemma in_bed_zip:
  "list_all (\<lambda>x. xmin \<le> x \<and> x \<le> xmax) xs \<Longrightarrow>
   list_all2 (\<lambda>x y. flower x \<le> y \<and> y \<le> fupper x) xs ys \<Longrightarrow>
   list_all (in_bed xmin xmax flower fupper) (zip xs ys)"
proof (induction xs arbitrary: ys)
  case Nil
  then show ?case by simp
next
  case (Cons x xs)
  then show ?case by (cases ys) (auto simp: in_bed_def)
qed

lemma rng_frame_trans:
  "s1 = s\<lparr>rng := rng s1\<rparr> \<Longrightarrow> s2 = s1\<lparr>rng := rng s2\<rparr> \<Longrightarrow> s2 = s\<lparr>rng := rng s2\<rparr>"
  by (cases s, cases s1, cases s2) simp

abbreviation add_child :: "nat \<Rightarrow> artist list \<Rightarrow> axes list \<Rightarrow> axes list" where
  "add_child ax as fs \<equiv> fs[ax := (fs ! ax)\<lparr>children := children (fs ! ax) @ as\<rparr>]"

text \<open>
  The flowers: 80 points, all in the bed when the generator meets its contract
  and the lower curve lies below the upper one.
\<close>

lemma draw_flowers_run:
  assumes "run_state (draw_flowers gen ax xmin xmax flower fupper) s = ((), s')"
  shows "\<exists>pts cs ss. s' = s\<lparr>figures := add_child ax [PathCollection pts cs ss ''*'' (Some ''flowers'')]
                                         (figures s), rng := rng s'\<rparr> \<and>
           length pts = 80 \<and>
           (generator_ok gen \<longrightarrow> xmin \<le> xmax \<longrightarrow> (\<forall>x. flower x \<le> fupper x) \<longrightarrow>
              list_all (in_bed xmin xmax flower fupper) pts)"
proof -
  obtain us s1 where r1: "run_state (np_random_rand gen 80) s = (us, s1)" by fastforce
  define fx where "fx = map (\<lambda>u. xmin + (xmax - xmin) * u) us"
  obtain fy s2 where r2: "run_state (traverse_list (\<lambda>x. do {
       u \<leftarrow> np_random_rand1 gen;
       State_Monad.return (flower x + (fupper x - flower x) * u) }) fx) s1 = (fy, s2)"
    by fastforce
  obtain c s3 where r3: "run_state (np_random_choice gen [''r'', ''b'', ''y'', ''c'', ''m'', ''y''] 80) s2
      = (c, s3)" by fastforce
  obtain sz s4 where r4: "run_state (np_random_rand gen 80) s3 = (sz, s4)" by fastforce
  note f1 = np_random_rand_frame [OF r1] and f2 = flowers_y_frame [OF r2]
   and f3 = np_random_choice_frame [OF r3] and f4 = np_random_rand_frame [OF r4]
  have s': "s' = s4\<lparr>figures := add_child ax [PathCollection (zip fx fy) c (map (\<lambda>v. v * 30) sz)
                                         ''*'' (Some ''flowers'')] (figures s4)\<rparr>"
    using assms r1 r2 r3 r4 by (simp add: draw_flowers_def fx_def add_artist_def Let_def)
  have e: "s4 = s\<lparr>rng := rng s4\<rparr>"
    using rng_frame_trans [OF rng_frame_trans [OF rng_frame_trans [OF conjunct1 [OF f1]
          conjunct1 [OF f2]] conjunct1 [OF f3]] conjunct1 [OF f4]] .
  have len: "length (zip fx fy) = 80" using f1 f2 by (simp add: fx_def)
  have bed: "list_all (in_bed xmin xmax flower fupper) (zip fx fy)"
    if "generator_ok gen" "xmin \<le> xmax" "\<forall>x. flower x \<le> fupper x"
    using in_bed_zip [OF list_all_scaled [OF that(2)] ] f1 f2 that by (simp add: fx_def)
  have "s' = s\<lparr>figures := add_child ax [PathCollection (zip fx fy) c (map (\<lambda>v. v * 30) sz)
                                         ''*'' (Some ''flowers'')] (figures s), rng := rng s'\<rparr>"
  proof -
    have fs: "figures s4 = figures s" by (subst e) simp
    have upd: "s4\<lparr>figures := X\<rparr> = s\<lparr>figures := X, rng := rng s4\<rparr>" for X
      using e by (cases s, cases s4) simp
    show ?thesis unfolding s' fs upd by simp
  qed
  with len bed show ?thesis by blast
qed

lemma draw_separators_run:
  "run_state (draw_separators ax x ylower yupper label seps) s =
     ((), s\<lparr>figures := add_child ax (separator_fills x ylower yupper label seps) (figures s)\<rparr>)"
proof (induction ax x ylower yupper label seps arbitrary: s rule: draw_separators.induct)
  case (1 ax x ylower yupper label)
  then show ?case by (cases "ax < length (figures s)") simp_all
next
  case (2 ax x ylower yupper label a b seps)
  then show ?case by (cases "ax < length (figures s)") (simp_all add: add_artist_def list_update_beyond)
qed

text \<open>
  The figure the script draws: two grey lines, the green patch area, the
  flowers and the separator fills, with the legend of their labels. The
  figure is a new one, open, and was created after the \<open>plt.show()\<close> call.
\<close>

definition plot_children ::
  "real list \<Rightarrow> real list \<Rightarrow> real list \<Rightarrow> artist \<Rightarrow> interval list \<Rightarrow> artist list"
where
  "plot_children x ylower yupper flowers seps =
     [Line2D x ylower ''grey'', Line2D x yupper ''grey'',
      PolyCollection x ylower yupper None ''green'' (Some 0.5) (Some ''patches''), flowers]
     @ separator_fills x ylower yupper (Some ''separators'') seps"

lemma adams_patch_plot_run:
  fixes gen :: "'g generator" and xmin xmax :: real
  defines "x \<equiv> np_linspace xmin xmax 100"
  shows "\<exists>pts cs ss g'.
     run_state (adams_patch_plot gen xmin xmax flower fupper seps) s =
       (length (figures s),
        \<lparr>figures = figures s @
           [\<lparr>children = plot_children x (map flower x) (map fupper x)
                          (PathCollection pts cs ss ''*'' (Some ''flowers'')) seps,
             legend_labels = Some (List.map_filter artist_label (plot_children x (map flower x)
                          (map fupper x) (PathCollection pts cs ss ''*'' (Some ''flowers'')) seps))\<rparr>],
         open_figures = [length (figures s)],
         displayed = displayed s @ map (\<lambda>i. figures s ! i) (open_figures s), rng = g'\<rparr>) \<and>
     length pts = 80 \<and>
     (generator_ok gen \<longrightarrow> xmin \<le> xmax \<longrightarrow> (\<forall>x. flower x \<le> fupper x) \<longrightarrow>
        list_all (in_bed xmin xmax flower fupper) pts)"
proof -
  define ax where "ax = length (figures s)"
  define s2 where "s2 = s\<lparr>displayed := displayed s @ map (\<lambda>i. figures s ! i) (open_figures s),
     open_figures := [ax],
     figures := figures s @ [\<lparr>children = [Line2D x (map flower x) ''grey'', Line2D x (map fupper x) ''grey'',
       PolyCollection x (map flower x) (map fupper x) None ''green'' (Some 0.5) (Some ''patches'')],
       legend_labels = None\<rparr>]\<rparr>"
  have pre: "run_state (adams_patch_plot gen xmin xmax flower fupper seps) s =
     run_state (do {
       draw_flowers gen ax xmin xmax flower fupper;
       draw_separators ax x (map flower x) (map fupper x) (Some ''separators'') seps;
       ax_legend ax;
       State_Monad.return ax }) s2"
    by (simp add: adams_patch_plot_def add_artist_def Let_def s2_def ax_def x_def)
  obtain s3 where r3: "run_state (draw_flowers gen ax xmin xmax flower fupper) s2 = ((), s3)"
    by (cases "run_state (draw_flowers gen ax xmin xmax flower fupper) s2") auto
  from draw_flowers_run [OF r3] obtain pts cs ss where
    s3: "s3 = s2\<lparr>figures := add_child ax [PathCollection pts cs ss ''*'' (Some ''flowers'')] (figures s2),
                  rng := rng s3\<rparr>"
    and len: "length pts = 80"
    and bed: "generator_ok gen \<longrightarrow> xmin \<le> xmax \<longrightarrow> (\<forall>x. flower x \<le> fupper x) \<longrightarrow>
                list_all (in_bed xmin xmax flower fupper) pts"
    by blast
  obtain g3 where s3': "s3 = s2\<lparr>figures := add_child ax [PathCollection pts cs ss ''*'' (Some ''flowers'')]
                  (figures s2), rng := g3\<rparr>"
    using s3 by blast
  have "run_state (adams_patch_plot gen xmin xmax flower fupper seps) s =
       (length (figures s),
        \<lparr>figures = figures s @
           [\<lparr>children = plot_children x (map flower x) (map fupper x)
                          (PathCollection pts cs ss ''*'' (Some ''flowers'')) seps,
             legend_labels = Some (List.map_filter artist_label (plot_children x (map flower x)
                          (map fupper x) (PathCollection pts cs ss ''*'' (Some ''flowers'')) seps))\<rparr>],
         open_figures = [length (figures s)],
         displayed = displayed s @ map (\<lambda>i. figures s ! i) (open_figures s), rng = g3\<rparr>)"
    unfolding pre run_state_bind r3 prod.case s3'
    by (simp add: draw_separators_run ax_legend_def s2_def ax_def plot_children_def)
  with len bed show ?thesis by blast
qed

lemma separator_fills_labels:
  "List.map_filter artist_label (separator_fills x ylower yupper None seps) = []"
  "List.map_filter artist_label (separator_fills x ylower yupper (Some l) seps) =
     (if seps = [] then [] else [l])"
proof -
  show none: "List.map_filter artist_label (separator_fills x ylower yupper None seps) = []" for seps
    by (induction x ylower yupper "None :: string option" seps rule: separator_fills.induct)
       (simp_all add: map_filter_simps)
  show "List.map_filter artist_label (separator_fills x ylower yupper (Some l) seps) =
     (if seps = [] then [] else [l])"
    by (cases seps) (auto simp: map_filter_simps none)
qed

lemma separator_fills_scatter [simp]:
  "scatter_points (separator_fills x ylower yupper label seps) = []"
  by (induction x ylower yupper label seps rule: separator_fills.induct) (simp_all add: scatter_points_def)

lemma separator_fills_masks:
  "fill_masks (separator_fills x ylower yupper label seps) =
     map (\<lambda>(a, b). map (\<lambda>xi. a \<le> xi \<and> xi < b) x) seps"
  by (induction x ylower yupper label seps rule: separator_fills.induct)
     (simp_all add: fill_masks_def map_filter_simps)

lemma plot_children_observations:
  "scatter_points (plot_children x ylower yupper (PathCollection pts cs ss m l) seps) = pts"
  "fill_masks (plot_children x ylower yupper (PathCollection pts cs ss m l) seps) =
     map (\<lambda>(a, b). map (\<lambda>xi. a \<le> xi \<and> xi < b) x) seps"
  "List.map_filter artist_label (plot_children x ylower yupper (PathCollection pts cs ss m (Some lab)) seps) =
     [''patches'', lab] @ (if seps = [] then [] else [''separators''])"
  by (simp_all add: plot_children_def scatter_points_def fill_masks_def map_filter_simps
      separator_fills_labels separator_fills_masks [unfolded fill_masks_def]
      separator_fills_scatter [unfolded scatter_points_def])

text \<open>In a sorted layout a point lies in at most one separator \<open>[s, e)\<close>.\<close>

lemma sorted_separators_cover_once:
  "sorted (a # placement_points seps) \<Longrightarrow> length (filter (\<lambda>(s, e). s \<le> t \<and> t < e) seps) \<le> 1"
proof (induction seps arbitrary: a)
  case Nil
  then show ?case by simp
next
  case (Cons se seps)
  obtain s e where se: "se = (s, e)" by fastforce
  from Cons.prems have srt: "sorted (e # placement_points seps)" and le: "s \<le> e"
    by (simp_all add: se)
  have none: "filter (\<lambda>(s, e). s \<le> t \<and> t < e) seps = []" if "t < e"
    unfolding filter_empty_conv
  proof (clarify)
    fix s' e' assume in_seps: "(s', e') \<in> set seps" and "s' \<le> t" "t < e'"
    have "e \<le> s'" using srt in_seps by (auto simp: placement_points_def)
    with \<open>s' \<le> t\<close> \<open>t < e\<close> show False by simp
  qed
  show ?case
    using Cons.IH [OF srt] none by (auto simp: se)
qed

lemma masks_cover_once:
  assumes "sorted (a # placement_points seps)" "k < length xs"
  shows "length (filter (\<lambda>m. m ! k) (map (\<lambda>(s, e). map (\<lambda>xi. s \<le> xi \<and> xi < e) xs) seps)) \<le> 1"
proof -
  have "filter (\<lambda>m. m ! k) (map (\<lambda>(s, e). map (\<lambda>xi. s \<le> xi \<and> xi < e) xs) seps) =
        map (\<lambda>(s, e). map (\<lambda>xi. s \<le> xi \<and> xi < e) xs) (filter (\<lambda>(s, e). s \<le> xs ! k \<and> xs ! k < e) seps)"
    using assms(2) by (induction seps) auto
  then show ?thesis using sorted_separators_cover_once [OF assms(1), of "xs ! k"] by simp
qed

subsection \<open>Properties\<close>

text \<open>
  C17. The flowers stay in the bed: when the generator meets its contract, the
  interval is not reversed and the lower curve lies below the upper one, the
  scatter the script draws has 80 points, each with \<open>x\<close> in \<open>[xmin, xmax]\<close>
  and \<open>y\<close> between the two curves at \<open>x\<close>.
\<close>

theorem adams_patch_plot_flowers_in_bed:
  assumes "generator_ok gen" "xmin \<le> xmax" "\<forall>x. flower x \<le> fupper x"
  shows "case run_state (adams_patch_plot gen xmin xmax flower fupper seps) s of (ax, s') \<Rightarrow>
           length (scatter_points (children (figures s' ! ax))) = 80 \<and>
           list_all (in_bed xmin xmax flower fupper) (scatter_points (children (figures s' ! ax)))"
  using adams_patch_plot_run [of gen xmin xmax flower fupper seps s] assms
  by (auto simp: plot_children_observations)

theorem adams_patch_plot_flowers_in_bed_witness:
  "generator_ok half_gen \<and> (0::real) \<le> 3 \<and> (\<forall>x::real. 0 * x \<le> x\<^sup>2 + 1) \<and>
   (case run_state (adams_patch_plot half_gen 0 3 (\<lambda>x. 0 * x) (\<lambda>x. x\<^sup>2 + 1) [(1, 2)]) (pyplot_init ())
      of (ax, s') \<Rightarrow>
      length (scatter_points (children (figures s' ! ax))) = 80 \<and>
      list_all (in_bed 0 3 (\<lambda>x. 0 * x) (\<lambda>x. x\<^sup>2 + 1)) (scatter_points (children (figures s' ! ax))))"
proof -
  have g: "generator_ok half_gen" by (simp add: generator_ok_def half_gen_def)
  have c: "\<forall>x::real. 0 * x \<le> x\<^sup>2 + 1" by (simp add: add_nonneg_pos)
  show ?thesis
    using adams_patch_plot_flowers_in_bed [OF g _ c, of 0 3 "[(1, 2)]" "pyplot_init ()"] g c by simp
qed

text \<open>
  C23. The legend of the figure lists the patches, the flowers and, when there
  is a separator, the separators once: the loop labels only the first
  separator, since it resets \<open>label\<close> to \<open>None\<close> after it.
\<close>

theorem adams_patch_plot_legend:
  "case run_state (adams_patch_plot gen xmin xmax flower fupper seps) s of (ax, s') \<Rightarrow>
     legend_labels (figures s' ! ax) = Some ([''patches'', ''flowers''] @ (if seps = [] then [] else [''separators'']))"
  using adams_patch_plot_run [of gen xmin xmax flower fupper seps s]
  by (auto simp: plot_children_observations)

text \<open>
  C24. The script never displays its figure: \<open>plt.show()\<close> runs before
  \<open>plt.subplots()\<close>, when no figure is open, and is not called again. Started
  from a fresh interpreter, the script ends with nothing displayed; when the
  solve step returned, the one figure it drew is still open, and when the solve
  step raised, there is no figure at all.
\<close>

theorem adams_patch_script_never_shown:
  "case run_state (adams_patch_script lib gen) (pyplot_init g) of (r, s') \<Rightarrow>
     displayed s' = [] \<and>
     (case r of
        Inl e \<Rightarrow> adams_patch_main lib = Inl e \<and> figures s' = []
      | Inr ax \<Rightarrow> (\<exists>covered seps. adams_patch_main lib = Inr (covered, seps)) \<and>
                  ax = 0 \<and> length (figures s') = 1 \<and> open_figures s' = [0])"
proof (cases "adams_patch_main lib")
  case (Inl e)
  then show ?thesis by (simp add: adams_patch_script_def pyplot_init_def)
next
  case (Inr r)
  obtain covered seps where r: "r = (covered, seps)" by fastforce
  obtain ax s' where run: "run_state (adams_patch_plot gen 0 3 (\<lambda>x. 0 * x) (\<lambda>x. x\<^sup>2 + 1) seps)
      (pyplot_init g) = (ax, s')" by fastforce
  have "ax = 0 \<and> displayed s' = [] \<and> length (figures s') = 1 \<and> open_figures s' = [0]"
    using adams_patch_plot_run [of gen 0 3 "\<lambda>x. 0 * x" "\<lambda>x. x\<^sup>2 + 1" seps "pyplot_init g"]
    unfolding run by (auto simp: pyplot_init_def)
  moreover have "run_state (adams_patch_script lib gen) (pyplot_init g) = (Inr ax, s')"
    by (simp add: adams_patch_script_def Inr r run)
  ultimately show ?thesis using Inr r by simp
qed

text \<open>
  C26. The grey separator fills do not overlap: for a layout that
  \<open>compute_covered_area\<close> returned under the hypotheses of its ordering
  theorem (sound root finder, additive and positive \<open>quad\<close>, positive patch
  area, non-negative separator width), the plot draws one \<open>where\<close> mask per
  separator and shades each of the 100 grid points with at most one of them.
\<close>

theorem adams_patch_plot_separators_disjoint:
  assumes "brentq_sound lib" "quad_additive lib f" "quad_positive lib f"
    and "0 < area_patch" "0 \<le> w"
    and "compute_covered_area lib f area_patch npatches w xmin xmax = Inr (tot, seps)"
  shows "case run_state (adams_patch_plot gen xmin xmax flower fupper seps) s of (ax, s') \<Rightarrow>
           length (fill_masks (children (figures s' ! ax))) = length seps \<and>
           list_all (\<lambda>k. length (filter (\<lambda>m. m ! k) (fill_masks (children (figures s' ! ax)))) \<le> 1)
             [0..<100]"
proof -
  have srt: "sorted (xmin # placement_points seps)" by (rule compute_covered_area_sorted [OF assms])
  have once: "length (filter (\<lambda>m. m ! k)
        (map (\<lambda>(a, b). map (\<lambda>xi. a \<le> xi \<and> xi < b) (np_linspace xmin xmax 100)) seps)) \<le> 1"
    if "k < 100" for k
    using masks_cover_once [OF srt, of k "np_linspace xmin xmax 100"] that by simp
  show ?thesis
    using adams_patch_plot_run [of gen xmin xmax flower fupper seps s] once
    by (auto simp: plot_children_observations list_all_iff)
qed

theorem adams_patch_plot_separators_disjoint_witness:
  "brentq_sound ref_lib \<and> quad_additive ref_lib (\<lambda>_. 1) \<and> quad_positive ref_lib (\<lambda>_. 1) \<and>
   (0::real) < 1 \<and> (0::real) \<le> 1 \<and>
   compute_covered_area ref_lib (\<lambda>_. 1) 1 3 1 0 10 = Inr (5, [(1, 2), (3, 4)]) \<and>
   (case run_state (adams_patch_plot half_gen 0 10 (\<lambda>_. 0) (\<lambda>_. 1) [(1, 2), (3, 4)]) (pyplot_init ())
      of (ax, s') \<Rightarrow>
      length (fill_masks (children (figures s' ! ax))) = 2 \<and>
      list_all (\<lambda>k. length (filter (\<lambda>m. m ! k) (fill_masks (children (figures s' ! ax)))) \<le> 1)
        [0..<100])"
proof -
  have lib: "brentq_sound ref_lib" "quad_additive ref_lib (\<lambda>_. 1)" "quad_positive ref_lib (\<lambda>_. 1)"
    by (simp_all add: ref_lib_const_contracts)
  show ?thesis
    using adams_patch_plot_separators_disjoint [OF lib _ _ ref_lib_three_patches,
        of half_gen "\<lambda>_. 0" "\<lambda>_. 1" "pyplot_init ()"] lib ref_lib_three_patches
    by (simp add: numeral_2_eq_2)
qed

end
