(* ===== verification/PyFloat.thy ===== *)
theory PyFloat
  imports Prelude
begin

text \<open>
  Python floats with their special values, for the property-based tests of
  \<open>src/hypothesis/\<close>, which draw lists of arbitrary floats. A float is a finite
  binary64 value, \<open>inf\<close>, \<open>-inf\<close> or \<open>nan\<close>. Arithmetic rounds as IEEE 754
  prescribes for binary64: \<open>round64\<close> rounds a real to the nearest value with a
  53-bit significand and an exponent of at least \<open>-1074\<close> (ties to even), and
  gives \<open>inf\<close> or \<open>-inf\<close> from the overflow threshold \<open>2^1024 - 2^970\<close> on.
  Addition, subtraction and division by a positive int round the exact
  result; the comparisons \<open><\<close> and \<open><=\<close> are exact (every comparison with
  \<open>nan\<close> is false, \<open>inf + -inf\<close> is \<open>nan\<close>); a float literal is the rounded
  decimal. The sign of zero is not modelled. The builtins \<open>sum\<close>, \<open>min\<close> and
  \<open>max\<close> are the folds CPython performs: \<open>sum\<close> adds from the int \<open>0\<close> left to
  right (the plain float addition of CPython before 3.12, which later sums
  floats with compensation), \<open>min\<close> keeps its first item and replaces it by
  each later item that is \<open><\<close> it, \<open>max\<close> by each later item that is \<open>>\<close> it,
  and both raise \<open>ValueError\<close> on an empty sequence. The lemmas bound the
  rounding error (\<open>round64_finite\<close>, \<open>foldl_fadd_err\<close>), give the largest
  finite value (\<open>round64_max\<close>) and characterise the folds on special values.
\<close>

datatype pyfloat = Fin real | Inf | NInf | NaN

definition round_even :: "real \<Rightarrow> int" where
  "round_even y =
     (let f = \<lfloor>y\<rfloor>; d = y - of_int f
      in if d < 1 / 2 then f else if 1 / 2 < d then f + 1 else if even f then f else f + 1)"

definition flog2 :: "real \<Rightarrow> int" where
  "flog2 x = \<lfloor>log 2 x\<rfloor>"

definition ulp_exp :: "real \<Rightarrow> int" where
  "ulp_exp x = max (flog2 \<bar>x\<bar> - 52) (- 1074)"

definition float_threshold :: real where
  "float_threshold = 2 ^ 1024 - 2 ^ 970"

definition round64 :: "real \<Rightarrow> pyfloat" where
  "round64 x =
     (if x = 0 then Fin 0
      else if float_threshold \<le> \<bar>x\<bar> then (if 0 < x then Inf else NInf)
      else Fin (of_int (round_even (x / power_int 2 (ulp_exp x))) * power_int 2 (ulp_exp x)))"

text \<open>Half the smallest subnormal: the absolute rounding error below the normal range.\<close>

definition float_tiny :: real where
  "float_tiny = 1 / 2 ^ 1075"

text \<open>A float literal: the decimal rounded to the nearest double.\<close>

definition float_lit :: "real \<Rightarrow> pyfloat" where
  "float_lit r = round64 r"

text \<open>The finite values of the type: the reals that rounding leaves unchanged.\<close>

definition is_double :: "real \<Rightarrow> bool" where
  "is_double r \<longleftrightarrow> round64 r = Fin r"

fun fadd :: "pyfloat \<Rightarrow> pyfloat \<Rightarrow> pyfloat" where
  "fadd NaN _ = NaN"
| "fadd _ NaN = NaN"
| "fadd Inf NInf = NaN"
| "fadd NInf Inf = NaN"
| "fadd Inf _ = Inf"
| "fadd _ Inf = Inf"
| "fadd NInf _ = NInf"
| "fadd _ NInf = NInf"
| "fadd (Fin x) (Fin y) = round64 (x + y)"

fun fneg :: "pyfloat \<Rightarrow> pyfloat" where
  "fneg (Fin x) = Fin (- x)"
| "fneg Inf = NInf"
| "fneg NInf = Inf"
| "fneg NaN = NaN"

definition fsub :: "pyfloat \<Rightarrow> pyfloat \<Rightarrow> pyfloat" where
  "fsub a b = fadd a (fneg b)"

text \<open>\<open>v / n\<close> for a positive int \<open>n\<close>.\<close>

fun fdiv_pos :: "pyfloat \<Rightarrow> nat \<Rightarrow> pyfloat" where
  "fdiv_pos (Fin x) n = round64 (x / real n)"
| "fdiv_pos v n = v"

fun flt :: "pyfloat \<Rightarrow> pyfloat \<Rightarrow> bool" where
  "flt NaN _ = False"
| "flt _ NaN = False"
| "flt _ NInf = False"
| "flt Inf _ = False"
| "flt NInf _ = True"
| "flt _ Inf = True"
| "flt (Fin x) (Fin y) = (x < y)"

fun fle :: "pyfloat \<Rightarrow> pyfloat \<Rightarrow> bool" where
  "fle NaN _ = False"
| "fle _ NaN = False"
| "fle NInf _ = True"
| "fle _ Inf = True"
| "fle Inf _ = False"
| "fle _ NInf = False"
| "fle (Fin x) (Fin y) = (x \<le> y)"

definition py_sum :: "pyfloat list \<Rightarrow> pyfloat" where
  "py_sum xs = foldl fadd (Fin 0) xs"

definition min_step :: "pyfloat \<Rightarrow> pyfloat \<Rightarrow> pyfloat" where
  "min_step cur v = (if flt v cur then v else cur)"

definition max_step :: "pyfloat \<Rightarrow> pyfloat \<Rightarrow> pyfloat" where
  "max_step cur v = (if flt cur v then v else cur)"

fun py_min :: "pyfloat list \<Rightarrow> pyfloat result" where
  "py_min [] = Inl (ValueError ''min() arg is an empty sequence'')"
| "py_min (x # xs) = Inr (foldl min_step x xs)"

fun py_max :: "pyfloat list \<Rightarrow> pyfloat result" where
  "py_max [] = Inl (ValueError ''max() arg is an empty sequence'')"
| "py_max (x # xs) = Inr (foldl max_step x xs)"

text \<open>The element strategy \<open>floats(allow_nan=..., allow_infinity=...)\<close> of hypothesis.\<close>

fun floats_elem :: "bool \<Rightarrow> bool \<Rightarrow> pyfloat \<Rightarrow> bool" where
  "floats_elem allow_nan _ NaN = allow_nan"
| "floats_elem _ allow_inf Inf = allow_inf"
| "floats_elem _ allow_inf NInf = allow_inf"
| "floats_elem _ _ (Fin r) = is_double r"

subsection \<open>Lemmas\<close>

lemma round_even_err: "\<bar>y - of_int (round_even y)\<bar> \<le> 1 / 2"
proof -
  have a: "of_int \<lfloor>y\<rfloor> \<le> y" "y < of_int \<lfloor>y\<rfloor> + 1" by linarith+
  consider "y - of_int \<lfloor>y\<rfloor> < 1 / 2" | "1 / 2 < y - of_int \<lfloor>y\<rfloor>" | "y - of_int \<lfloor>y\<rfloor> = 1 / 2"
    by linarith
  then show ?thesis
  proof cases
    case 1
    then show ?thesis using a unfolding round_even_def Let_def by simp
  next
    case 2
    then show ?thesis using a unfolding round_even_def Let_def by simp
  next
    case 3
    then show ?thesis unfolding round_even_def Let_def by simp
  qed
qed

lemma round_even_eqI:
  assumes "of_int k - 1 / 2 < y" "y < of_int k + 1 / 2"
  shows "round_even y = k"
proof (cases "y < of_int k")
  case True
  then have f: "\<lfloor>y\<rfloor> = k - 1" using assms by (simp add: floor_eq_iff)
  show ?thesis using assms unfolding round_even_def Let_def f by simp
next
  case False
  then have f: "\<lfloor>y\<rfloor> = k" using assms by (simp add: floor_eq_iff)
  show ?thesis using assms False unfolding round_even_def Let_def f by simp
qed

lemma round_even_tie:
  assumes "y = of_int k + 1 / 2"
  shows "round_even y = (if even k then k else k + 1)"
proof -
  have f: "\<lfloor>y\<rfloor> = k" using assms by (simp add: floor_eq_iff)
  show ?thesis using assms unfolding round_even_def Let_def f by simp
qed

lemma round_even_int [simp]: "round_even (of_int k) = k"
  by (rule round_even_eqI) simp_all

lemma flog2_eq_iff:
  assumes "0 < x"
  shows "flog2 x = q \<longleftrightarrow> power_int 2 q \<le> x \<and> x < power_int 2 (q + 1)"
proof -
  have "2 powr (real_of_int q + 1) = power_int (2::real) (q + 1)"
    using powr_real_of_int' [of 2 "q + 1"] by simp
  then show ?thesis
    using floor_log_eq_powr_iff [OF assms, of 2 q] by (simp add: flog2_def powr_real_of_int')
qed

lemma flog2_bounds:
  assumes "0 < x"
  shows "power_int 2 (flog2 x) \<le> x" "x < power_int 2 (flog2 x + 1)"
  using flog2_eq_iff [OF assms, of "flog2 x"] by simp_all

lemma power_int_2_pos [simp]: "0 < power_int (2::real) e"
  by (simp add: power_int_def)

lemma ulp_exp_bound: "x \<noteq> 0 \<Longrightarrow> power_int 2 (ulp_exp x) \<le> \<bar>x\<bar> / 2 ^ 52 \<or> ulp_exp x = - 1074"
proof -
  assume "x \<noteq> 0"
  then have b: "power_int 2 (flog2 \<bar>x\<bar>) \<le> \<bar>x\<bar>" using flog2_bounds by simp
  have "power_int (2::real) (flog2 \<bar>x\<bar> - 52) = power_int 2 (flog2 \<bar>x\<bar>) / 2 ^ 52"
    by (simp add: power_int_diff)
  with b show ?thesis unfolding ulp_exp_def by (auto simp: max_def divide_right_mono)
qed

lemma float_tiny_bounds: "0 < float_tiny" "float_tiny \<le> 1 / 2 ^ 100"
proof -
  show "0 < float_tiny" by (simp add: float_tiny_def)
  show "float_tiny \<le> 1 / 2 ^ 100"
    unfolding float_tiny_def by (rule divide_left_mono) (simp_all add: power_increasing)
qed

lemma round64_finite:
  assumes "\<bar>x\<bar> < float_threshold"
  shows "\<exists>r. round64 x = Fin r \<and> \<bar>r - x\<bar> \<le> \<bar>x\<bar> / 2 ^ 53 + float_tiny"
proof (cases "x = 0")
  case True
  then show ?thesis using float_tiny_bounds by (simp add: round64_def)
next
  case False
  define p where "p = power_int (2::real) (ulp_exp x)"
  have p0: "0 < p" by (simp add: p_def)
  define k where "k = round_even (x / p)"
  have r: "round64 x = Fin (of_int k * p)"
    using False assms by (simp add: round64_def k_def p_def)
  have "\<bar>x / p - of_int k\<bar> \<le> 1 / 2" unfolding k_def by (rule round_even_err)
  then have "\<bar>x - of_int k * p\<bar> \<le> p / 2"
    using p0 by (simp add: field_simps abs_le_iff)
  moreover have "p / 2 \<le> \<bar>x\<bar> / 2 ^ 53 + float_tiny"
    using ulp_exp_bound [OF False] unfolding p_def
  proof
    assume "power_int 2 (ulp_exp x) \<le> \<bar>x\<bar> / 2 ^ 52"
    then show "power_int 2 (ulp_exp x) / 2 \<le> \<bar>x\<bar> / 2 ^ 53 + float_tiny"
      using float_tiny_bounds(1) by simp
  next
    assume "ulp_exp x = - 1074"
    then show "power_int 2 (ulp_exp x) / 2 \<le> \<bar>x\<bar> / 2 ^ 53 + float_tiny"
      by (simp add: power_int_minus float_tiny_def)
  qed
  ultimately show ?thesis using r by (auto simp: abs_minus_commute)
qed

lemma round64_overflow: "float_threshold \<le> \<bar>x\<bar> \<Longrightarrow> round64 x = (if 0 < x then Inf else NInf)"
  by (auto simp: round64_def float_threshold_def)

lemma round64_eqI:
  assumes "0 < x" "power_int 2 q \<le> x" "x < power_int 2 (q + 1)" "- 1022 \<le> q" "x < float_threshold"
    "round_even (x * power_int 2 (52 - q)) = m"
  shows "round64 x = Fin (of_int m * power_int 2 (q - 52))"
proof -
  have q: "flog2 x = q" using flog2_eq_iff [OF assms(1)] assms(2,3) by simp
  have u: "ulp_exp x = q - 52" using assms(1,4) q by (simp add: ulp_exp_def)
  have d: "x / power_int 2 (q - 52) = x * power_int 2 (52 - q)"
    by (simp add: power_int_diff divide_simps)
  show ?thesis using assms(1,5) assms(6) by (simp add: round64_def u d)
qed


lemma fle_refl_not_nan [simp]: "fle v v \<longleftrightarrow> v \<noteq> NaN"
  by (cases v) simp_all

lemma fle_NInf [simp]: "v \<noteq> NaN \<Longrightarrow> fle NInf v"
  by (cases v) simp_all

lemma fle_Inf [simp]: "v \<noteq> NaN \<Longrightarrow> fle v Inf"
  by (cases v) simp_all

lemma fle_NaN_right [simp]: "\<not> fle v NaN"
  by (cases v) simp_all

text \<open>A choice fold returns its start value or an element of the list.\<close>

lemma foldl_choice_mem:
  assumes "\<And>c v. f c v = c \<or> f c v = v"
  shows "foldl f acc xs \<in> insert acc (set xs)"
proof (induction xs arbitrary: acc)
  case (Cons x xs)
  from Cons.IH [of "f acc x"] assms [of acc x] show ?case by auto
qed simp

lemma py_min_mem: "py_min xs = Inr m \<Longrightarrow> m \<in> set xs"
proof (cases xs)
  case (Cons x ys)
  have "foldl min_step x ys \<in> insert x (set ys)"
    by (rule foldl_choice_mem) (simp add: min_step_def)
  with Cons show "py_min xs = Inr m \<Longrightarrow> m \<in> set xs" by auto
qed simp

lemma py_max_mem: "py_max xs = Inr m \<Longrightarrow> m \<in> set xs"
proof (cases xs)
  case (Cons x ys)
  have "foldl max_step x ys \<in> insert x (set ys)"
    by (rule foldl_choice_mem) (simp add: max_step_def)
  with Cons show "py_max xs = Inr m \<Longrightarrow> m \<in> set xs" by auto
qed simp

lemma py_min_Inr: "xs \<noteq> [] \<Longrightarrow> \<exists>m. py_min xs = Inr m"
  by (cases xs) simp_all

lemma py_max_Inr: "xs \<noteq> [] \<Longrightarrow> \<exists>m. py_max xs = Inr m"
  by (cases xs) simp_all

text \<open>Once \<open>-inf\<close> (\<open>inf\<close>) is the current value of \<open>min\<close> (\<open>max\<close>) it stays.\<close>

lemma foldl_min_NInf:
  "NaN \<notin> insert acc (set xs) \<Longrightarrow> NInf \<in> insert acc (set xs) \<Longrightarrow> foldl min_step acc xs = NInf"
proof (induction xs arbitrary: acc)
  case (Cons x xs)
  show ?case
  proof (cases "NInf \<in> set xs")
    case True
    have "min_step acc x \<noteq> NaN" using Cons.prems by (auto simp: min_step_def)
    with Cons True show ?thesis by simp
  next
    case False
    with Cons.prems have "min_step acc x = NInf"
      by (cases acc; cases x) (auto simp: min_step_def)
    moreover have "foldl min_step NInf xs = NInf"
      using Cons by simp
    ultimately show ?thesis by simp
  qed
qed simp

lemma foldl_max_Inf:
  "NaN \<notin> insert acc (set xs) \<Longrightarrow> Inf \<in> insert acc (set xs) \<Longrightarrow> foldl max_step acc xs = Inf"
proof (induction xs arbitrary: acc)
  case (Cons x xs)
  show ?case
  proof (cases "Inf \<in> set xs")
    case True
    have "max_step acc x \<noteq> NaN" using Cons.prems by (auto simp: max_step_def)
    with Cons True show ?thesis by simp
  next
    case False
    with Cons.prems have "max_step acc x = Inf"
      by (cases acc; cases x) (auto simp: max_step_def)
    moreover have "foldl max_step Inf xs = Inf"
      using Cons by simp
    ultimately show ?thesis by simp
  qed
qed simp

text \<open>On finite floats the folds are the real sum, minimum and maximum.\<close>

lemma foldl_min_Fin: "foldl min_step (Fin a) (map Fin rs) = Fin (Min (set (a # rs)))"
proof -
  have "foldl min_step (Fin a) (map Fin rs) = Fin (fold min rs a)"
    by (induction rs arbitrary: a) (auto simp: min_step_def min_def)
  then show ?thesis by (simp only: Min.set_eq_fold)
qed

lemma foldl_max_Fin: "foldl max_step (Fin a) (map Fin rs) = Fin (Max (set (a # rs)))"
proof -
  have "foldl max_step (Fin a) (map Fin rs) = Fin (fold max rs a)"
    by (induction rs arbitrary: a) (auto simp: max_step_def max_def)
  then show ?thesis by (simp only: Max.set_eq_fold)
qed

text \<open>\<open>nan\<close> absorbs a sum; \<open>inf\<close> and \<open>-inf\<close> together give \<open>nan\<close>; one of them alone wins.\<close>

lemma foldl_fadd_NaN: "NaN \<in> insert acc (set xs) \<Longrightarrow> foldl fadd acc xs = NaN"
proof (induction xs arbitrary: acc)
  case (Cons x xs)
  have "NaN \<in> insert (fadd acc x) (set xs)"
    using Cons.prems by (cases acc; cases x) auto
  then show ?case using Cons.IH by simp
qed simp

lemma foldl_fadd_Inf_NInf:
  "Inf \<in> insert acc (set xs) \<Longrightarrow> NInf \<in> insert acc (set xs) \<Longrightarrow> foldl fadd acc xs = NaN"
proof (induction xs arbitrary: acc)
  case (Cons x xs)
  have "NaN \<in> insert (fadd acc x) (set xs) \<or>
        (Inf \<in> insert (fadd acc x) (set xs) \<and> NInf \<in> insert (fadd acc x) (set xs))"
    using Cons.prems by (cases acc; cases x) auto
  then show ?case using Cons.IH foldl_fadd_NaN by auto
qed simp

text \<open>A list of floats without special values is a list of reals.\<close>

lemma all_finite_map_Fin:
  "NaN \<notin> set xs \<Longrightarrow> Inf \<notin> set xs \<Longrightarrow> NInf \<notin> set xs \<Longrightarrow> \<exists>rs. xs = map Fin rs"
proof (induction xs)
  case (Cons x xs)
  then obtain rs where "xs = map Fin rs" by auto
  moreover from Cons.prems obtain r where "x = Fin r" by (cases x) auto
  ultimately have "x # xs = map Fin (r # rs)" by simp
  then show ?case by (rule exI)
qed simp

lemma floats_elem_no_nan: "list_all (floats_elem False b) xs \<Longrightarrow> NaN \<notin> set xs"
  by (auto simp: list_all_iff)

lemma floats_elem_finite:
  "list_all (floats_elem False False) xs \<Longrightarrow> \<exists>rs. xs = map Fin rs \<and> list_all is_double rs"
proof (induction xs)
  case (Cons x xs)
  then obtain rs where "xs = map Fin rs" "list_all is_double rs" by auto
  moreover from Cons.prems obtain r where "x = Fin r" "is_double r" by (cases x) auto
  ultimately have "x # xs = map Fin (r # rs) \<and> list_all is_double (r # rs)" by simp
  then show ?case by (rule exI)
qed simp

text \<open>
  Rounding error of a sum: each addition of a partial sum bounded by \<open>B\<close>
  adds at most \<open>B / 2^53 + 2^-1075\<close>, so \<open>n\<close> additions of terms bounded by
  \<open>M\<close> stay within \<open>n\<close> times that of the exact sum.
\<close>

lemma foldl_fadd_err:
  fixes M B d :: real
  assumes "\<forall>r\<in>set rs. \<bar>r\<bar> \<le> M" "\<bar>a - A\<bar> \<le> e" "B < float_threshold"
    "B / 2 ^ 53 + float_tiny \<le> d" "0 \<le> d" "\<bar>A\<bar> + e + real (length rs) * (M + d) \<le> B"
  shows "\<exists>s. foldl fadd (Fin a) (map Fin rs) = Fin s \<and> \<bar>s - (A + sum_list rs)\<bar> \<le> e + real (length rs) * d"
  using assms
proof (induction rs arbitrary: a A e)
  case Nil
  then show ?case by simp
next
  case (Cons r rs)
  have r: "\<bar>r\<bar> \<le> M" and rs: "\<forall>r\<in>set rs. \<bar>r\<bar> \<le> M" using Cons.prems(1) by simp_all
  have Md: "0 \<le> M + d" using r Cons.prems(5) by linarith
  have len: "\<bar>A\<bar> + e + (M + d) + real (length rs) * (M + d) \<le> B"
    using Cons.prems(6) by (simp add: algebra_simps)
  have "0 \<le> real (length rs) * (M + d)" using Md by simp
  then have ar: "\<bar>a + r\<bar> \<le> B" using Cons.prems(2,5) r len by linarith
  obtain a' where a': "round64 (a + r) = Fin a'" "\<bar>a' - (a + r)\<bar> \<le> \<bar>a + r\<bar> / 2 ^ 53 + float_tiny"
    using round64_finite [of "a + r"] ar Cons.prems(3) by auto
  have "\<bar>a + r\<bar> / 2 ^ 53 \<le> B / 2 ^ 53" using ar by (simp add: divide_right_mono)
  then have err: "\<bar>a' - (A + r)\<bar> \<le> e + d" using a'(2) Cons.prems(2,4) by linarith
  have bound: "\<bar>A + r\<bar> + (e + d) + real (length rs) * (M + d) \<le> B"
    using len r by linarith
  obtain s where s: "foldl fadd (Fin a') (map Fin rs) = Fin s"
      "\<bar>s - (A + r + sum_list rs)\<bar> \<le> e + d + real (length rs) * d"
    using Cons.IH [OF rs err Cons.prems(3,4,5) bound] by auto
  show ?case
    using s a'(1) by (simp add: algebra_simps)
qed

text \<open>The largest finite double is \<open>(2^53 - 1) 2^971 = 2^1024 - 2^971\<close>.\<close>

lemma round64_max:
  assumes "round64 x = Fin r"
  shows "\<bar>r\<bar> \<le> 2 ^ 1024 - 2 ^ 971"
proof (cases "x = 0")
  case True
  then show ?thesis using assms by (simp add: round64_def)
next
  case False
  have thr: "\<bar>x\<bar> < float_threshold"
    using assms False by (auto simp: round64_def split: if_splits)
  define e where "e = ulp_exp x"
  define k where "k = round_even (x / power_int 2 e)"
  have r: "r = of_int k * power_int 2 e"
    using assms False thr by (simp add: round64_def k_def e_def)
  have p0: "0 < power_int (2::real) e" by simp
  have kerr: "\<bar>x / power_int 2 e - of_int k\<bar> \<le> 1 / 2" unfolding k_def by (rule round_even_err)
  have ax: "0 < \<bar>x\<bar>" using False by simp
  have fl: "power_int 2 (flog2 \<bar>x\<bar>) \<le> \<bar>x\<bar>" "\<bar>x\<bar> < power_int 2 (flog2 \<bar>x\<bar> + 1)"
    using flog2_bounds [OF ax] by simp_all
  have "power_int (2::real) (flog2 \<bar>x\<bar>) < power_int 2 1024"
    using fl(1) thr by (simp add: float_threshold_def)
  then have q: "flog2 \<bar>x\<bar> < 1024" using power_int_le_imp_less_exp [of "2::real" "flog2 \<bar>x\<bar>" 1024] by simp
  have e_ge: "flog2 \<bar>x\<bar> + 1 \<le> e + 53" unfolding e_def ulp_exp_def by simp
  have e_le: "e \<le> 971" using q unfolding e_def ulp_exp_def by simp
  have "\<bar>x\<bar> < power_int 2 (e + 53)"
    using fl(2) power_int_increasing [OF e_ge, of "2::real"] by simp
  also have "power_int (2::real) (e + 53) = power_int 2 e * 2 ^ 53" by (simp add: power_int_add)
  finally have xb: "\<bar>x\<bar> / power_int 2 e < 2 ^ 53" using p0 by (simp add: divide_simps mult.commute)
  have "\<bar>x / power_int 2 e\<bar> = \<bar>x\<bar> / power_int 2 e" using p0 by (simp add: abs_divide)
  then have "\<bar>of_int k\<bar> < (2::real) ^ 53 + 1" using kerr xb by linarith
  then have "of_int \<bar>k\<bar> < (of_int (2 ^ 53 + 1) :: real)" by simp
  then have k53: "\<bar>k\<bar> \<le> 2 ^ 53" by (simp only: of_int_less_iff)
  show ?thesis
  proof (cases "e = 971")
    case True
    have "\<bar>x\<bar> / power_int 2 e < 2 ^ 53 - 1 / 2"
      using thr True by (simp add: float_threshold_def divide_simps)
    then have "\<bar>of_int k\<bar> < (2::real) ^ 53" using kerr \<open>\<bar>x / power_int 2 e\<bar> = \<bar>x\<bar> / power_int 2 e\<close> by linarith
    then have "of_int \<bar>k\<bar> < (of_int (2 ^ 53) :: real)" by simp
    then have "\<bar>k\<bar> \<le> 2 ^ 53 - 1" by (simp only: of_int_less_iff)
    then have "of_int \<bar>k\<bar> \<le> (of_int (2 ^ 53 - 1) :: real)" by (simp only: of_int_le_iff)
    then have "\<bar>of_int k\<bar> \<le> (2::real) ^ 53 - 1" by simp
    then show ?thesis using True r by (simp add: abs_mult)
  next
    case False
    then have "power_int (2::real) e \<le> power_int 2 970"
      using e_le by (intro power_int_increasing) simp_all
    moreover have "\<bar>of_int k\<bar> \<le> (2::real) ^ 53"
    proof -
      have "of_int \<bar>k\<bar> \<le> (of_int (2 ^ 53) :: real)" using k53 by (simp only: of_int_le_iff)
      then show ?thesis by simp
    qed
    ultimately have "\<bar>of_int k\<bar> * power_int 2 e \<le> (2::real) ^ 53 * 2 ^ 970"
      by (intro mult_mono) simp_all
    then show ?thesis using r by (simp add: abs_mult)
  qed
qed

lemma is_double_max: "is_double r \<Longrightarrow> \<bar>r\<bar> \<le> 2 ^ 1024 - 2 ^ 971"
  unfolding is_double_def by (rule round64_max)

lemma py_min_NInf: "NaN \<notin> set x \<Longrightarrow> NInf \<in> set x \<Longrightarrow> py_min x = Inr NInf"
  by (cases x) (simp_all add: foldl_min_NInf)

lemma py_max_Inf: "NaN \<notin> set x \<Longrightarrow> Inf \<in> set x \<Longrightarrow> py_max x = Inr Inf"
  by (cases x) (simp_all add: foldl_max_Inf)

end
