(* ===== verification/MeanTests.thy ===== *)
theory MeanTests
  imports PyFloat
begin

text \<open>
  The hypothesis tutorial \<open>src/hypothesis/intro_mean_0.py\<close> to
  \<open>intro_mean_4.py\<close>: one function \<open>mean(x) = sum(x) / len(x)\<close> and a sequence
  of property tests \<open>min(x) <= mean(x) <= max(x)\<close>, each version fixing the
  failure the previous one meets: the empty list (\<open>assume(x)\<close>), \<open>nan\<close>
  (\<open>allow_nan=False\<close>), infinities (\<open>allow_infinity=False\<close>) and rounding (a
  tolerance of \<open>1e-8\<close>). A test body is a function from the drawn list to its
  outcome: passed, failed (the assertion is false), rejected (\<open>assume\<close> is
  false) or errored (an exception escapes). The strategies are predicates on
  the lists they can draw. Floats round as binary64 (\<open>PyFloat\<close>). The
  theorems show which lists make each version fail: \<open>nan\<close> and the two
  infinities always do; \<open>[0.1, 0.1, 0.1]\<close> breaks the exact comparison by
  rounding; the tolerance of \<open>intro_mean_4.py\<close> covers rounding on lists of
  moderate size and magnitude, but not a sum that overflows.
\<close>

definition mean :: "pyfloat list \<Rightarrow> pyfloat result" where
  "mean x = (let s = py_sum x; n = length x
             in if n = 0 then Inl (ZeroDivisionError ''division by zero'')
                else Inr (fdiv_pos s n))"

text \<open>
  The chained comparison \<open>a <= b <= c\<close>: \<open>a\<close> and \<open>b\<close> are evaluated, and \<open>c\<close>
  only when \<open>a <= b\<close> holds.
\<close>

definition chain_le :: "pyfloat result \<Rightarrow> pyfloat result \<Rightarrow> pyfloat result \<Rightarrow> bool result" where
  "chain_le a b c =
     rbind a (\<lambda>va. rbind b (\<lambda>vb. if fle va vb then rbind c (\<lambda>vc. Inr (fle vb vc)) else Inr False))"

definition given_mean_0 :: "pyfloat list \<Rightarrow> bool" where
  "given_mean_0 x = list_all (floats_elem True True) x"

definition test_mean_0 :: "pyfloat list \<Rightarrow> test_outcome" where
  "test_mean_0 x = assert_outcome (chain_le (py_min x) (mean x) (py_max x))"

text \<open>
  Each of \<open>intro_mean_1.py\<close> to \<open>intro_mean_4.py\<close> defines its own copy of
  \<open>mean\<close>, and its test calls that copy.
\<close>

definition mean_1 :: "pyfloat list \<Rightarrow> pyfloat result" where
  "mean_1 x = (let s = py_sum x; n = length x
             in if n = 0 then Inl (ZeroDivisionError ''division by zero'')
                else Inr (fdiv_pos s n))"

definition test_mean_1 :: "pyfloat list \<Rightarrow> test_outcome" where
  "test_mean_1 x =
     (if x = [] then Rejected
      else assert_outcome (chain_le (py_min x) (mean_1 x) (py_max x)))"

definition given_mean_2 :: "pyfloat list \<Rightarrow> bool" where
  "given_mean_2 x = list_all (floats_elem False True) x"

definition mean_2 :: "pyfloat list \<Rightarrow> pyfloat result" where
  "mean_2 x = (let s = py_sum x; n = length x
             in if n = 0 then Inl (ZeroDivisionError ''division by zero'')
                else Inr (fdiv_pos s n))"

definition test_mean_2 :: "pyfloat list \<Rightarrow> test_outcome" where
  "test_mean_2 x =
     (if x = [] then Rejected
      else assert_outcome (chain_le (py_min x) (mean_2 x) (py_max x)))"

definition given_mean_3 :: "pyfloat list \<Rightarrow> bool" where
  "given_mean_3 x = list_all (floats_elem False False) x"

definition mean_3 :: "pyfloat list \<Rightarrow> pyfloat result" where
  "mean_3 x = (let s = py_sum x; n = length x
             in if n = 0 then Inl (ZeroDivisionError ''division by zero'')
                else Inr (fdiv_pos s n))"

definition test_mean_3 :: "pyfloat list \<Rightarrow> test_outcome" where
  "test_mean_3 x =
     (if x = [] then Rejected
      else assert_outcome (chain_le (py_min x) (mean_3 x) (py_max x)))"

text \<open>The literal \<open>1e-8\<close>.\<close>

definition mean_tol :: pyfloat where
  "mean_tol = float_lit (1 / 10 ^ 8)"

definition mean_4 :: "pyfloat list \<Rightarrow> pyfloat result" where
  "mean_4 x = (let s = py_sum x; n = length x
             in if n = 0 then Inl (ZeroDivisionError ''division by zero'')
                else Inr (fdiv_pos s n))"

definition test_mean_4 :: "pyfloat list \<Rightarrow> test_outcome" where
  "test_mean_4 x =
     (if x = [] then Rejected
      else assert_outcome
        (chain_le (rbind (py_min x) (\<lambda>lo. Inr (fsub lo mean_tol)))
                  (mean_4 x)
                  (rbind (py_max x) (\<lambda>hi. Inr (fadd hi mean_tol)))))"

definition example_mean_4 :: "pyfloat list" where
  "example_mean_4 = [float_lit (1 / 10), float_lit (1 / 10), float_lit (1 / 10)]"

text \<open>The lists on which the assertion fails whatever the rounding.\<close>

definition both_infinities :: "pyfloat list \<Rightarrow> bool" where
  "both_infinities x \<longleftrightarrow> Inf \<in> set x \<and> NInf \<in> set x"

definition mean_fails :: "pyfloat list \<Rightarrow> bool" where
  "mean_fails x \<longleftrightarrow> NaN \<in> set x \<or> both_infinities x"

subsection \<open>Lemmas\<close>

lemma mean_copies [simp]: "mean_1 = mean" "mean_2 = mean" "mean_3 = mean" "mean_4 = mean"
  by (simp_all add: fun_eq_iff mean_def mean_1_def mean_2_def mean_3_def mean_4_def)

lemma mean_ne: "x \<noteq> [] \<Longrightarrow> mean x = Inr (fdiv_pos (py_sum x) (length x))"
  by (simp add: mean_def)

lemma mean_between_real:
  fixes rs :: "real list"
  assumes "rs \<noteq> []"
  shows "Min (set rs) \<le> sum_list rs / length rs \<and> sum_list rs / length rs \<le> Max (set rs)"
proof -
  have n: "0 < real (length rs)" using assms by simp
  have "sum_list (map (\<lambda>_. Min (set rs)) rs) \<le> sum_list (map (\<lambda>r. r) rs)"
    by (rule sum_list_mono) simp
  moreover have "sum_list (map (\<lambda>r. r) rs) \<le> sum_list (map (\<lambda>_. Max (set rs)) rs)"
    by (rule sum_list_mono) simp
  ultimately have "length rs * Min (set rs) \<le> sum_list rs"
    "sum_list rs \<le> length rs * Max (set rs)"
    by (simp_all add: sum_list_triv)
  with n show ?thesis by (simp add: field_simps)
qed

lemma py_min_Fin: "rs \<noteq> [] \<Longrightarrow> py_min (map Fin rs) = Inr (Fin (Min (set rs)))"
  by (cases rs) (simp_all add: foldl_min_Fin)

lemma py_max_Fin: "rs \<noteq> [] \<Longrightarrow> py_max (map Fin rs) = Inr (Fin (Max (set rs)))"
  by (cases rs) (simp_all add: foldl_max_Fin)

text \<open>With \<open>nan\<close> in the list the mean is \<open>nan\<close> and the first comparison is false.\<close>

lemma chain_nan:
  assumes "NaN \<in> set x"
  shows "chain_le (py_min x) (mean x) (py_max x) = Inr False"
proof -
  have ne: "x \<noteq> []" using assms by auto
  then obtain lo where lo: "py_min x = Inr lo" using py_min_Inr by blast
  have "py_sum x = NaN" unfolding py_sum_def by (rule foldl_fadd_NaN) (simp add: assms)
  then have "mean x = Inr NaN" by (simp add: mean_ne ne)
  then show ?thesis by (simp add: chain_le_def lo)
qed

lemma mean_fails_Nil [simp]: "\<not> mean_fails []" "\<not> both_infinities []"
  by (simp_all add: mean_fails_def both_infinities_def)

lemma py_sum_mean_fails: "mean_fails x \<Longrightarrow> py_sum x = NaN"
  unfolding mean_fails_def both_infinities_def py_sum_def
  using foldl_fadd_NaN foldl_fadd_Inf_NInf by auto

text \<open>With \<open>nan\<close> or both infinities the sum is \<open>nan\<close> and every comparison with the mean is false.\<close>

lemma chain_mean_fails:
  assumes "mean_fails x" "\<exists>lo. a = Inr lo"
  shows "chain_le a (mean x) c = Inr False"
proof -
  have ne: "x \<noteq> []" using assms(1) by (cases x) simp_all
  have "mean x = Inr NaN" using py_sum_mean_fails [OF assms(1)] by (simp add: mean_ne ne)
  then show ?thesis using assms(2) by (auto simp: chain_le_def rbind_def)
qed

lemma given_mean_3_Fin: "given_mean_3 x \<Longrightarrow> \<exists>rs. x = map Fin rs \<and> list_all is_double rs"
  unfolding given_mean_3_def by (rule floats_elem_finite)

text \<open>\<open>1e-8\<close> as a double lies within a millionth of its decimal value.\<close>

lemma mean_tol_Fin: "\<exists>t. mean_tol = Fin t \<and> 99 / 10 ^ 10 \<le> t \<and> t \<le> 101 / 10 ^ 10"
proof -
  obtain t where t: "round64 (1 / 10 ^ 8) = Fin t" "\<bar>t - 1 / 10 ^ 8\<bar> \<le> \<bar>1 / 10 ^ 8\<bar> / 2 ^ 53 + float_tiny"
    using round64_finite [of "1 / 10 ^ 8"] by (auto simp: float_threshold_def)
  have "\<bar>1 / 10 ^ 8 :: real\<bar> / 2 ^ 53 \<le> 1 / 10 ^ 10" by simp
  then have "99 / 10 ^ 10 \<le> t \<and> t \<le> 101 / 10 ^ 10"
    using t(2) float_tiny_bounds unfolding abs_le_iff by simp
  with t(1) show ?thesis by (simp add: mean_tol_def float_lit_def)
qed

text \<open>A rounded value near a bounded exact one: the shape every step below needs.\<close>

lemma round64_near:
  assumes "\<bar>x\<bar> \<le> 2 ^ 21"
  shows "\<exists>r. round64 x = Fin r \<and> \<bar>r - x\<bar> \<le> 1 / 2 ^ 32 + float_tiny"
proof -
  have "\<bar>x\<bar> < float_threshold" using assms by (simp add: float_threshold_def)
  then obtain r where r: "round64 x = Fin r" "\<bar>r - x\<bar> \<le> \<bar>x\<bar> / 2 ^ 53 + float_tiny"
    using round64_finite by blast
  have "\<bar>x\<bar> / 2 ^ 53 \<le> 2 ^ 21 / 2 ^ 53" using assms by (simp add: divide_right_mono)
  then show ?thesis using r by auto
qed

text \<open>
  The rounding error of \<open>mean\<close> on at most \<open>2^20\<close> values bounded by \<open>M\<close> with
  \<open>n M \<le> 2^20\<close>: the float mean is within \<open>2^-30\<close> of the exact mean.
\<close>

lemma mean_err:
  fixes M :: real
  assumes ne: "rs \<noteq> []" and M: "\<forall>r\<in>set rs. \<bar>r\<bar> \<le> M"
    and n: "length rs \<le> 2 ^ 20" and nM: "real (length rs) * M \<le> 2 ^ 20"
  shows "\<exists>m. mean (map Fin rs) = Inr (Fin m) \<and> \<bar>m - sum_list rs / length rs\<bar> \<le> 1 / 2 ^ 30"
proof -
  define d :: real where "d = 1 / 2 ^ 32 + float_tiny"
  have tiny: "0 < float_tiny" "float_tiny \<le> 1 / 2 ^ 100" by (rule float_tiny_bounds)+
  have d0: "0 \<le> d" using tiny by (simp add: d_def)
  have n1: "1 \<le> real (length rs)" using ne by (cases rs) simp_all
  have "real (length rs) \<le> real ((2::nat) ^ 20)" using n by (simp only: of_nat_le_iff)
  then have n20: "real (length rs) \<le> 2 ^ 20" by simp
  have M0: "0 \<le> M" using M ne by (cases rs) (auto intro: order_trans [OF abs_ge_zero])
  have nd: "real (length rs) * d \<le> 2 ^ 20 * d" using n20 d0 by (rule mult_right_mono)
  have "2 ^ 20 * d \<le> 1" using tiny by (simp add: d_def)
  then have sum_ok: "\<bar>0\<bar> + 0 + real (length rs) * (M + d) \<le> 2 ^ 21" using nM nd by (simp add: algebra_simps)
  have thr: "(2::real) ^ 21 < float_threshold" by (simp add: float_threshold_def)
  have step: "2 ^ 21 / 2 ^ 53 + float_tiny \<le> d" by (simp add: d_def)
  obtain s where s: "foldl fadd (Fin 0) (map Fin rs) = Fin s"
      "\<bar>s - (0 + sum_list rs)\<bar> \<le> 0 + real (length rs) * d"
    using foldl_fadd_err [OF M _ thr step d0 sum_ok, of 0] by auto
  have s1: "py_sum (map Fin rs) = Fin s" using s(1) by (simp add: py_sum_def)
  have s2: "\<bar>s - sum_list rs\<bar> \<le> real (length rs) * d" using s(2) by simp
  have "\<bar>sum_list rs\<bar> \<le> sum_list (map abs rs)" by (rule sum_list_abs)
  also have "\<dots> \<le> sum_list (map (\<lambda>_. M) rs)" using M by (intro sum_list_mono) simp
  also have "\<dots> = real (length rs) * M" by (simp add: sum_list_triv)
  finally have S: "\<bar>sum_list rs\<bar> \<le> real (length rs) * M" .
  have npos: "0 < real (length rs)" using ne by simp
  have "\<bar>s / length rs - sum_list rs / length rs\<bar> = \<bar>s - sum_list rs\<bar> / length rs"
    using npos by (simp add: diff_divide_distrib [symmetric] abs_divide)
  also have "\<dots> \<le> d" using s2 by (simp add: pos_divide_le_eq [OF npos] mult.commute)
  finally have q: "\<bar>s / length rs - sum_list rs / length rs\<bar> \<le> d" .
  have "\<bar>sum_list rs / length rs\<bar> = \<bar>sum_list rs\<bar> / length rs" by (simp add: abs_divide)
  also have "\<dots> \<le> M" using S by (simp add: pos_divide_le_eq [OF npos] mult.commute)
  finally have "\<bar>sum_list rs / length rs\<bar> \<le> M" .
  moreover have "M \<le> 2 ^ 20" using nM n1 M0 by (smt (verit) mult_le_cancel_right1)
  moreover have "d \<le> 1" using tiny by (simp add: d_def)
  moreover have "\<bar>s / length rs\<bar> \<le> \<bar>sum_list rs / length rs\<bar> + \<bar>s / length rs - sum_list rs / length rs\<bar>"
    using abs_triangle_ineq [of "sum_list rs / length rs" "s / length rs - sum_list rs / length rs"] by simp
  moreover have "(2::real) ^ 20 = 1048576" "(2::real) ^ 21 = 2097152" by simp_all
  ultimately have "\<bar>s / length rs\<bar> \<le> 2 ^ 21" using q by linarith
  then obtain m where m: "round64 (s / length rs) = Fin m" "\<bar>m - s / length rs\<bar> \<le> 1 / 2 ^ 32 + float_tiny"
    using round64_near by blast
  have "mean (map Fin rs) = Inr (Fin m)" using ne s1 m(1) by (simp add: mean_def)
  moreover have "\<bar>m - sum_list rs / length rs\<bar> \<le> 1 / 2 ^ 30"
  proof -
    have "\<bar>m - sum_list rs / length rs\<bar> \<le> \<bar>m - s / length rs\<bar> + \<bar>s / length rs - sum_list rs / length rs\<bar>"
      using abs_triangle_ineq [of "m - s / length rs" "s / length rs - sum_list rs / length rs"] by simp
    moreover have "(1::real) / 2 ^ 32 + float_tiny + (1 / 2 ^ 32 + float_tiny) \<le> 1 / 2 ^ 30"
      using tiny(2) by simp
    ultimately show ?thesis using m(2) q tiny unfolding d_def by linarith
  qed
  ultimately show ?thesis by blast
qed

lemma bound_M:
  fixes M :: real
  assumes "rs \<noteq> []" "\<forall>r\<in>set rs. \<bar>r\<bar> \<le> M" "real (length rs) * M \<le> 2 ^ 20"
  shows "0 \<le> M" "M \<le> 2 ^ 20"
proof -
  show M0: "0 \<le> M" using assms(1,2) by (cases rs) (auto intro: order_trans [OF abs_ge_zero])
  have "1 \<le> real (length rs)" using assms(1) by (cases rs) simp_all
  then have "M \<le> real (length rs) * M" using M0 by (simp add: mult_le_cancel_right1)
  then show "M \<le> 2 ^ 20" using assms(3) by linarith
qed

text \<open>
  The assertion of \<open>intro_mean_4.py\<close> holds under the same bounds: the
  rounding error of the mean, of \<open>min(x) - 1e-8\<close> and of \<open>max(x) + 1e-8\<close>
  together stay below the tolerance.
\<close>

lemma chain_tol_bounded:
  fixes M :: real
  assumes ne: "rs \<noteq> []" and M: "\<forall>r\<in>set rs. \<bar>r\<bar> \<le> M"
    and n: "length rs \<le> 2 ^ 20" and nM: "real (length rs) * M \<le> 2 ^ 20"
  shows "chain_le (rbind (py_min (map Fin rs)) (\<lambda>lo. Inr (fsub lo mean_tol))) (mean (map Fin rs))
           (rbind (py_max (map Fin rs)) (\<lambda>hi. Inr (fadd hi mean_tol))) = Inr True"
proof -
  obtain m where m: "mean (map Fin rs) = Inr (Fin m)" "\<bar>m - sum_list rs / length rs\<bar> \<le> 1 / 2 ^ 30"
    using mean_err [OF ne M n nM] by blast
  obtain t where t: "mean_tol = Fin t" "99 / 10 ^ 10 \<le> t" "t \<le> 101 / 10 ^ 10"
    using mean_tol_Fin by blast
  have tiny: "0 < float_tiny" "float_tiny \<le> 1 / 2 ^ 100" by (rule float_tiny_bounds)+
  have MB: "0 \<le> M" "M \<le> 2 ^ 20" using bound_M [OF ne M nM] by simp_all
  define mn where "mn = Min (set rs)"
  define mx where "mx = Max (set rs)"
  have mn: "\<bar>mn\<bar> \<le> M" using M ne unfolding mn_def by simp
  have mx: "\<bar>mx\<bar> \<le> M" using M ne unfolding mx_def by simp
  have between: "mn \<le> sum_list rs / length rs" "sum_list rs / length rs \<le> mx"
    using mean_between_real [OF ne] unfolding mn_def mx_def by simp_all
  have pw: "(2::real) ^ 20 = 1048576" "(2::real) ^ 21 = 2097152" by simp_all
  have "\<bar>mn + - t\<bar> \<le> 2 ^ 21" using mn MB t(2,3) pw unfolding abs_le_iff by simp
  then obtain l where l: "round64 (mn + - t) = Fin l" "\<bar>l - (mn + - t)\<bar> \<le> 1 / 2 ^ 32 + float_tiny"
    using round64_near by blast
  have "\<bar>mx + t\<bar> \<le> 2 ^ 21" using mx MB t(2,3) pw unfolding abs_le_iff by simp
  then obtain h where h: "round64 (mx + t) = Fin h" "\<bar>h - (mx + t)\<bar> \<le> 1 / 2 ^ 32 + float_tiny"
    using round64_near by blast
  have num: "1 / 2 ^ 30 + (1 / 2 ^ 32 + float_tiny) \<le> (99::real) / 10 ^ 10" using tiny(2) by simp
  have "l \<le> m" using l(2) m(2) between(1) t(2) num unfolding abs_le_iff by linarith
  moreover have "m \<le> h" using h(2) m(2) between(2) t(2) num unfolding abs_le_iff by linarith
  ultimately show ?thesis
    using ne l(1) h(1) m(1)
    by (simp add: chain_le_def py_min_Fin py_max_Fin mn_def [symmetric] mx_def [symmetric] t(1) fsub_def)
qed

text \<open>Every finite double, and the double next to it, is far below the overflow threshold.\<close>

lemma round64_shift_finite:
  assumes "is_double r" "\<bar>t\<bar> \<le> 1"
  shows "\<exists>v. round64 (r + t) = Fin v"
proof -
  have "\<bar>r\<bar> \<le> 2 ^ 1024 - 2 ^ 971" using assms(1) by (rule is_double_max)
  moreover have "\<bar>r + t\<bar> \<le> \<bar>r\<bar> + \<bar>t\<bar>" by (rule abs_triangle_ineq)
  moreover have "(2::real) ^ 971 = 2 * 2 ^ 970" "(1::real) < 2 ^ 970" by simp_all
  ultimately have "\<bar>r + t\<bar> < float_threshold" using assms(2) unfolding float_threshold_def by linarith
  then show ?thesis using round64_finite by blast
qed

subsection \<open>The list \<open>[0.1, 0.1, 0.1]\<close>\<close>

text \<open>
  The literal \<open>0.1\<close> is the double \<open>7205759403792794 / 2^56\<close>. Summing three
  copies rounds once (a tie, to even) to \<open>0.30000000000000004\<close>, and dividing
  by three gives \<open>7205759403792795 / 2^56 = 0.10000000000000002\<close>, one unit
  above the maximum.
\<close>

lemma float_lit_01: "float_lit (1 / 10) = Fin (7205759403792794 / 2 ^ 56)"
proof -
  have "round_even ((1 / 10) * power_int 2 (52 - (- 4))) = 7205759403792794"
    by (rule round_even_eqI) simp_all
  from round64_eqI [of "1 / 10" "- 4", OF _ _ _ _ _ this] show ?thesis
    by (simp add: float_threshold_def float_lit_def)
qed

lemma example_mean_4_eq: "example_mean_4 = map Fin [7205759403792794 / 2 ^ 56, 7205759403792794 / 2 ^ 56, 7205759403792794 / 2 ^ 56]"
  by (simp add: example_mean_4_def float_lit_01)

lemma is_double_01: "is_double (7205759403792794 / 2 ^ 56)"
proof -
  have "round_even ((7205759403792794 / 2 ^ 56) * power_int 2 (52 - (- 4))) = 7205759403792794"
    by (rule round_even_eqI) simp_all
  from round64_eqI [of _ "- 4", OF _ _ _ _ _ this] show ?thesis
    by (simp add: float_threshold_def is_double_def)
qed

lemma py_sum_example: "py_sum example_mean_4 = Fin (5404319552844596 / 2 ^ 54)"
proof -
  have a: "round64 (7205759403792794 / 2 ^ 56) = Fin (7205759403792794 / 2 ^ 56)"
    using is_double_01 by (simp add: is_double_def)
  have "round_even ((7205759403792794 / 2 ^ 56 + 7205759403792794 / 2 ^ 56) * power_int 2 (52 - (- 3))) = 7205759403792794"
    by (rule round_even_eqI) simp_all
  from round64_eqI [of _ "- 3", OF _ _ _ _ _ this]
  have b: "round64 (7205759403792794 / 2 ^ 56 + 7205759403792794 / 2 ^ 56) = Fin (7205759403792794 / 2 ^ 55)"
    by (simp add: float_threshold_def)
  have "round_even ((7205759403792794 / 2 ^ 55 + 7205759403792794 / 2 ^ 56) * power_int 2 (52 - (- 2))) = 5404319552844596"
    by (subst round_even_tie [of _ 5404319552844595]) simp_all
  from round64_eqI [of _ "- 2", OF _ _ _ _ _ this]
  have c: "round64 (7205759403792794 / 2 ^ 55 + 7205759403792794 / 2 ^ 56) = Fin (5404319552844596 / 2 ^ 54)"
    by (simp add: float_threshold_def)
  show ?thesis using a b c by (simp add: py_sum_def example_mean_4_eq)
qed

lemma mean_example: "mean example_mean_4 = Inr (Fin (7205759403792795 / 2 ^ 56))"
proof -
  have "round_even ((5404319552844596 / 2 ^ 54 / 3) * power_int 2 (52 - (- 4))) = 7205759403792795"
    by (rule round_even_eqI) simp_all
  from round64_eqI [of _ "- 4", OF _ _ _ _ _ this]
  have "round64 (5404319552844596 / 2 ^ 54 / 3) = Fin (7205759403792795 / 2 ^ 56)"
    by (simp add: float_threshold_def)
  then show ?thesis unfolding mean_def Let_def py_sum_example by (simp add: example_mean_4_def)
qed

lemma is_double_2_1023: "is_double (2 ^ 1023)"
proof -
  have "round_even (2 ^ 1023 * power_int 2 (52 - 1023)) = 2 ^ 52"
    by (rule round_even_eqI) (simp_all add: power_int_minus)
  from round64_eqI [of "2 ^ 1023" 1023, OF _ _ _ _ _ this] show ?thesis
    by (simp add: float_threshold_def is_double_def power_int_add)
qed

text \<open>The facts the properties below and the pytest sessions (\<open>TestRunners\<close>) share.\<close>

lemma test_body_mean_fails:
  assumes "mean_fails x"
  shows "test_mean_0 x = Failed" "test_mean_1 x = Failed" "test_mean_2 x = Failed" "test_mean_3 x = Failed"
proof -
  have ne: "x \<noteq> []" using assms by (cases x) simp_all
  have "chain_le (py_min x) (mean x) (py_max x) = Inr False"
    using chain_mean_fails [OF assms] py_min_Inr [OF ne] by blast
  then show "test_mean_0 x = Failed" "test_mean_1 x = Failed" "test_mean_2 x = Failed" "test_mean_3 x = Failed"
    using ne by (simp_all add: test_mean_0_def test_mean_1_def test_mean_2_def test_mean_3_def assert_outcome_def)
qed

lemma test_mean_3_example: "test_mean_3 example_mean_4 = Failed"
proof -
  have "py_max example_mean_4 = Inr (Fin (7205759403792794 / 2 ^ 56))"
    "py_min example_mean_4 = Inr (Fin (7205759403792794 / 2 ^ 56))"
    by (simp_all add: example_mean_4_eq max_step_def min_step_def)
  then show ?thesis
    using mean_example by (simp add: test_mean_3_def assert_outcome_def chain_le_def example_mean_4_eq)
qed

lemma test_mean_4_bounded:
  fixes M :: real
  assumes "length rs \<le> 2 ^ 20" "\<forall>r\<in>set rs. \<bar>r\<bar> \<le> M" "real (length rs) * M \<le> 2 ^ 20"
  shows "test_mean_4 (map Fin rs) = (if rs = [] then Rejected else Passed)"
proof (cases "rs = []")
  case False
  then show ?thesis
    using chain_tol_bounded [OF False assms(2,1,3)] by (simp add: test_mean_4_def assert_outcome_def)
qed (simp add: test_mean_4_def)

subsection \<open>Properties\<close>

text \<open>
  C18. The test body of \<open>intro_mean_1.py\<close> (which \<open>intro_mean_2.py\<close> and
  \<open>intro_mean_3.py\<close> repeat): \<open>assume\<close> rejects exactly the empty list, and a
  list holding \<open>nan\<close>, or both \<open>inf\<close> and \<open>-inf\<close>, fails whatever the other
  values: its float sum is \<open>nan\<close>, and every comparison with \<open>nan\<close> is false.
\<close>

theorem test_mean_1_special:
  "(test_mean_1 x = Rejected \<longleftrightarrow> x = []) \<and> (mean_fails x \<longrightarrow> test_mean_1 x = Failed)"
proof
  show "test_mean_1 x = Rejected \<longleftrightarrow> x = []"
    by (simp add: test_mean_1_def assert_outcome_def split: sum.split)
  show "mean_fails x \<longrightarrow> test_mean_1 x = Failed" using test_body_mean_fails(2) by blast
qed

theorem test_mean_1_special_witness:
  "test_mean_1 [] = Rejected \<and> mean_fails [NaN] \<and> test_mean_1 [NaN] = Failed \<and>
   mean_fails [Inf, NInf] \<and> test_mean_1 [Inf, NInf] = Failed"
  using test_mean_1_special [of "[]"] test_mean_1_special [of "[NaN]"] test_mean_1_special [of "[Inf, NInf]"]
  by (simp add: mean_fails_def both_infinities_def)


text \<open>
  C20. Overflow defeats the tolerance of \<open>intro_mean_4.py\<close>: on a list of
  finite floats whose float sum overflows to \<open>inf\<close> (or \<open>-inf\<close>), the mean
  is \<open>inf\<close> (\<open>-inf\<close>), beyond \<open>max(x) + 1e-8\<close> (below \<open>min(x) - 1e-8\<close>), and
  the test fails. \<open>[2.0**1023, 2.0**1023]\<close> is such a list, as is
  \<open>[1.79e308, 1.79e308]\<close>.
\<close>

theorem test_mean_4_overflow:
  assumes "given_mean_3 x" "py_sum x = Inf \<or> py_sum x = NInf"
  shows "test_mean_4 x = Failed"
proof -
  obtain rs where rs: "x = map Fin rs" "list_all is_double rs" using given_mean_3_Fin [OF assms(1)] by blast
  have ne: "rs \<noteq> []" using assms(2) rs(1) by (auto simp: py_sum_def)
  obtain t where t: "mean_tol = Fin t" "99 / 10 ^ 10 \<le> t" "t \<le> 101 / 10 ^ 10" using mean_tol_Fin by blast
  have dbl: "\<forall>r\<in>set rs. is_double r" using rs(2) by (simp add: list_all_iff)
  have mn: "is_double (Min (set rs))" and mx: "is_double (Max (set rs))" using dbl ne by simp_all
  obtain l where l: "round64 (Min (set rs) + - t) = Fin l"
    using round64_shift_finite [OF mn, of "- t"] t(2,3) by auto
  obtain h where h: "round64 (Max (set rs) + t) = Fin h"
    using round64_shift_finite [OF mx, of t] t(2,3) by auto
  have lo: "rbind (py_min x) (\<lambda>lo. Inr (fsub lo mean_tol)) = Inr (Fin l)"
    using ne l by (simp add: rs(1) py_min_Fin t(1) fsub_def rbind_def)
  have hi: "rbind (py_max x) (\<lambda>hi. Inr (fadd hi mean_tol)) = Inr (Fin h)"
    using ne h by (simp add: rs(1) py_max_Fin t(1) rbind_def)
  have xne: "x \<noteq> []" using ne rs(1) by simp
  from assms(2) show ?thesis
  proof
    assume "py_sum x = Inf"
    then have "mean_4 x = Inr Inf" using xne by (simp add: mean_ne)
    then show ?thesis using xne by (simp add: test_mean_4_def assert_outcome_def chain_le_def lo hi)
  next
    assume "py_sum x = NInf"
    then have "mean_4 x = Inr NInf" using xne by (simp add: mean_ne)
    then show ?thesis using xne by (simp add: test_mean_4_def assert_outcome_def chain_le_def lo hi)
  qed
qed

theorem test_mean_4_overflow_witness:
  "given_mean_3 [Fin (2 ^ 1023), Fin (2 ^ 1023)] \<and> py_sum [Fin (2 ^ 1023), Fin (2 ^ 1023)] = Inf \<and>
   test_mean_4 [Fin (2 ^ 1023), Fin (2 ^ 1023)] = Failed"
proof -
  have g: "given_mean_3 [Fin (2 ^ 1023), Fin (2 ^ 1023)]"
    using is_double_2_1023 by (simp add: given_mean_3_def)
  have "round64 (2 ^ 1023) = Fin (2 ^ 1023)" using is_double_2_1023 by (simp add: is_double_def)
  moreover have "round64 (2 ^ 1023 + 2 ^ 1023) = Inf" by (simp add: round64_overflow float_threshold_def)
  ultimately have s: "py_sum [Fin (2 ^ 1023), Fin (2 ^ 1023)] = Inf" by (simp add: py_sum_def)
  show ?thesis using g s test_mean_4_overflow [OF g] by simp
qed


text \<open>
  C22. The tolerant test of \<open>intro_mean_4.py\<close> passes on every non-empty
  list of at most \<open>2^20\<close> floats of magnitude at most \<open>M\<close> with \<open>n M \<le> 2^20\<close>
  (for instance a million floats in \<open>[-1, 1]\<close>): the float mean is within
  \<open>2^-30\<close> of the exact one, and \<open>1e-8\<close> absorbs that error and the rounding
  of \<open>min(x) - 1e-8\<close> and \<open>max(x) + 1e-8\<close>. Its explicit example
  \<open>[0.1, 0.1, 0.1]\<close> is such a list.
\<close>

theorem test_mean_4_passes:
  fixes M :: real
  assumes "rs \<noteq> []" "length rs \<le> 2 ^ 20" "\<forall>r\<in>set rs. \<bar>r\<bar> \<le> M" "real (length rs) * M \<le> 2 ^ 20"
  shows "test_mean_4 (map Fin rs) = Passed"
  using test_mean_4_bounded [OF assms(2,3,4)] assms(1) by simp

theorem test_mean_4_passes_witness:
  "[7205759403792794 / 2 ^ 56, 7205759403792794 / 2 ^ 56, 7205759403792794 / 2 ^ 56] \<noteq> ([] :: real list) \<and>
   length [7205759403792794 / 2 ^ 56, 7205759403792794 / 2 ^ 56, 7205759403792794 / 2 ^ 56 :: real] \<le> 2 ^ 20 \<and>
   \<bar>7205759403792794 / 2 ^ 56 :: real\<bar> \<le> 1 \<and> real 3 * 1 \<le> 2 ^ 20 \<and>
   test_mean_4 example_mean_4 = Passed"
  using test_mean_4_passes [of "[7205759403792794 / 2 ^ 56, 7205759403792794 / 2 ^ 56, 7205759403792794 / 2 ^ 56]" 1]
  by (simp add: example_mean_4_eq)

end
