(* ===== verification/Doctests.thy ===== *)
theory Doctests
  imports Prelude "HOL-Library.List_Lexorder" "HOL-Library.Char_ord" "HOL-Library.Product_Lexorder"
begin

text \<open>
  The small doctest and pytest examples: \<open>multiply\<close>
  (\<open>src/doctest/intro_1_multiply.py\<close> and \<open>src/doctest/solutions.py\<close>, both
  \<open>return a * b\<close>), Python's \<open>*\<close> on ints, floats, strings and lists as the
  function \<open>py_mul\<close> over the value type \<open>pyval\<close>; the functions that raise
  \<open>ZeroDivisionError\<close> and the \<open>pytest.raises\<close> tests around them
  (\<open>src/pytest/solutions.py\<close>, \<open>src/pytest/test_exception.py\<close>); the dict
  returned by \<open>unordered_return_value\<close> as an insertion-ordered association
  list compared as a mapping, as Python compares dicts; \<open>many_digit_number\<close>
  and the fixed-point formatting its doctest applies.
\<close>

datatype pyval = PInt int | PFloat real | PStr string | PList "pyval list"

fun type_name :: "pyval \<Rightarrow> string" where
  "type_name (PInt _) = ''int''"
| "type_name (PFloat _) = ''float''"
| "type_name (PStr _) = ''str''"
| "type_name (PList _) = ''list''"

fun is_seq :: "pyval \<Rightarrow> bool" where
  "is_seq (PStr _) = True"
| "is_seq (PList _) = True"
| "is_seq _ = False"

fun is_int :: "pyval \<Rightarrow> bool" where
  "is_int (PInt _) = True"
| "is_int _ = False"

text \<open>\<open>seq * n\<close>: \<open>n\<close> copies, none when \<open>n <= 0\<close>.\<close>

definition py_repeat :: "'a list \<Rightarrow> int \<Rightarrow> 'a list" where
  "py_repeat xs n = concat (replicate (nat n) xs)"

definition seq_type_error :: "pyval \<Rightarrow> py_error" where
  "seq_type_error v =
     TypeError (''can't multiply sequence by non-int of type '' @ [CHR 0x27] @ type_name v @ [CHR 0x27])"

fun py_mul :: "pyval \<Rightarrow> pyval \<Rightarrow> pyval result" where
  "py_mul (PInt m) (PInt n) = Inr (PInt (m * n))"
| "py_mul (PInt m) (PFloat y) = Inr (PFloat (of_int m * y))"
| "py_mul (PFloat x) (PInt n) = Inr (PFloat (x * of_int n))"
| "py_mul (PFloat x) (PFloat y) = Inr (PFloat (x * y))"
| "py_mul (PStr s) (PInt n) = Inr (PStr (py_repeat s n))"
| "py_mul (PInt n) (PStr s) = Inr (PStr (py_repeat s n))"
| "py_mul (PList xs) (PInt n) = Inr (PList (py_repeat xs n))"
| "py_mul (PInt n) (PList xs) = Inr (PList (py_repeat xs n))"
| "py_mul (PStr s) b = Inl (seq_type_error b)"
| "py_mul (PList xs) b = Inl (seq_type_error b)"
| "py_mul a b = Inl (seq_type_error a)"

definition multiply :: "pyval \<Rightarrow> pyval \<Rightarrow> pyval result" where
  "multiply a b = py_mul a b"

text \<open>The copy of \<open>multiply\<close> in \<open>src/doctest/solutions.py\<close>.\<close>

definition multiply_solutions :: "pyval \<Rightarrow> pyval \<Rightarrow> pyval result" where
  "multiply_solutions a b = py_mul a b"

subsection \<open>Exceptions and \<open>pytest.raises\<close>\<close>

definition some_exception :: "unit result" where
  "some_exception = Inl (ZeroDivisionError ''O.o'')"

text \<open>The copy of \<open>some_exception\<close> in \<open>src/pytest/solutions.py\<close>, which its test calls.\<close>

definition some_exception_pytest :: "unit result" where
  "some_exception_pytest = Inl (ZeroDivisionError ''O.o'')"

text \<open>\<open>fun()\<close> of \<open>test_exception.py\<close> raises \<open>ZeroDivisionError(1)\<close>; its argument is kept as text.\<close>

definition fun_raises :: "unit result" where
  "fun_raises = Inl (ZeroDivisionError ''1'')"

text \<open>
  \<open>with pytest.raises(ZeroDivisionError) as excinfo: body\<close>, then a check of
  \<open>excinfo.value.args[0]\<close>: another exception escapes, a body that returns
  fails the test (\<open>DID NOT RAISE\<close>).
\<close>

definition raises_zero_division :: "'a result \<Rightarrow> (string \<Rightarrow> bool) \<Rightarrow> test_outcome" where
  "raises_zero_division body check =
     (case body of
        Inl (ZeroDivisionError m) \<Rightarrow> assert_outcome (Inr (check m))
      | Inl e \<Rightarrow> Errored e
      | Inr _ \<Rightarrow> Failed)"

definition test_some_exception :: test_outcome where
  "test_some_exception = raises_zero_division some_exception_pytest (\<lambda>m. m = ''O.o'')"

definition test_fun_raises_zero_division_error :: test_outcome where
  "test_fun_raises_zero_division_error = raises_zero_division fun_raises (\<lambda>_. True)"

subsection \<open>Dicts and number formatting\<close>

type_synonym ('k, 'v) pydict = "('k \<times> 'v) list"

definition unordered_return_value :: "(string, int) pydict" where
  "unordered_return_value = [(''b'', 2), (''a'', 1)]"

text \<open>Python's \<open>==\<close> on dicts compares them as mappings, ignoring insertion order.\<close>

definition dict_eq :: "('k, 'v) pydict \<Rightarrow> ('k, 'v) pydict \<Rightarrow> bool" where
  "dict_eq d e = (map_of d = map_of e)"

definition many_digit_number :: real where
  "many_digit_number = 1 / 42"

text \<open>\<open>'{:.4f}'.format(v)\<close> as the integer count of ten-thousandths it prints.\<close>

definition format_4f :: "real \<Rightarrow> int" where
  "format_4f v = round (v * 10 ^ 4)"

subsection \<open>Lemmas\<close>

lemma nth_concat_replicate:
  "i < k * length xs \<Longrightarrow> concat (replicate k xs) ! i = xs ! (i mod length xs)"
proof (induction k arbitrary: i)
  case (Suc k)
  show ?case
  proof (cases "i < length xs")
    case True
    then show ?thesis by (simp add: nth_append)
  next
    case False
    then have "i - length xs < k * length xs" using Suc.prems by simp
    with Suc.IH have "concat (replicate k xs) ! (i - length xs) = xs ! ((i - length xs) mod length xs)"
      by blast
    with False show ?thesis by (simp add: nth_append mod_if)
  qed
qed simp

lemma length_py_repeat [simp]: "length (py_repeat xs n) = nat n * length xs"
  by (simp add: py_repeat_def length_concat sum_list_replicate)

lemma nth_py_repeat:
  assumes "i < length (py_repeat xs n)"
  shows "py_repeat xs n ! i = xs ! (i mod length xs)"
proof -
  have "i < nat n * length xs" using assms by simp
  then show ?thesis unfolding py_repeat_def by (rule nth_concat_replicate)
qed

lemma sort_eq_iff_set_eq:
  "distinct xs \<Longrightarrow> distinct ys \<Longrightarrow> sort xs = sort ys \<longleftrightarrow> set xs = set ys"
  by (metis distinct_sort set_sort sorted_distinct_set_unique sorted_sort)

subsection \<open>Properties\<close>

text \<open>
  The doctests of \<open>multiply\<close> in \<open>intro_1_multiply.py\<close> and
  \<open>solutions.py\<close>: \<open>multiply(1, 2) == 2\<close>, \<open>multiply([3], 3) == [3, 3, 3]\<close>,
  \<open>multiply(6, 7) == 42\<close>, and for the copy in \<open>solutions.py\<close>
  \<open>multiply(['A', 'B'], 2) == ['A', 'B', 'A', 'B']\<close>.
\<close>

theorem multiply_doctests:
  "multiply (PInt 1) (PInt 2) = Inr (PInt 2) \<and>
   multiply (PList [PInt 3]) (PInt 3) = Inr (PList [PInt 3, PInt 3, PInt 3]) \<and>
   multiply (PInt 6) (PInt 7) = Inr (PInt 42) \<and>
   multiply_solutions (PList [PStr ''A'', PStr ''B'']) (PInt 2) =
     Inr (PList [PStr ''A'', PStr ''B'', PStr ''A'', PStr ''B''])"
  by (simp add: multiply_def multiply_solutions_def py_repeat_def numeral_eq_Suc)

text \<open>
  A list times an int \<open>n\<close> is the list repeated \<open>n\<close> times: its length is
  \<open>max n 0\<close> times the length of the list, and its \<open>i\<close>-th item is item
  \<open>i mod len(xs)\<close> of the list.
\<close>

theorem multiply_list_repeats:
  "\<exists>ys. multiply (PList xs) (PInt n) = Inr (PList ys) \<and> length ys = nat n * length xs \<and>
        (\<forall>i < length ys. ys ! i = xs ! (i mod length xs))"
  by (simp add: multiply_def nth_py_repeat)

theorem multiply_list_repeats_witness:
  "multiply (PList [PStr ''A'', PStr ''B'']) (PInt 2) =
     Inr (PList [PStr ''A'', PStr ''B'', PStr ''A'', PStr ''B'']) \<and>
   [PStr ''A'', PStr ''B'', PStr ''A'', PStr ''B''] ! 3 = [PStr ''A'', PStr ''B''] ! (3 mod 2)"
proof -
  from multiply_list_repeats [of "[PStr ''A'', PStr ''B'']" 2]
  obtain ys where ys: "multiply (PList [PStr ''A'', PStr ''B'']) (PInt 2) = Inr (PList ys)"
      "\<forall>i < length ys. ys ! i = [PStr ''A'', PStr ''B''] ! (i mod length [PStr ''A'', PStr ''B''])"
    by blast
  have y: "ys = [PStr ''A'', PStr ''B'', PStr ''A'', PStr ''B'']"
    using ys(1) by (simp add: multiply_def py_repeat_def numeral_eq_Suc)
  have "(3::nat) < length ys" using y by simp
  then have "ys ! 3 = [PStr ''A'', PStr ''B''] ! (3 mod length [PStr ''A'', PStr ''B''])"
    using ys(2) by blast
  then show ?thesis using ys(1) y by simp
qed

text \<open>
  \<open>*\<close> is commutative on the values it accepts: \<open>multiply(a, b)\<close>
  returns \<open>v\<close> exactly when \<open>multiply(b, a)\<close> does (\<open>[3] * 3 == 3 * [3]\<close>).
\<close>

theorem multiply_commutes: "multiply a b = Inr v \<longleftrightarrow> multiply b a = Inr v"
  by (cases a; cases b) (auto simp: multiply_def mult.commute)

text \<open>
  \<open>multiply\<close> raises exactly when a sequence meets a non-int, and then the
  \<open>TypeError\<close> names the type of the non-int operand.
\<close>

theorem multiply_type_error:
  "multiply a b = Inl e \<longleftrightarrow>
     (is_seq a \<and> \<not> is_int b \<and> e = seq_type_error b) \<or>
     (\<not> is_seq a \<and> \<not> is_int a \<and> is_seq b \<and> e = seq_type_error a)"
  by (cases a; cases b) (auto simp: multiply_def)

text \<open>
  The exception examples behave as their tests require: \<open>some_exception\<close>
  raises \<open>ZeroDivisionError('O.o')\<close> (the doctest's traceback), and both
  \<open>pytest.raises\<close> tests pass.
\<close>

theorem exception_tests_pass:
  "some_exception = Inl (ZeroDivisionError ''O.o'') \<and>
   test_some_exception = Passed \<and> test_fun_raises_zero_division_error = Passed"
  by (simp add: some_exception_def some_exception_pytest_def test_some_exception_def
      test_fun_raises_zero_division_error_def
      fun_raises_def raises_zero_division_def assert_outcome_def)

text \<open>
  For dicts without repeated keys, \<open>==\<close> holds exactly when the sorted
  item lists agree: the two doctests of \<open>unordered_return_value\<close> check the
  same thing, and both pass although the insertion order differs.
\<close>

theorem dict_eq_iff_sorted_items:
  assumes "distinct (map fst d)" "distinct (map fst e)"
  shows "dict_eq d e \<longleftrightarrow> sort d = sort e"
proof -
  have "distinct d" "distinct e" using assms by (simp_all add: distinct_map)
  then show ?thesis
    using assms by (simp add: dict_eq_def map_of_inject_set sort_eq_iff_set_eq)
qed

theorem dict_eq_iff_sorted_items_witness:
  "distinct (map fst unordered_return_value) \<and> distinct (map fst [(''a'', 1::int), (''b'', 2)]) \<and>
   dict_eq unordered_return_value [(''a'', 1), (''b'', 2)] \<and>
   sort unordered_return_value = [(''a'', 1), (''b'', 2)] \<and>
   unordered_return_value \<noteq> [(''a'', 1), (''b'', 2)]"
  using dict_eq_iff_sorted_items [of unordered_return_value "[(''a'', 1), (''b'', 2)]"]
  by (simp add: unordered_return_value_def)

text \<open>
  The doctests of \<open>many_digit_number\<close>: formatted with four decimals it
  prints \<open>0.0238\<close>, and it starts \<open>0.02380\<close>.
\<close>

theorem many_digit_number_doctests:
  "format_4f many_digit_number = 238 \<and>
   2380 / 100000 \<le> many_digit_number \<and> many_digit_number < 2381 / 100000"
  by (simp add: format_4f_def many_digit_number_def round_def floor_eq_iff)

end
