(* ===== verification/Fixtures.thy ===== *)
theory Fixtures
  imports Prelude
begin

text \<open>
  The fixture tutorial of \<open>src/pytest/solutions.py\<close>: \<open>create_df\<close> builds a
  \<open>pandas.DataFrame\<close> of two integer columns, \<open>create_data\<close> writes it into
  pytest's temporary directory as CSV, and \<open>test_with_tmpdir_fixture\<close> reads
  the file back and compares. pandas is not code of the repository; its
  \<open>to_csv\<close> and \<open>read_csv\<close> are modelled for integer columns: ints printed
  and parsed as decimal text (\<open>show_int\<close>, \<open>parse_int\<close>), cells joined and
  split on commas, lines on newlines. The file system is a map from paths to
  contents. The main lemma is the round trip \<open>read_csv (to_csv False df) = Some df\<close>
  for well-formed frames.
\<close>

text \<open>Python's \<open>str\<close> on ints and its inverse on digit strings.\<close>

definition digit_char :: "nat \<Rightarrow> char" where
  "digit_char d = char_of (48 + d)"

definition is_digit :: "char \<Rightarrow> bool" where
  "is_digit c \<longleftrightarrow> 48 \<le> (of_char c :: nat) \<and> (of_char c :: nat) \<le> 57"

function show_nat :: "nat \<Rightarrow> string" where
  "show_nat n = (if n < 10 then [digit_char n] else show_nat (n div 10) @ [digit_char (n mod 10)])"
  by auto
termination by (relation "measure id") auto

definition show_int :: "int \<Rightarrow> string" where
  "show_int i = (if i < 0 then CHR ''-'' # show_nat (nat (- i)) else show_nat (nat i))"

fun parse_digits :: "nat \<Rightarrow> string \<Rightarrow> nat option" where
  "parse_digits acc [] = Some acc"
| "parse_digits acc (c # cs) =
     (if is_digit c then parse_digits (10 * acc + (of_char c - 48)) cs else None)"

definition parse_nat :: "string \<Rightarrow> nat option" where
  "parse_nat s = (if s = [] then None else parse_digits 0 s)"

fun parse_int :: "string \<Rightarrow> int option" where
  "parse_int [] = None"
| "parse_int (c # cs) =
     (if c = CHR ''-'' then map_option (\<lambda>n. - int n) (parse_nat cs)
      else map_option int (parse_nat (c # cs)))"

text \<open>\<open>sep.join(ws)\<close> and \<open>s.split(sep)\<close> on one separator character.\<close>

fun join_with :: "char \<Rightarrow> string list \<Rightarrow> string" where
  "join_with c [] = []"
| "join_with c [w] = w"
| "join_with c (w # ws) = w @ c # join_with c ws"

fun split_on :: "char \<Rightarrow> string \<Rightarrow> string list" where
  "split_on c [] = [[]]"
| "split_on c (x # xs) =
     (if x = c then [] # split_on c xs
      else (case split_on c xs of w # ws \<Rightarrow> (x # w) # ws | [] \<Rightarrow> [[x]]))"

subsection \<open>Data frames of integer columns and their CSV form\<close>

text \<open>
  A \<open>pandas.DataFrame\<close> of integer columns: its columns in order, each a name
  and its values, with pandas' default index \<open>0, 1, ...\<close>. \<open>to_csv\<close> writes a
  header line of the names and one line per row, each cell as Python prints
  an int, every line ended by a newline; when \<open>index\<close> is true (pandas'
  default) the index is written first, as a column whose header is empty.
  \<open>read_csv\<close> skips blank lines, takes the first line as the header, names a
  column with an empty header \<open>Unnamed: j\<close> after its position \<open>j\<close>, and here
  reads only integer cells (pandas would infer another dtype for other
  cells, which the fixture does not produce).
\<close>

type_synonym frame = "(string \<times> int list) list"

definition frame_rows :: "frame \<Rightarrow> nat" where
  "frame_rows df = (case df of [] \<Rightarrow> 0 | (_, col) # _ \<Rightarrow> length col)"

definition csv_row :: "frame \<Rightarrow> nat \<Rightarrow> string" where
  "csv_row df i = join_with CHR '','' (map (\<lambda>(_, col). show_int (col ! i)) df)"

definition csv_text :: "frame \<Rightarrow> string" where
  "csv_text df =
     join_with CHR ''\<newline>'' (join_with CHR '','' (map fst df) # map (csv_row df) [0..<frame_rows df])
       @ ''\<newline>''"

definition index_column :: "frame \<Rightarrow> string \<times> int list" where
  "index_column df = ('''', map int [0..<frame_rows df])"

definition to_csv :: "bool \<Rightarrow> frame \<Rightarrow> string" where
  "to_csv index df = csv_text (if index then index_column df # df else df)"

definition unnamed_cols :: "string list \<Rightarrow> string list" where
  "unnamed_cols ns = map (\<lambda>(j, n). if n = [] then ''Unnamed: '' @ show_nat j else n) (zip [0..<length ns] ns)"

definition read_csv :: "string \<Rightarrow> frame option" where
  "read_csv txt =
     (case filter (\<lambda>l. l \<noteq> []) (split_on CHR ''\<newline>'' txt) of
        [] \<Rightarrow> None
      | header # rows \<Rightarrow>
          (let names = unnamed_cols (split_on CHR '','' header); cells = map (split_on CHR '','') rows
           in if list_all (\<lambda>r. length r = length names) cells
              then map_option (\<lambda>vals. map (\<lambda>j. (names ! j, map (\<lambda>row. row ! j) vals)) [0..<length names])
                     (those (map (\<lambda>r. those (map parse_int r)) cells))
              else None))"

text \<open>The frames the writer and reader agree on.\<close>

definition frame_wf :: "frame \<Rightarrow> bool" where
  "frame_wf df \<longleftrightarrow> df \<noteq> [] \<and> 0 < frame_rows df \<and> distinct (map fst df) \<and>
     (\<forall>(name, col) \<in> set df. name \<noteq> [] \<and> CHR '','' \<notin> set name \<and> CHR ''\<newline>'' \<notin> set name \<and>
        length col = frame_rows df)"

subsection \<open>The fixtures and the test\<close>

text \<open>
  Files as a map from paths to contents; \<open>tmpdir.join('df.csv')\<close> appends the
  name. \<open>create_data\<close> passes \<open>index=None\<close>, which pandas reads as false.
\<close>

type_synonym files = "string \<Rightarrow> string option"

definition create_df :: frame where
  "create_df = [(''a'', [1, 2]), (''b'', [2, 3])]"

definition create_data :: "string \<Rightarrow> frame \<Rightarrow> files \<Rightarrow> string \<times> files" where
  "create_data tmpdir df fs = (let path = tmpdir @ ''/df.csv'' in (path, fs(path \<mapsto> to_csv False df)))"

definition read_csv_file :: "files \<Rightarrow> string \<Rightarrow> frame result" where
  "read_csv_file fs path =
     (case fs path of
        None \<Rightarrow> Inl (FileNotFoundError ''No such file or directory'')
      | Some txt \<Rightarrow> (case read_csv txt of
                       None \<Rightarrow> Inl (ValueError ''not a CSV file of integer columns'')
                     | Some df \<Rightarrow> Inr df))"

text \<open>
  \<open>test_with_tmpdir_fixture\<close>: pytest builds \<open>create_df\<close> once for the test and
  passes it to \<open>create_data\<close> too; \<open>assert_frame_equal\<close> fails the test when
  the frames differ.
\<close>

definition test_with_tmpdir_fixture :: "string \<Rightarrow> files \<Rightarrow> test_outcome" where
  "test_with_tmpdir_fixture tmpdir fs =
     (let df_expected = create_df; (path, fs') = create_data tmpdir create_df fs
      in assert_outcome (rbind (read_csv_file fs' path) (\<lambda>df_actual. Inr (df_actual = df_expected))))"

declare show_nat.simps [simp del]

lemma of_char_digit: "d < 10 \<Longrightarrow> (of_char (digit_char d) :: nat) = 48 + d"
  by (simp add: digit_char_def)

lemma digit_char_props:
  assumes "d < 10"
  shows "is_digit (digit_char d)" "(of_char (digit_char d) :: nat) - 48 = d"
    "digit_char d \<noteq> CHR ''-''" "digit_char d \<noteq> CHR '',''" "digit_char d \<noteq> CHR ''\<newline>''"
proof -
  have o: "(of_char (digit_char d) :: nat) = 48 + d" by (rule of_char_digit [OF assms])
  show "is_digit (digit_char d)" "(of_char (digit_char d) :: nat) - 48 = d"
    using assms by (simp_all add: is_digit_def o)
  show "digit_char d \<noteq> CHR ''-''" "digit_char d \<noteq> CHR '',''" "digit_char d \<noteq> CHR ''\<newline>''"
    using o by (auto dest: arg_cong [where f = "of_char :: char \<Rightarrow> nat"])
qed

lemma parse_digits_append:
  "parse_digits acc (xs @ ys) = (case parse_digits acc xs of None \<Rightarrow> None | Some m \<Rightarrow> parse_digits m ys)"
  by (induction acc xs rule: parse_digits.induct) simp_all

lemma show_nat_ne [simp]: "show_nat n \<noteq> []"
  by (subst show_nat.simps) simp

lemma show_nat_digits: "c \<in> set (show_nat n) \<Longrightarrow> \<exists>d < 10. c = digit_char d"
proof (induction n rule: show_nat.induct)
  case (1 n)
  show ?case
  proof (cases "n < 10")
    case True
    with "1.prems" show ?thesis by (subst (asm) show_nat.simps) auto
  next
    case False
    with "1.prems" have "c \<in> set (show_nat (n div 10)) \<or> c = digit_char (n mod 10)"
      by (subst (asm) show_nat.simps) auto
    then show ?thesis
    proof
      assume "c \<in> set (show_nat (n div 10))"
      then show ?thesis using "1.IH" False by blast
    next
      assume "c = digit_char (n mod 10)"
      then show ?thesis by (intro exI [of _ "n mod 10"]) simp
    qed
  qed
qed

lemma parse_show_nat: "parse_digits 0 (show_nat n) = Some n"
proof (induction n rule: show_nat.induct)
  case (1 n)
  show ?case
  proof (cases "n < 10")
    case True
    then show ?thesis by (subst show_nat.simps) (simp add: digit_char_props)
  next
    case False
    then have "parse_digits 0 (show_nat n) =
        (case parse_digits 0 (show_nat (n div 10)) of None \<Rightarrow> None
         | Some m \<Rightarrow> parse_digits m [digit_char (n mod 10)])"
      by (subst show_nat.simps) (simp add: parse_digits_append)
    also have "\<dots> = Some (10 * (n div 10) + n mod 10)"
      using "1.IH" False by (simp add: digit_char_props)
    finally show ?thesis by simp
  qed
qed

lemma parse_show_int: "parse_int (show_int i) = Some i"
proof -
  obtain c cs where cs: "show_nat (nat \<bar>i\<bar>) = c # cs" by (cases "show_nat (nat \<bar>i\<bar>)") auto
  have "c \<noteq> CHR ''-''" using show_nat_digits [of c "nat \<bar>i\<bar>"] cs digit_char_props(3) by auto
  then show ?thesis using parse_show_nat [of "nat \<bar>i\<bar>"] cs
    by (cases "i < 0") (auto simp: show_int_def parse_nat_def)
qed

lemma split_on_no_sep: "c \<notin> set w \<Longrightarrow> split_on c w = [w]"
  by (induction w) auto

lemma split_on_sep: "c \<notin> set w \<Longrightarrow> split_on c (w @ c # r) = w # split_on c r"
  by (induction w) auto

lemma split_join:
  "ws \<noteq> [] \<Longrightarrow> \<forall>w \<in> set ws. c \<notin> set w \<Longrightarrow> split_on c (join_with c ws) = ws"
  by (induction c ws rule: join_with.induct) (simp_all add: split_on_no_sep split_on_sep)

lemma join_snoc: "ws \<noteq> [] \<Longrightarrow> join_with c ws @ [c] = join_with c (ws @ [[]])"
  by (induction c ws rule: join_with.induct) simp_all

lemma join_with_not_in: "c \<noteq> d \<Longrightarrow> \<forall>w \<in> set ws. c \<notin> set w \<Longrightarrow> c \<notin> set (join_with d ws)"
  by (induction d ws rule: join_with.induct) auto

lemma join_with_Cons_ne: "w \<noteq> [] \<Longrightarrow> join_with c (w # ws) \<noteq> []"
  by (cases ws) simp_all

lemma show_int_ne [simp]: "show_int i \<noteq> []"
  by (simp add: show_int_def)

lemma show_nat_no_sep: "CHR '','' \<notin> set (show_nat n) \<and> CHR ''\<newline>'' \<notin> set (show_nat n)"
proof -
  have "x \<noteq> CHR '','' \<and> x \<noteq> CHR ''\<newline>''" if x: "x \<in> set (show_nat n)" for x
  proof -
    obtain d where "d < 10" "x = digit_char d" using show_nat_digits [OF x] by blast
    then show ?thesis using digit_char_props(4,5) by simp
  qed
  then show ?thesis by blast
qed

lemma show_int_no_sep: "CHR '','' \<notin> set (show_int i) \<and> CHR ''\<newline>'' \<notin> set (show_int i)"
  using show_nat_no_sep by (simp add: show_int_def)

lemma those_map_Some:
  "(\<forall>x \<in> set xs. f (h x) = Some (g x)) \<Longrightarrow> those (map f (map h xs)) = Some (map g xs)"
  by (induction xs) simp_all

lemma frame_wfD:
  assumes "frame_wf df"
  shows "df \<noteq> []" "\<And>name col. (name, col) \<in> set df \<Longrightarrow>
           name \<noteq> [] \<and> CHR '','' \<notin> set name \<and> CHR ''\<newline>'' \<notin> set name \<and> length col = frame_rows df"
  using assms unfolding frame_wf_def by auto

lemma csv_row_ne: "df \<noteq> [] \<Longrightarrow> csv_row df i \<noteq> []"
  by (cases df) (auto simp: csv_row_def intro!: join_with_Cons_ne)

lemma csv_row_no_newline: "CHR ''\<newline>'' \<notin> set (csv_row df i)"
  unfolding csv_row_def using show_int_no_sep by (intro join_with_not_in) auto

lemma split_csv_row: "df \<noteq> [] \<Longrightarrow>
    split_on CHR '','' (csv_row df i) = map (\<lambda>(_, col). show_int (col ! i)) df"
  unfolding csv_row_def using show_int_no_sep by (intro split_join) auto

lemma split_header:
  assumes "frame_wf df"
  shows "split_on CHR '','' (join_with CHR '','' (map fst df)) = map fst df"
  using frame_wfD [OF assms] by (intro split_join) auto

lemma unnamed_cols_id: "\<forall>n\<in>set ns. n \<noteq> [] \<Longrightarrow> unnamed_cols ns = ns"
  by (rule nth_equalityI) (auto simp: unnamed_cols_def)

lemma csv_text_lines:
  assumes "frame_wf df"
  shows "filter (\<lambda>l. l \<noteq> []) (split_on CHR ''\<newline>'' (csv_text df)) =
           join_with CHR '','' (map fst df) # map (csv_row df) [0..<frame_rows df]"
proof -
  let ?h = "join_with CHR '','' (map fst df)" and ?rows = "map (csv_row df) [0..<frame_rows df]"
  note wf = frame_wfD [OF assms]
  obtain name col rest where df: "df = (name, col) # rest" using wf(1) by (cases df) auto
  have h_ne: "?h \<noteq> []" using wf(2) [of name col] df by (simp add: join_with_Cons_ne)
  have h_nl: "CHR ''\<newline>'' \<notin> set ?h" using wf(2) by (intro join_with_not_in) auto
  have "csv_text df = join_with CHR ''\<newline>'' ((?h # ?rows) @ [[]])"
    unfolding csv_text_def by (rule join_snoc) simp
  moreover have "split_on CHR ''\<newline>'' (join_with CHR ''\<newline>'' ((?h # ?rows) @ [[]])) = (?h # ?rows) @ [[]]"
    using h_nl csv_row_no_newline by (intro split_join) auto
  moreover have "filter (\<lambda>l. l \<noteq> []) ((?h # ?rows) @ [[]]) = ?h # ?rows"
    using h_ne csv_row_ne [OF wf(1)] by simp
  ultimately show ?thesis by simp
qed

lemma parse_csv_row:
  "those (map parse_int (map (\<lambda>(_, col). show_int (col ! i)) df)) = Some (map (\<lambda>(_, col). col ! i) df)"
  by (induction df) (auto simp: parse_show_int)

lemma columns_of_rows:
  assumes "frame_wf df"
  shows "map (\<lambda>j. (map fst df ! j, map (\<lambda>row. row ! j)
             (map (\<lambda>i. map (\<lambda>(_, col). col ! i) df) [0..<frame_rows df]))) [0..<length df] = df"
proof (rule nth_equalityI)
  fix j assume "j < length (map (\<lambda>j. (map fst df ! j, map (\<lambda>row. row ! j)
             (map (\<lambda>i. map (\<lambda>(_, col). col ! i) df) [0..<frame_rows df]))) [0..<length df])"
  then have j: "j < length df" by simp
  obtain name col where dj: "df ! j = (name, col)" by (cases "df ! j")
  then have "(name, col) \<in> set df" using j nth_mem by fastforce
  then have len: "length col = frame_rows df" using frame_wfD(2) [OF assms] by blast
  have "map (\<lambda>row. row ! j) (map (\<lambda>i. map (\<lambda>(_, col). col ! i) df) [0..<frame_rows df]) =
        map ((!) col) [0..<length col]"
    using j dj len by simp
  then have col: "map (\<lambda>row. row ! j) (map (\<lambda>i. map (\<lambda>(_, col). col ! i) df) [0..<frame_rows df]) = col"
    by (simp only: map_nth)
  show "map (\<lambda>j. (map fst df ! j, map (\<lambda>row. row ! j)
             (map (\<lambda>i. map (\<lambda>(_, col). col ! i) df) [0..<frame_rows df]))) [0..<length df] ! j = df ! j"
    using j dj col by simp
qed simp

lemma read_csv_csv_text:
  assumes "frame_wf df"
  shows "read_csv (csv_text df) = Some df"
proof -
  note wf = frame_wfD [OF assms]
  have names: "unnamed_cols (map fst df) = map fst df" using wf(2) by (intro unnamed_cols_id) auto
  have cells: "map (split_on CHR '','') (map (csv_row df) [0..<frame_rows df]) =
      map (\<lambda>i. map (\<lambda>(_, col). show_int (col ! i)) df) [0..<frame_rows df]"
    using split_csv_row [OF wf(1)] by simp
  have vals: "those (map (\<lambda>r. those (map parse_int r))
        (map (\<lambda>i. map (\<lambda>(_, col). show_int (col ! i)) df) [0..<frame_rows df])) =
      Some (map (\<lambda>i. map (\<lambda>(_, col). col ! i) df) [0..<frame_rows df])"
    by (rule those_map_Some) (simp add: parse_csv_row [unfolded map_map])
  show ?thesis
    unfolding read_csv_def csv_text_lines [OF assms] list.case Let_def split_header [OF assms] names cells
    using vals columns_of_rows [OF assms] by (simp add: list_all_iff)
qed

lemma read_csv_to_csv: "frame_wf df \<Longrightarrow> read_csv (to_csv False df) = Some df"
  unfolding to_csv_def by (simp add: read_csv_csv_text)

text \<open>With pandas' default \<open>index=True\<close> the file would read back with an extra column.\<close>

lemma read_csv_to_csv_index:
  "read_csv (to_csv True create_df) = Some [(''Unnamed: 0'', [0, 1]), (''a'', [1, 2]), (''b'', [2, 3])]"
  by code_simp

subsection \<open>Properties\<close>

text \<open>
  C35. Round trip of the fixtures: for every well-formed frame of integer
  columns (non-empty, at least one row, distinct names without commas or
  newlines, equal column lengths), writing it as \<open>create_data\<close> does and
  reading the file back with \<open>read_csv\<close> gives the same frame, whatever the
  directory and the files already there. \<open>test_with_tmpdir_fixture\<close> checks
  this for \<open>create_df\<close>.
\<close>

theorem create_data_roundtrip:
  assumes "frame_wf df"
  shows "read_csv_file (snd (create_data tmpdir df fs)) (fst (create_data tmpdir df fs)) = Inr df"
  by (simp add: create_data_def read_csv_file_def read_csv_to_csv [OF assms] Let_def)

theorem create_data_roundtrip_witness:
  "frame_wf create_df \<and> test_with_tmpdir_fixture ''/tmp/pytest-0'' Map.empty = Passed"
proof -
  have wf: "frame_wf create_df" by (simp add: frame_wf_def create_df_def frame_rows_def)
  have "read_csv_file (snd (create_data ''/tmp/pytest-0'' create_df Map.empty))
          (fst (create_data ''/tmp/pytest-0'' create_df Map.empty)) = Inr create_df"
    by (rule create_data_roundtrip [OF wf])
  then show ?thesis
    using wf by (simp add: test_with_tmpdir_fixture_def assert_outcome_def split_def Let_def)
qed

end
