(* ===== verification/Trapezoid.thy ===== *)
theory Trapezoid
  imports Numerics
begin

text \<open>
  The two trapezoid-rule integrators of the exercises:
  \<open>integrate_using_trapezoidal_rule\<close> (\<open>src/doctest/solutions.py\<close>), which halves
  each pair sum before multiplying by the step, and \<open>integrate\<close>
  (\<open>src/pytest/solutions.py\<close>), which halves the total at the end. numpy arrays
  are real lists: \<open>x[:-1]\<close> is \<open>butlast\<close>, \<open>x[1:]\<close> is \<open>tl\<close>, elementwise
  arithmetic is \<open>map2\<close>, \<open>np.diff\<close> is \<open>np_diff\<close> and \<open>.sum()\<close> is
  \<open>sum_list\<close>; the callable is applied elementwise. The lemmas show that the two
  implementations agree, that both are exact for affine integrands (the
  doctests' and the tests' expected values), and that the rule is additive
  over grids that share an end point.
\<close>

definition np_diff :: "real list \<Rightarrow> real list" where
  "np_diff xs = map2 (\<lambda>a b. b - a) xs (tl xs)"

definition integrate_using_trapezoidal_rule :: "curve \<Rightarrow> real list \<Rightarrow> real" where
  "integrate_using_trapezoidal_rule fn x =
     (let fun_x = map fn x
      in sum_list (map2 (*) (map (\<lambda>v. v / 2) (map2 (+) (butlast fun_x) (tl fun_x))) (np_diff x)))"

definition integrate :: "curve \<Rightarrow> real list \<Rightarrow> real" where
  "integrate f x =
     (let y = map f x
      in sum_list (map2 (*) (map2 (+) (butlast y) (tl y)) (np_diff x)) / 2)"

text \<open>One trapezoid panel per pair of neighbouring grid points.\<close>

definition panels :: "curve \<Rightarrow> real list \<Rightarrow> real list" where
  "panels f x = map2 (\<lambda>a b. (f a + f b) * (b - a)) x (tl x)"

text \<open>The parametrised pytest \<open>test_integrate\<close> on \<open>np.linspace(0, 1, 100)\<close>.\<close>

definition test_integrate :: "curve \<Rightarrow> real \<Rightarrow> test_outcome" where
  "test_integrate fn integral =
     (let x = np_linspace 0 1 100 in assert_outcome (Inr (integrate fn x = integral)))"

lemma panels_Cons_Cons [simp]:
  "panels f (a # b # xs) = (f a + f b) * (b - a) # panels f (b # xs)"
  by (simp add: panels_def)

lemma panels_short [simp]: "panels f [] = []" "panels f [a] = []"
  by (simp_all add: panels_def)

lemma pairwise_panels:
  "map2 (*) (map2 (+) (butlast (map f xs)) (tl (map f xs))) (np_diff xs) = panels f xs"
  by (induction xs rule: induct_list012) (simp_all add: np_diff_def)

lemma pairwise_half_panels:
  "map2 (*) (map (\<lambda>v. v / 2) (map2 (+) (butlast (map f xs)) (tl (map f xs)))) (np_diff xs)
     = map (\<lambda>v. v / 2) (panels f xs)"
  by (induction xs rule: induct_list012) (simp_all add: np_diff_def)

lemma sum_list_half: "sum_list (map (\<lambda>v. v / 2) vs) = sum_list vs / (2::real)"
  by (induction vs) (simp_all add: add_divide_distrib)

lemma integrate_panels: "integrate f x = sum_list (panels f x) / 2"
  by (simp add: integrate_def pairwise_panels)

text \<open>Telescoping: panels whose value is a difference of a potential sum to its end values.\<close>

lemma sum_list_panels_telescope:
  assumes "\<And>a b. (f a + f b) * (b - a) = F b - F a" "xs \<noteq> []"
  shows "sum_list (panels f xs) = F (last xs) - F (hd xs)"
  using assms(2)
proof (induction xs rule: induct_list012)
  case (3 x y zs)
  then show ?case by (simp add: assms(1))
qed simp_all

lemma affine_panel:
  "((c * a + d) + (c * b + d)) * (b - a) =
     (c * b\<^sup>2 + 2 * d * b) - (c * a\<^sup>2 + 2 * d * a :: real)"
  by (simp add: power2_eq_square algebra_simps)

lemma hd_np_linspace: "2 \<le> n \<Longrightarrow> hd (np_linspace a b n) = a"
  by (cases n) (simp_all add: np_linspace_def upt_conv_Cons)

lemma last_np_linspace: "2 \<le> n \<Longrightarrow> last (np_linspace a b n) = b"
  by (simp add: np_linspace_def)

lemma sum_panels_affine:
  assumes "x \<noteq> []"
  shows "sum_list (panels (\<lambda>t. c * t + d) x) / 2 =
           c * ((last x)\<^sup>2 - (hd x)\<^sup>2) / 2 + d * (last x - hd x)"
proof -
  have tele: "sum_list (panels (\<lambda>t. c * t + d) x) =
          (c * (last x)\<^sup>2 + 2 * d * last x) - (c * (hd x)\<^sup>2 + 2 * d * hd x)"
    by (rule sum_list_panels_telescope [OF affine_panel assms])
  show ?thesis unfolding tele by (simp add: field_simps)
qed

lemma ends_np_linspace_01:
  "2 \<le> n \<Longrightarrow> np_linspace 0 1 n \<noteq> [] \<and> hd (np_linspace 0 1 n) = 0 \<and> last (np_linspace 0 1 n) = 1"
  by (simp add: hd_np_linspace last_np_linspace)

lemma trapezoid_rule_panels:
  "integrate_using_trapezoidal_rule f x = sum_list (panels f x) / 2"
  unfolding integrate_using_trapezoidal_rule_def Let_def pairwise_half_panels
  by (rule sum_list_half)

lemma panels_append:
  "panels f (xs @ [m]) @ panels f (m # ys) = panels f (xs @ m # ys)"
  by (induction xs rule: induct_list012) simp_all

subsection \<open>Properties\<close>

text \<open>
  C15. The doctest solution (halve each pair, then multiply by the step and
  sum) and the pytest solution (multiply, sum, halve the total) compute the same
  value on every grid, for every integrand.
\<close>

theorem trapezoid_implementations_agree:
  "integrate_using_trapezoidal_rule f x = integrate f x"
  by (simp only: trapezoid_rule_panels integrate_panels)

text \<open>
  C16. The trapezoid rule is exact for affine integrands on any non-empty grid
  (not necessarily uniform or increasing): it returns the integral from the
  first to the last grid point. This is what the doctests
  (\<open>2.0\<close> for the constant 2, \<open>0.5\<close> for the identity on \<open>linspace(0, 1, 10)\<close>)
  check.
\<close>

theorem trapezoid_exact_affine:
  assumes "x \<noteq> []"
  shows "integrate_using_trapezoidal_rule (\<lambda>t. c * t + d) x =
           c * ((last x)\<^sup>2 - (hd x)\<^sup>2) / 2 + d * (last x - hd x)"
  unfolding trapezoid_rule_panels by (rule sum_panels_affine [OF assms])

theorem trapezoid_exact_affine_witness:
  "integrate_using_trapezoidal_rule (\<lambda>t. 0 * t + 2) (np_linspace 0 1 10) = 2 \<and>
   integrate_using_trapezoidal_rule (\<lambda>t. 1 * t + 0) (np_linspace 0 1 10) = 1 / 2"
proof -
  have ne: "np_linspace 0 1 10 \<noteq> []" and ends: "hd (np_linspace 0 1 10) = 0"
      "last (np_linspace 0 1 10) = 1"
    using ends_np_linspace_01 [of 10] by simp_all
  show ?thesis
    using trapezoid_exact_affine [OF ne, of 0 2] trapezoid_exact_affine [OF ne, of 1 0]
    by (simp add: ends)
qed

text \<open>
  The rule is additive over grids that share an end point: integrating on
  \<open>xs @ [m]\<close> and on \<open>m # ys\<close> and adding gives the integral on the joined
  grid, the discrete counterpart of \<open>area(a, b) = area(a, m) + area(m, b)\<close>.
\<close>

theorem integrate_additive:
  "integrate f (xs @ [m]) + integrate f (m # ys) = integrate f (xs @ m # ys)"
proof -
  have "sum_list (panels f (xs @ [m])) + sum_list (panels f (m # ys)) =
          sum_list (panels f (xs @ m # ys))"
    using arg_cong [OF panels_append, of sum_list] by simp
  then show ?thesis
    unfolding integrate_panels by (simp add: add_divide_distrib [symmetric])
qed

text \<open>
  Both cases of the parametrised pytest \<open>test_integrate\<close> pass: on
  \<open>np.linspace(0, 1, 100)\<close> the integrator returns \<open>0.5\<close> for \<open>lambda x: x\<close> and
  \<open>1\<close> for \<open>lambda x: 0*x + 1\<close> (in exact arithmetic; the test compares floats
  with \<open>==\<close>).
\<close>

theorem test_integrate_cases:
  "test_integrate (\<lambda>x. x) (1 / 2) = Passed \<and> test_integrate (\<lambda>x. 0 * x + 1) 1 = Passed"
proof -
  have e: "np_linspace 0 1 100 \<noteq> []" "hd (np_linspace 0 1 100) = 0" "last (np_linspace 0 1 100) = 1"
    using ends_np_linspace_01 [of 100] by simp_all
  have id: "(\<lambda>x::real. x) = (\<lambda>t. 1 * t + 0)" by simp
  have "integrate (\<lambda>x. x) (np_linspace 0 1 100) = 1 / 2"
    unfolding integrate_panels id sum_panels_affine [OF e(1)] by (simp add: e)
  moreover have "integrate (\<lambda>x. 0 * x + 1) (np_linspace 0 1 100) = 1"
    unfolding integrate_panels sum_panels_affine [OF e(1)] by (simp add: e)
  ultimately show ?thesis by (simp add: test_integrate_def assert_outcome_def)
qed

end
