(* ===== verification/TestRunners.thy ===== *)
theory TestRunners
  imports MeanTests Doctests Fixtures Trapezoid
begin

text \<open>
  The \<open>__main__\<close> blocks of the tutorial scripts, which hand the module to a
  test runner: \<open>doctest.testmod()\<close> in \<open>src/doctest/intro_1_multiply.py\<close> and
  \<open>src/doctest/solutions.py\<close>, \<open>pytest.main([__file__])\<close> in
  \<open>src/pytest/solutions.py\<close> and in the five \<open>src/hypothesis/intro_mean_k.py\<close>.
  The runners are libraries, modelled from their documented behaviour:
  doctest runs every example of every docstring and compares the text it
  prints with the text the docstring expects (\<open>OutputChecker.check_output\<close>
  with the \<open>ELLIPSIS\<close> and \<open>NORMALIZE_WHITESPACE\<close> directives, and the last
  line of a traceback); it returns \<open>TestResults(failed, attempted)\<close>. A
  hypothesis test runs its explicit \<open>@example\<close>s, then the drawn examples,
  and raises \<open>Unsatisfiable\<close> when no drawn example got past \<open>assume\<close>;
  \<open>pytest.main\<close> returns the exit code of the session. Printed values are
  Python's \<open>repr\<close> of the model's values.
\<close>

section \<open>doctest\<close>

text \<open>
  What an example expects: printed output, or a traceback, represented by its
  last line (\<open>ZeroDivisionError: O.o\<close>), the only line doctest compares.
\<close>

datatype doctest_want = Output string | Traceback string

text \<open>
  An example: the text it prints, or the exception it raises; what it
  expects; and whether its \<open>+ELLIPSIS\<close> and \<open>+NORMALIZE_WHITESPACE\<close>
  directives are on. A statement (an assignment, a \<open>def\<close>) prints nothing and
  expects nothing.
\<close>

datatype doctest_example = Example "string result" doctest_want bool bool

definition doctest_stmt :: doctest_example where
  "doctest_stmt = Example (Inr []) (Output []) False False"

text \<open>\<open>want.split('...')\<close>.\<close>

fun split_ellipsis :: "string \<Rightarrow> string \<Rightarrow> string list" where
  "split_ellipsis acc [] = [rev acc]"
| "split_ellipsis acc (c # s) =
     (if take 3 (c # s) = ''...'' then rev acc # split_ellipsis [] (drop 2 s)
      else split_ellipsis (c # acc) s)"

text \<open>\<open>got.find(w, start, end)\<close>: the first position at or after \<open>start\<close> where \<open>w\<close> ends by \<open>end\<close>.\<close>

definition str_find :: "string \<Rightarrow> string \<Rightarrow> nat \<Rightarrow> nat \<Rightarrow> nat option" where
  "str_find got w s e = find (\<lambda>i. i + length w \<le> e \<and> take (length w) (drop i got) = w) [s..<Suc e]"

fun find_pieces :: "string \<Rightarrow> nat \<Rightarrow> nat \<Rightarrow> string list \<Rightarrow> bool" where
  "find_pieces got s e [] = True"
| "find_pieces got s e (w # ws) =
     (case str_find got w s e of None \<Rightarrow> False | Some i \<Rightarrow> find_pieces got (i + length w) e ws)"

text \<open>
  \<open>doctest._ellipsis_match(want, got)\<close>: without a marker the texts are
  compared; otherwise the first piece must start \<open>got\<close>, the last must end it
  without overlapping the first, and the pieces between are found left to
  right.
\<close>

definition ellipsis_match :: "string \<Rightarrow> string \<Rightarrow> bool" where
  "ellipsis_match want got =
     (let ws = split_ellipsis [] want
      in if length ws = 1 then want = got
         else let w0 = hd ws; wl = last ws;
                  s = (if w0 = [] then 0 else length w0);
                  e = (if wl = [] then length got else length got - length wl);
                  mid = (if wl = [] then id else butlast) ((if w0 = [] then id else tl) ws)
              in (w0 = [] \<or> take (length w0) got = w0) \<and>
                 (wl = [] \<or> drop (length got - length wl) got = wl) \<and>
                 s \<le> e \<and> find_pieces got s e mid)"

text \<open>\<open>' '.join(s.split())\<close>: runs of whitespace become one space, leading and trailing ones go.\<close>

definition is_space :: "char \<Rightarrow> bool" where
  "is_space c \<longleftrightarrow> c = CHR '' '' \<or> c = CHR ''\<newline>'' \<or> c = CHR 0x09 \<or> c = CHR 0x0B \<or>
                  c = CHR 0x0C \<or> c = CHR 0x0D"

fun py_words :: "string \<Rightarrow> string \<Rightarrow> string list" where
  "py_words acc [] = (if acc = [] then [] else [rev acc])"
| "py_words acc (c # s) =
     (if is_space c then (if acc = [] then py_words [] s else rev acc # py_words [] s)
      else py_words (c # acc) s)"

definition normalize_whitespace :: "string \<Rightarrow> string" where
  "normalize_whitespace s = join_with CHR '' '' (py_words [] s)"

text \<open>
  \<open>OutputChecker.check_output(want, got, optionflags)\<close>: equal texts, the
  \<open>True\<close>/\<open>1\<close> and \<open>False\<close>/\<open>0\<close> allowance, then the whitespace-normalised
  texts, then the ellipsis match on them.
\<close>

definition check_output :: "bool \<Rightarrow> bool \<Rightarrow> string \<Rightarrow> string \<Rightarrow> bool" where
  "check_output el nw want got =
     (got = want \<or> (got, want) = (''True\<newline>'', ''1\<newline>'') \<or> (got, want) = (''False\<newline>'', ''0\<newline>'') \<or>
      (let w = (if nw then normalize_whitespace want else want);
           g = (if nw then normalize_whitespace got else got)
       in (nw \<and> g = w) \<or> (el \<and> ellipsis_match w g)))"

text \<open>\<open>traceback.format_exception_only(e)[-1]\<close>.\<close>

fun exception_line :: "py_error \<Rightarrow> string" where
  "exception_line (ValueError m) = ''ValueError: '' @ m @ ''\<newline>''"
| "exception_line (RuntimeError m) = ''RuntimeError: '' @ m @ ''\<newline>''"
| "exception_line (ZeroDivisionError m) = ''ZeroDivisionError: '' @ m @ ''\<newline>''"
| "exception_line (TypeError m) = ''TypeError: '' @ m @ ''\<newline>''"
| "exception_line (FileNotFoundError m) = ''FileNotFoundError: '' @ m @ ''\<newline>''"
| "exception_line (Unsatisfiable m) = ''hypothesis.errors.Unsatisfiable: '' @ m @ ''\<newline>''"

text \<open>
  \<open>DocTestRunner.run\<close> on one example: printed output is checked against
  expected output, a raised exception's last traceback line against the
  expected one; an exception where output is expected, or output where a
  traceback is expected, fails the example.
\<close>

fun run_example :: "doctest_example \<Rightarrow> bool" where
  "run_example (Example (Inr got) (Output want) el nw) = check_output el nw want got"
| "run_example (Example (Inl e) (Traceback want) el nw) = check_output el nw want (exception_line e)"
| "run_example (Example _ _ _ _) = False"

record test_results =
  failed :: nat
  attempted :: nat

definition doctest_summary :: "doctest_example list \<Rightarrow> test_results" where
  "doctest_summary exs = \<lparr>failed = length (filter (\<lambda>x. \<not> run_example x) exs), attempted = length exs\<rparr>"

subsection \<open>\<open>repr\<close> of the values the doctests print\<close>

fun join_str :: "string \<Rightarrow> string list \<Rightarrow> string" where
  "join_str sep [] = []"
| "join_str sep [w] = w"
| "join_str sep (w # ws) = w @ sep @ join_str sep ws"

text \<open>\<open>repr\<close> of a string without quotes or backslashes in it.\<close>

definition repr_str :: "string \<Rightarrow> string" where
  "repr_str s = CHR 0x27 # s @ [CHR 0x27]"

definition pad_left :: "nat \<Rightarrow> string \<Rightarrow> string" where
  "pad_left k s = replicate (k - length s) CHR ''0'' @ s"

text \<open>
  \<open>repr\<close> of a float in fixed notation: the fewest fractional digits (at
  least one, at most 17) that give the value exactly, else 17 digits
  truncated. Python prints the shortest text that reads back as the same
  double; the two agree on the values printed here and on the leading digits
  an ellipsis pattern inspects.
\<close>

definition exact_digits :: "real \<Rightarrow> nat \<Rightarrow> bool" where
  "exact_digits v k \<longleftrightarrow> of_int \<lfloor>v * 10 ^ k\<rfloor> = v * 10 ^ k"

definition frac_digits :: "real \<Rightarrow> nat" where
  "frac_digits v = (case find (exact_digits v) [1..<17] of Some k \<Rightarrow> k | None \<Rightarrow> 17)"

definition fixed_point :: "nat \<Rightarrow> nat \<Rightarrow> string" where
  "fixed_point k n = show_nat (n div 10 ^ k) @ CHR ''.'' # pad_left k (show_nat (n mod 10 ^ k))"

definition py_float_repr :: "real \<Rightarrow> string" where
  "py_float_repr v =
     (let a = \<bar>v\<bar>; k = frac_digits a; s = fixed_point k (nat \<lfloor>a * 10 ^ k\<rfloor>)
      in if v < 0 then CHR ''-'' # s else s)"

text \<open>\<open>'{:.4f}'.format(v)\<close>, rounding as \<open>format_4f\<close> does.\<close>

definition format_4f_str :: "real \<Rightarrow> string" where
  "format_4f_str v = (let s = fixed_point 4 (nat (format_4f \<bar>v\<bar>)) in if v < 0 then CHR ''-'' # s else s)"

fun py_repr :: "pyval \<Rightarrow> string" where
  "py_repr (PInt i) = show_int i"
| "py_repr (PFloat x) = py_float_repr x"
| "py_repr (PStr s) = repr_str s"
| "py_repr (PList vs) = CHR ''['' # join_str '', '' (map py_repr vs) @ '']''"

definition py_bool_repr :: "bool \<Rightarrow> string" where
  "py_bool_repr b = (if b then ''True'' else ''False'')"

text \<open>\<open>repr\<close> of a list of \<open>(str, int)\<close> pairs, as \<open>sorted(d.items())\<close> prints.\<close>

definition repr_items :: "(string \<times> int) list \<Rightarrow> string" where
  "repr_items kvs =
     CHR ''['' # join_str '', '' (map (\<lambda>(k, v). CHR ''('' # repr_str k @ '', '' @ show_int v @ '')'') kvs) @ '']''"

text \<open>The text the interpreter prints for an expression statement: the \<open>repr\<close> and a newline.\<close>

definition shown :: "('a \<Rightarrow> string) \<Rightarrow> 'a result \<Rightarrow> string result" where
  "shown r m = rbind m (\<lambda>v. Inr (r v @ ''\<newline>''))"

subsection \<open>The doctests of the two modules\<close>

text \<open>
  The examples of \<open>src/doctest/intro_1_multiply.py\<close> in the order doctest runs
  them (the module docstring, then \<open>multiply\<close>'s), each with the text its
  docstring expects: \<open>multiply(6, 7)\<close> expects \<open>42\<close> followed by three spaces.
\<close>

definition intro_1_examples :: "doctest_example list" where
  "intro_1_examples =
     [Example (shown py_repr (multiply (PInt 1) (PInt 2))) (Output ''2\<newline>'') False False,
      Example (shown py_repr (multiply (PList [PInt 3]) (PInt 3))) (Output ''[3, 3, 3]\<newline>'') False False,
      Example (shown py_repr (multiply (PInt 6) (PInt 7))) (Output ''42   \<newline>'') False False]"

definition testmod_intro_1_multiply :: test_results where
  "testmod_intro_1_multiply = doctest_summary intro_1_examples"

text \<open>
  The examples of \<open>src/doctest/solutions.py\<close>, one group per docstring. What
  the interpreter prints for the axes \<open>fancy_plot\<close> returns, and for the
  numpy scalar \<open>integrate_using_trapezoidal_rule\<close> returns, depends on the
  installed matplotlib and numpy: they are the parameters \<open>axes_repr\<close> and
  \<open>f64_repr\<close>.
\<close>

definition fancy_plot_want :: string where
  "fancy_plot_want = ''<matplotlib.axes._subplots.AxesSubplot ... at ...>\<newline>''"

definition fancy_plot_examples :: "string \<Rightarrow> doctest_example list" where
  "fancy_plot_examples axes_repr = [Example (Inr (axes_repr @ ''\<newline>'')) (Output fancy_plot_want) True False]"

definition trapezoid_examples :: "(real \<Rightarrow> string) \<Rightarrow> doctest_example list" where
  "trapezoid_examples f64_repr =
     [doctest_stmt, doctest_stmt,
      Example (Inr (f64_repr (integrate_using_trapezoidal_rule (\<lambda>x. 0 * x + 2) (np_linspace 0 1 10)) @ ''\<newline>''))
        (Output ''2.0\<newline>'') False False,
      doctest_stmt, doctest_stmt,
      Example (Inr (f64_repr (integrate_using_trapezoidal_rule (\<lambda>x. x) (np_linspace 0 1 10)) @ ''\<newline>''))
        (Output ''0.5\<newline>'') False False]"

definition many_digit_examples :: "doctest_example list" where
  "many_digit_examples =
     [Example (Inr (format_4f_str many_digit_number @ ''\<newline>'')) (Output ''0.0238\<newline>'') False False,
      Example (Inr (py_float_repr many_digit_number @ ''\<newline>'')) (Output ''0.02380...\<newline>'') True False]"

definition multiply_solutions_examples :: "doctest_example list" where
  "multiply_solutions_examples =
     [Example (shown py_repr (multiply_solutions (PList [PStr ''A'', PStr ''B'']) (PInt 2)))
        (Output (''['' @ repr_str ''A'' @ '', '' @ repr_str ''B'' @ '',\<newline> '' @ repr_str ''A'' @ '', '' @
                 repr_str ''B'' @ '']    \<newline>'')) False True,
      Example (shown py_repr (multiply_solutions (PList [PStr ''A'', PStr ''B'']) (PInt 2)))
        (Output (''['' @ repr_str ''A'' @ '', '' @ repr_str ''B'' @ '', '' @ repr_str ''A'' @ '', '' @
                 repr_str ''B'' @ '']\<newline>'')) False False]"

definition some_exception_examples :: "doctest_example list" where
  "some_exception_examples =
     [Example (rbind some_exception (\<lambda>_. Inr [])) (Traceback ''ZeroDivisionError: O.o\<newline>'') False False]"

definition unordered_examples :: "doctest_example list" where
  "unordered_examples =
     [Example (Inr (py_bool_repr (dict_eq unordered_return_value [(''a'', 1), (''b'', 2)]) @ ''\<newline>''))
        (Output ''True\<newline>'') False False,
      Example (Inr (repr_items (sort unordered_return_value) @ ''\<newline>''))
        (Output (''[('' @ repr_str ''a'' @ '', 1), ('' @ repr_str ''b'' @ '', 2)]\<newline>'')) False False]"

text \<open>\<open>doctest.testmod()\<close> runs the docstrings sorted by name.\<close>

definition testmod_solutions :: "string \<Rightarrow> (real \<Rightarrow> string) \<Rightarrow> test_results" where
  "testmod_solutions axes_repr f64_repr =
     doctest_summary (fancy_plot_examples axes_repr @ trapezoid_examples f64_repr @ many_digit_examples @
                      multiply_solutions_examples @ some_exception_examples @ unordered_examples)"

text \<open>numpy 2 prints a scalar with its type: \<open>np.float64(2.0)\<close>.\<close>

definition numpy2_repr :: "real \<Rightarrow> string" where
  "numpy2_repr v = ''np.float64('' @ py_float_repr v @ '')''"

section \<open>hypothesis and pytest\<close>

text \<open>
  \<open>@example\<close>s run first: one that fails or errors ends the test with that
  outcome, one that \<open>assume\<close> rejects is skipped.
\<close>

fun run_explicit :: "('a \<Rightarrow> test_outcome) \<Rightarrow> 'a list \<Rightarrow> test_outcome option" where
  "run_explicit test [] = None"
| "run_explicit test (x # xs) =
     (case test x of Passed \<Rightarrow> run_explicit test xs | Rejected \<Rightarrow> run_explicit test xs | r \<Rightarrow> Some r)"

text \<open>
  The drawn examples, in order: the first failure or error ends the test;
  \<open>valid\<close> records whether some example got past \<open>assume\<close>, and if none did the
  test raises \<open>Unsatisfiable\<close>.
\<close>

fun run_draws :: "('a \<Rightarrow> test_outcome) \<Rightarrow> bool \<Rightarrow> 'a list \<Rightarrow> test_outcome" where
  "run_draws test valid [] =
     (if valid then Passed else Errored (Unsatisfiable ''Unable to satisfy assumptions of test_mean''))"
| "run_draws test valid (x # xs) =
     (case test x of Passed \<Rightarrow> run_draws test True xs | Rejected \<Rightarrow> run_draws test valid xs | r \<Rightarrow> r)"

definition hypothesis_given :: "('a \<Rightarrow> test_outcome) \<Rightarrow> 'a list \<Rightarrow> 'a list \<Rightarrow> test_outcome" where
  "hypothesis_given test examples draws =
     (case run_explicit test examples of Some r \<Rightarrow> r | None \<Rightarrow> run_draws test False draws)"

text \<open>\<open>pytest.ExitCode\<close>: \<open>OK\<close> (0), \<open>TESTS_FAILED\<close> (1), \<open>NO_TESTS_COLLECTED\<close> (5).\<close>

datatype exit_code = ExitOK | TestsFailed | NoTestsCollected

definition pytest_main :: "test_outcome list \<Rightarrow> exit_code" where
  "pytest_main outcomes =
     (if outcomes = [] then NoTestsCollected
      else if list_all (\<lambda>r. r = Passed) outcomes then ExitOK else TestsFailed)"

text \<open>
  \<open>pytest.main([__file__])\<close> of each \<open>intro_mean_k.py\<close> collects its one test
  \<open>test_mean\<close>; \<open>draws\<close> are the lists hypothesis generates for it.
\<close>

definition pytest_main_mean_0 :: "pyfloat list list \<Rightarrow> exit_code" where
  "pytest_main_mean_0 draws = pytest_main [hypothesis_given test_mean_0 [] draws]"

definition pytest_main_mean_1 :: "pyfloat list list \<Rightarrow> exit_code" where
  "pytest_main_mean_1 draws = pytest_main [hypothesis_given test_mean_1 [] draws]"

definition pytest_main_mean_2 :: "pyfloat list list \<Rightarrow> exit_code" where
  "pytest_main_mean_2 draws = pytest_main [hypothesis_given test_mean_2 [] draws]"

definition pytest_main_mean_3 :: "pyfloat list list \<Rightarrow> exit_code" where
  "pytest_main_mean_3 draws = pytest_main [hypothesis_given test_mean_3 [] draws]"

definition pytest_main_mean_4 :: "pyfloat list list \<Rightarrow> exit_code" where
  "pytest_main_mean_4 draws = pytest_main [hypothesis_given test_mean_4 [example_mean_4] draws]"

text \<open>
  The parameters of \<open>test_integrate\<close>, and the session of
  \<open>src/pytest/solutions.py\<close>: its four tests in file order, the
  parametrised one once per case; \<open>tmpdir\<close> and \<open>fs\<close> are pytest's fresh
  directory and the files present.
\<close>

definition integrate_params :: "(curve \<times> real) list" where
  "integrate_params = [(\<lambda>x. x, 1 / 2), (\<lambda>x. 0 * x + 1, 1)]"

definition pytest_main_solutions :: "string \<Rightarrow> files \<Rightarrow> exit_code" where
  "pytest_main_solutions tmpdir fs =
     pytest_main (test_with_tmpdir_fixture tmpdir fs # map (\<lambda>(f, i). test_integrate f i) integrate_params @
                  [test_some_exception])"

subsection \<open>Lemmas\<close>

lemma run_explicit_None:
  "run_explicit test xs = None \<longleftrightarrow> (\<forall>x\<in>set xs. test x = Passed \<or> test x = Rejected)"
  by (induction xs) (auto split: test_outcome.split)

lemma run_explicit_Some: "run_explicit test xs = Some r \<Longrightarrow> r \<noteq> Passed"
  by (induction xs) (auto split: test_outcome.splits)

lemma run_draws_Passed:
  "run_draws test v xs = Passed \<longleftrightarrow>
     (\<forall>x\<in>set xs. test x = Passed \<or> test x = Rejected) \<and> (v \<or> (\<exists>x\<in>set xs. test x = Passed))"
  by (induction xs arbitrary: v) (auto split: test_outcome.split)

lemma hypothesis_given_Passed:
  "hypothesis_given test examples draws = Passed \<longleftrightarrow>
     (\<forall>x\<in>set examples. test x = Passed \<or> test x = Rejected) \<and>
     (\<forall>x\<in>set draws. test x = Passed \<or> test x = Rejected) \<and> (\<exists>x\<in>set draws. test x = Passed)"
  using run_explicit_None [of test examples] run_explicit_Some [of test examples]
  by (auto simp: hypothesis_given_def run_draws_Passed split: option.split)

lemma pytest_main_single [simp]: "pytest_main [r] = ExitOK \<longleftrightarrow> r = Passed"
  by (simp add: pytest_main_def)

lemma pytest_main_single_failed: "pytest_main [r] = TestsFailed \<longleftrightarrow> r \<noteq> Passed"
  by (simp add: pytest_main_def)

text \<open>A drawn example that fails or errors fails the session, whatever the others do.\<close>

lemma session_fails:
  assumes "x \<in> set draws" "test x \<noteq> Passed" "test x \<noteq> Rejected"
  shows "pytest_main [hypothesis_given test examples draws] = TestsFailed"
  using assms by (simp only: pytest_main_single_failed hypothesis_given_Passed) blast

text \<open>When \<open>assume\<close> rejects every drawn example, hypothesis raises \<open>Unsatisfiable\<close>.\<close>

lemma session_unsatisfiable:
  assumes "\<forall>x\<in>set draws. test x = Rejected"
  shows "pytest_main [hypothesis_given test examples draws] = TestsFailed"
  using assms by (simp only: pytest_main_single_failed hypothesis_given_Passed) fastforce

lemma test_mean_0_Nil: "test_mean_0 [] = Errored (ValueError ''min() arg is an empty sequence'')"
  by (simp add: test_mean_0_def assert_outcome_def chain_le_def rbind_def)

lemma example_mean_4_given: "given_mean_3 example_mean_4"
  using is_double_01 by (simp add: given_mean_3_def example_mean_4_eq)

lemma digit_chars: "digit_char 0 = CHR ''0''" "digit_char 1 = CHR ''1''" "digit_char 2 = CHR ''2''"
  "digit_char 3 = CHR ''3''" "digit_char 4 = CHR ''4''" "digit_char 5 = CHR ''5''"
  "digit_char 6 = CHR ''6''" "digit_char 7 = CHR ''7''" "digit_char 8 = CHR ''8''" "digit_char 9 = CHR ''9''" "digit_char (Suc 0) = CHR ''1''"
  by (simp_all add: digit_char_def char_of_def bit_0)

lemma doctest_summary_append:
  "doctest_summary (xs @ ys) =
     \<lparr>failed = failed (doctest_summary xs) + failed (doctest_summary ys),
      attempted = attempted (doctest_summary xs) + attempted (doctest_summary ys)\<rparr>"
  by (simp add: doctest_summary_def)

lemma run_example_stmt [simp]: "run_example doctest_stmt"
  by (simp add: doctest_stmt_def check_output_def)

lemma intro_1_examples_eval:
  "intro_1_examples =
     [Example (Inr ''2\<newline>'') (Output ''2\<newline>'') False False,
      Example (Inr ''[3, 3, 3]\<newline>'') (Output ''[3, 3, 3]\<newline>'') False False,
      Example (Inr ''42\<newline>'') (Output ''42   \<newline>'') False False]"
  using multiply_doctests
  by (simp add: intro_1_examples_def shown_def rbind_def show_int_def show_nat.simps digit_chars)

lemma seven_dvd_10_mult: "(7::int) dvd 10 * y \<Longrightarrow> 7 dvd y"
proof -
  assume "(7::int) dvd 10 * y"
  then obtain q where q: "10 * y = 7 * q" by (elim dvdE)
  have "y = 7 * (5 * q - 7 * y)" using q by simp
  then show "7 dvd y" by (rule dvdI)
qed

lemma seven_not_dvd_pow10: "\<not> (7::int) dvd 10 ^ k"
  by (induction k) (auto dest: seven_dvd_10_mult)

lemma exact_digits_1_42_dvd: "exact_digits (1 / 42) k \<Longrightarrow> (7::int) dvd 10 ^ k"
proof -
  assume "exact_digits (1 / 42) k"
  then obtain m where m: "of_int m = (1 / 42 :: real) * 10 ^ k" unfolding exact_digits_def by blast
  then have "(of_int (42 * m) :: real) = of_int (10 ^ k)" by simp
  then have "42 * m = 10 ^ k" by (simp only: of_int_eq_iff)
  then have "10 ^ k = 7 * (6 * m)" by simp
  then show "(7::int) dvd 10 ^ k" by (rule dvdI)
qed

lemma py_float_repr_1_42: "py_float_repr (1 / 42) = ''0.02380952380952380''"
proof -
  have "find (exact_digits (1 / 42)) [1..<17] = None"
    using exact_digits_1_42_dvd seven_not_dvd_pow10 by (simp only: find_None_iff) blast
  then have k: "frac_digits (1 / 42) = 17" by (simp add: frac_digits_def)
  have a: "\<bar>1 / 42 :: real\<bar> = 1 / 42" by simp
  have fl: "nat \<lfloor>1 / 42 * 10 ^ 17 :: real\<rfloor> = 2380952380952380" by (simp add: floor_eq_iff)
  have "py_float_repr (1 / 42) = fixed_point 17 2380952380952380"
    unfolding py_float_repr_def Let_def a k fl by simp
  also have "\<dots> = ''0.02380952380952380''"
    by (simp add: fixed_point_def pad_left_def show_nat.simps digit_chars)
  finally show ?thesis .
qed

lemma py_float_repr_short: "py_float_repr 2 = ''2.0''" "py_float_repr (1 / 2) = ''0.5''"
  by code_simp+

lemma fancy_plot_example:
  "check_output True False fancy_plot_want g \<longleftrightarrow> ellipsis_match fancy_plot_want g"
proof -
  have self: "ellipsis_match fancy_plot_want fancy_plot_want" unfolding fancy_plot_want_def by code_simp
  have "fancy_plot_want \<noteq> ''1\<newline>''" "fancy_plot_want \<noteq> ''0\<newline>''" by (simp_all add: fancy_plot_want_def)
  with self show ?thesis by (auto simp: check_output_def)
qed

lemma trapezoid_doctest_values:
  "integrate_using_trapezoidal_rule (\<lambda>x. 0 * x + 2) (np_linspace 0 1 10) = 2"
  "integrate_using_trapezoidal_rule (\<lambda>x. x) (np_linspace 0 1 10) = 1 / 2"
proof -
  have e: "np_linspace 0 1 10 \<noteq> []" "hd (np_linspace 0 1 10) = 0" "last (np_linspace 0 1 10) = 1"
    using ends_np_linspace_01 [of 10] by simp_all
  have id: "(\<lambda>x::real. x) = (\<lambda>t. 1 * t + 0)" by simp
  show "integrate_using_trapezoidal_rule (\<lambda>x. 0 * x + 2) (np_linspace 0 1 10) = 2"
    unfolding trapezoid_rule_panels sum_panels_affine [OF e(1)] by (simp add: e)
  show "integrate_using_trapezoidal_rule (\<lambda>x. x) (np_linspace 0 1 10) = 1 / 2"
    unfolding trapezoid_rule_panels id sum_panels_affine [OF e(1)] by (simp add: e)
qed

lemma trapezoid_examples_legacy: "doctest_summary (trapezoid_examples py_float_repr) = \<lparr>failed = 0, attempted = 6\<rparr>"
  unfolding trapezoid_examples_def trapezoid_doctest_values
  by (simp add: doctest_summary_def py_float_repr_short check_output_def)

lemma trapezoid_examples_numpy2: "doctest_summary (trapezoid_examples numpy2_repr) = \<lparr>failed = 2, attempted = 6\<rparr>"
  unfolding trapezoid_examples_def trapezoid_doctest_values
  by (simp add: doctest_summary_def numpy2_repr_def py_float_repr_short check_output_def)

lemma many_digit_examples_pass: "doctest_summary many_digit_examples = \<lparr>failed = 0, attempted = 2\<rparr>"
proof -
  have f: "format_4f_str (1 / 42) = ''0.0238''"
    by (simp add: format_4f_str_def format_4f_def round_def floor_eq_iff fixed_point_def pad_left_def
        show_nat.simps digit_chars)
  have "ellipsis_match ''0.02380...\<newline>'' ''0.02380952380952380\<newline>''" by code_simp
  then show ?thesis
    by (simp add: many_digit_examples_def doctest_summary_def many_digit_number_def f py_float_repr_1_42
        check_output_def)
qed

lemma multiply_solutions_examples_pass:
  "doctest_summary multiply_solutions_examples = \<lparr>failed = 0, attempted = 2\<rparr>"
proof -
  have v: "shown py_repr (multiply_solutions (PList [PStr ''A'', PStr ''B'']) (PInt 2)) =
             Inr (''['' @ repr_str ''A'' @ '', '' @ repr_str ''B'' @ '', '' @ repr_str ''A'' @ '', '' @
                  repr_str ''B'' @ '']\<newline>'')"
    using multiply_doctests by (simp add: shown_def rbind_def)
  have "check_output False True
          (''['' @ repr_str ''A'' @ '', '' @ repr_str ''B'' @ '',\<newline> '' @ repr_str ''A'' @ '', '' @
           repr_str ''B'' @ '']    \<newline>'')
          (''['' @ repr_str ''A'' @ '', '' @ repr_str ''B'' @ '', '' @ repr_str ''A'' @ '', '' @
           repr_str ''B'' @ '']\<newline>'')"
    by code_simp
  then show ?thesis
    by (simp add: multiply_solutions_examples_def doctest_summary_def v check_output_def)
qed

lemma some_exception_examples_pass: "doctest_summary some_exception_examples = \<lparr>failed = 0, attempted = 1\<rparr>"
  by (simp add: some_exception_examples_def doctest_summary_def some_exception_def rbind_def check_output_def)

lemma unordered_examples_pass: "doctest_summary unordered_examples = \<lparr>failed = 0, attempted = 2\<rparr>"
proof -
  have d: "dict_eq unordered_return_value [(''a'', 1), (''b'', 2)]"
    "sort unordered_return_value = [(''a'', 1), (''b'', 2)]"
    using dict_eq_iff_sorted_items_witness by simp_all
  have "repr_items [(''a'', 1), (''b'', 2)] = ''[('' @ repr_str ''a'' @ '', 1), ('' @ repr_str ''b'' @ '', 2)]''"
    by (simp add: repr_items_def show_int_def show_nat.simps digit_chars)
  then show ?thesis
    by (simp add: unordered_examples_def doctest_summary_def d py_bool_repr_def check_output_def)
qed

lemma frame_wf_create_df: "frame_wf create_df"
  by (simp add: frame_wf_def create_df_def frame_rows_def)

lemma test_with_tmpdir_fixture_passes: "test_with_tmpdir_fixture tmpdir fs = Passed"
  using read_csv_to_csv [OF frame_wf_create_df]
  by (simp add: test_with_tmpdir_fixture_def create_data_def read_csv_file_def assert_outcome_def
      split_def Let_def)

subsection \<open>Properties\<close>

text \<open>
  \<open>doctest.testmod()\<close> of \<open>intro_1_multiply.py\<close> attempts three examples
  and reports one failure: \<open>multiply(6, 7)\<close> prints \<open>42\<close>, but its docstring
  expects \<open>42\<close> followed by three spaces, and doctest compares the text
  exactly. The other two examples pass.
\<close>

lemma testmod_intro_1_multiply_results:
  "testmod_intro_1_multiply = \<lparr>failed = 1, attempted = 3\<rparr> \<and>
   filter (\<lambda>e. \<not> run_example e) intro_1_examples = [Example (Inr ''42\<newline>'') (Output ''42   \<newline>'') False False]"
  by (simp add: testmod_intro_1_multiply_def doctest_summary_def intro_1_examples_eval check_output_def)

text \<open>
  \<open>doctest.testmod()\<close> of \<open>src/doctest/solutions.py\<close>, with numpy
  printing its scalars as Python floats: 14 examples, all passing except
  possibly the one of \<open>fancy_plot\<close>, which fails exactly when the printed
  axes do not match \<open><matplotlib.axes._subplots.AxesSubplot ... at ...>\<close>.
  The default object repr matches it; the repr \<open><Axes: >\<close> of current
  matplotlib does not.
\<close>

lemma testmod_solutions_results:
  "testmod_solutions axes_repr py_float_repr =
     \<lparr>failed = (if ellipsis_match fancy_plot_want (axes_repr @ ''\<newline>'') then 0 else 1), attempted = 14\<rparr> \<and>
   ellipsis_match fancy_plot_want ''<matplotlib.axes._subplots.AxesSubplot object at 0x7f0e5c2d4a90>\<newline>'' \<and>
   \<not> ellipsis_match fancy_plot_want ''<Axes: >\<newline>''"
proof (intro conjI)
  have "doctest_summary (fancy_plot_examples axes_repr) =
          \<lparr>failed = (if ellipsis_match fancy_plot_want (axes_repr @ ''\<newline>'') then 0 else 1), attempted = 1\<rparr>"
    by (simp add: fancy_plot_examples_def doctest_summary_def fancy_plot_example)
  then show "testmod_solutions axes_repr py_float_repr =
     \<lparr>failed = (if ellipsis_match fancy_plot_want (axes_repr @ ''\<newline>'') then 0 else 1), attempted = 14\<rparr>"
    by (simp add: testmod_solutions_def doctest_summary_append trapezoid_examples_legacy many_digit_examples_pass
        multiply_solutions_examples_pass some_exception_examples_pass unordered_examples_pass)
  show "ellipsis_match fancy_plot_want ''<matplotlib.axes._subplots.AxesSubplot object at 0x7f0e5c2d4a90>\<newline>''"
    unfolding fancy_plot_want_def by code_simp
  show "\<not> ellipsis_match fancy_plot_want ''<Axes: >\<newline>''"
    unfolding fancy_plot_want_def by code_simp
qed

text \<open>
  \<open>pytest.main([__file__])\<close> of \<open>src/pytest/solutions.py\<close> exits with
  \<open>OK\<close> whatever the temporary directory and the files already in it: the
  fixture test, both cases of \<open>test_integrate\<close> and \<open>test_some_exception\<close> pass.
\<close>

lemma pytest_main_solutions_passes: "pytest_main_solutions tmpdir fs = ExitOK"
proof -
  have "test_integrate (\<lambda>x. x) (1 / 2) = Passed" "test_integrate (\<lambda>x. 0 * x + 1) 1 = Passed"
    using test_integrate_cases by simp_all
  moreover have "test_some_exception = Passed" using exception_tests_pass by simp
  ultimately show ?thesis
    by (simp add: pytest_main_solutions_def pytest_main_def integrate_params_def test_with_tmpdir_fixture_passes)
qed

text \<open>
  C25. The pytest sessions of the hypothesis tutorial, for the lists
  hypothesis draws. \<open>intro_mean_4.py\<close> exits \<open>OK\<close> exactly when some draw is
  non-empty, as long as every draw is at most \<open>2^20\<close> floats in \<open>[-1, 1]\<close>:
  its explicit example \<open>[0.1, 0.1, 0.1]\<close> passes and does not count as a
  drawn one. \<open>intro_mean_3.py\<close> fails as soon as it draws \<open>[0.1, 0.1, 0.1]\<close>.
  \<open>intro_mean_0.py\<close> to \<open>intro_mean_2.py\<close> fail as soon as a draw holds
  \<open>nan\<close> or both infinities, \<open>intro_mean_0.py\<close> also on a drawn empty list
  (\<open>ValueError\<close>), and \<open>intro_mean_1.py\<close> fails with \<open>Unsatisfiable\<close> when
  every draw is empty.
\<close>

theorem hypothesis_sessions:
  assumes "\<forall>x\<in>set d4. \<exists>rs. x = map Fin rs \<and> length rs \<le> 2 ^ 20 \<and> (\<forall>r\<in>set rs. \<bar>r\<bar> \<le> 1)"
  shows "(pytest_main_mean_4 d4 = ExitOK \<longleftrightarrow> (\<exists>x\<in>set d4. x \<noteq> [])) \<and>
         (example_mean_4 \<in> set d3 \<longrightarrow> pytest_main_mean_3 d3 = TestsFailed) \<and>
         ((\<exists>x\<in>set d0. x = [] \<or> mean_fails x) \<longrightarrow> pytest_main_mean_0 d0 = TestsFailed) \<and>
         ((\<exists>x\<in>set d1. mean_fails x) \<longrightarrow> pytest_main_mean_1 d1 = TestsFailed) \<and>
         ((\<exists>x\<in>set d2. mean_fails x) \<longrightarrow> pytest_main_mean_2 d2 = TestsFailed) \<and>
         ((\<forall>x\<in>set d1. x = []) \<longrightarrow> pytest_main_mean_1 d1 = TestsFailed)"
proof (intro conjI impI)
  have t4: "test_mean_4 x = (if x = [] then Rejected else Passed)" if x: "x \<in> set d4" for x
  proof -
    obtain rs where rs: "x = map Fin rs" "length rs \<le> 2 ^ 20" "\<forall>r\<in>set rs. \<bar>r\<bar> \<le> 1"
      using assms x by blast
    have "real (length rs) \<le> real ((2::nat) ^ 20)" using rs(2) by (simp only: of_nat_le_iff)
    then have "real (length rs) * 1 \<le> 2 ^ 20" by simp
    then show ?thesis using test_mean_4_bounded [OF rs(2,3)] rs(1) by simp
  qed
  have ex: "test_mean_4 example_mean_4 = Passed"
    using test_mean_4_bounded [of "[7205759403792794 / 2 ^ 56, 7205759403792794 / 2 ^ 56, 7205759403792794 / 2 ^ 56]" 1]
    by (simp add: example_mean_4_eq)
  show "pytest_main_mean_4 d4 = ExitOK \<longleftrightarrow> (\<exists>x\<in>set d4. x \<noteq> [])"
    unfolding pytest_main_mean_4_def pytest_main_single hypothesis_given_Passed using ex t4 by auto
  show "pytest_main_mean_3 d3 = TestsFailed" if "example_mean_4 \<in> set d3"
    unfolding pytest_main_mean_3_def using session_fails [OF that] test_mean_3_example by simp
  show "pytest_main_mean_0 d0 = TestsFailed" if d0: "\<exists>x\<in>set d0. x = [] \<or> mean_fails x"
  proof -
    obtain x where x: "x \<in> set d0" "x = [] \<or> mean_fails x" using d0 by blast
    have "test_mean_0 x \<noteq> Passed \<and> test_mean_0 x \<noteq> Rejected"
      using x(2) test_mean_0_Nil test_body_mean_fails(1) by auto
    then show ?thesis unfolding pytest_main_mean_0_def using session_fails [OF x(1)] by blast
  qed
  show "pytest_main_mean_1 d1 = TestsFailed" if "\<exists>x\<in>set d1. mean_fails x"
    unfolding pytest_main_mean_1_def using that session_fails test_body_mean_fails(2) by fastforce
  show "pytest_main_mean_2 d2 = TestsFailed" if "\<exists>x\<in>set d2. mean_fails x"
    unfolding pytest_main_mean_2_def using that session_fails test_body_mean_fails(3) by fastforce
  show "pytest_main_mean_1 d1 = TestsFailed" if "\<forall>x\<in>set d1. x = []"
    unfolding pytest_main_mean_1_def using that by (intro session_unsatisfiable) (simp add: test_mean_1_def)
qed

theorem hypothesis_sessions_witness:
  "(\<exists>x\<in>set [[], [Fin 1]]. x \<noteq> []) \<and> pytest_main_mean_4 [[], [Fin 1]] = ExitOK \<and>
   pytest_main_mean_3 [[Fin 2], example_mean_4] = TestsFailed \<and>
   pytest_main_mean_0 [[Fin 1], []] = TestsFailed \<and>
   mean_fails [Fin 1, NaN] \<and> pytest_main_mean_1 [[Fin 1], [Fin 1, NaN]] = TestsFailed \<and>
   mean_fails [Inf, NInf] \<and> pytest_main_mean_2 [[Inf, NInf]] = TestsFailed \<and>
   pytest_main_mean_1 [[], []] = TestsFailed"
proof -
  have d4: "\<forall>x\<in>set [[], [Fin 1]]. \<exists>rs. x = map Fin rs \<and> length rs \<le> 2 ^ 20 \<and> (\<forall>r\<in>set rs. \<bar>r\<bar> \<le> 1)"
  proof -
    have "[] = map Fin [] \<and> length ([] :: real list) \<le> 2 ^ 20 \<and> (\<forall>r\<in>set []. \<bar>r :: real\<bar> \<le> 1)" by simp
    moreover have "[Fin 1] = map Fin [1] \<and> length [1 :: real] \<le> 2 ^ 20 \<and> (\<forall>r\<in>set [1]. \<bar>r :: real\<bar> \<le> 1)" by simp
    ultimately show ?thesis by (auto simp only: list.set insert_iff empty_iff)
  qed
  have m: "mean_fails [Fin 1, NaN]" "mean_fails [Inf, NInf]" by (simp_all add: mean_fails_def both_infinities_def)
  note a = hypothesis_sessions [OF d4, of "[[Fin 2], example_mean_4]" "[[Fin 1], []]" "[[Fin 1], [Fin 1, NaN]]" "[[Inf, NInf]]"]
  note b = hypothesis_sessions [OF d4, of "[]" "[]" "[[], []]" "[]"]
  show ?thesis using a b m by simp
qed

text \<open>
  Under numpy 2, which prints a scalar as \<open>np.float64(2.0)\<close>, both
  trapezoid doctests of \<open>solutions.py\<close> fail.
\<close>

lemma testmod_solutions_numpy2:
  "failed (testmod_solutions axes_repr numpy2_repr) =
     (if ellipsis_match fancy_plot_want (axes_repr @ ''\<newline>'') then 0 else 1) + 2"
proof -
  have "doctest_summary (fancy_plot_examples axes_repr) =
          \<lparr>failed = (if ellipsis_match fancy_plot_want (axes_repr @ ''\<newline>'') then 0 else 1), attempted = 1\<rparr>"
    by (simp add: fancy_plot_examples_def doctest_summary_def fancy_plot_example)
  then show ?thesis
    by (simp add: testmod_solutions_def doctest_summary_append trapezoid_examples_numpy2 many_digit_examples_pass
        multiply_solutions_examples_pass some_exception_examples_pass unordered_examples_pass)
qed

end
