(* ===== verification/Spec2Isabelle.thy ===== *)
theory Spec2Isabelle
  imports AdamsPatchTests Plot TestRunners
begin

text \<open>
  Verification development of the repository \<open>caichinger/scipy_testing\<close>.

  \<^bold>\<open>The program.\<close> The only component with interacting steps is the Adam's
  Patch solver, \<open>src/adams_patch/adams_patch.py\<close>. Its functions:
  \<^item> \<open>area_under_curve\<close> integrates a width function with
    \<open>scipy.integrate.quad\<close>.
  \<^item> \<open>compute_inverse_function_value\<close> inverts a function by
    \<open>scipy.optimize.brentq\<close>.
  \<^item> \<open>inverse_area_under_curve\<close> applies that inversion to the cumulative area.
  \<^item> \<open>compute_covered_area\<close> lays out \<open>npatches\<close> patches of a given area,
    separated by separators of width \<open>w\<close>, and returns the covered area and
    the separator positions.
  \<^item> \<open>optimize_patch_area\<close> searches, with \<open>brentq\<close> again, the patch area
    for which the layout covers the whole area under the curve.
  The rest of \<open>src/\<close> are teaching snippets:
  \<^item> two trapezoid-rule integrators and a parametrised test;
  \<^item> \<open>mean\<close> with a sequence of hypothesis property tests;
  \<^item> \<open>multiply\<close>, the doctest examples, and small exception tests;
  \<^item> the \<open>__main__\<close> blocks that hand each module to \<open>doctest.testmod\<close> or
    \<open>pytest.main\<close>.

  \<^bold>\<open>Theories.\<close>
  \<^item> \<open>Prelude\<close>: the shared vocabulary.
    \<^item> Python exceptions are the datatype \<open>py_error\<close>.
    \<^item> A computation that may raise returns \<open>'a result = py_error + 'a\<close>,
      and \<open>rbind\<close> sequences such computations.
    \<^item> The outcome of a test run is a \<open>test_outcome\<close>.
    \<^item> It also holds the real arithmetic of the secant step.
  \<^item> \<open>Numerics\<close>: the scipy primitives as an interface.
    \<^item> The record \<open>numlib\<close> (fields \<open>quad\<close> and \<open>brentq\<close>) comes with the
      contracts the program relies on (\<open>quad_additive\<close>, \<open>quad_positive\<close>,
      \<open>quad_exact_affine\<close>, \<open>brentq_sound\<close>, \<open>brentq_checks\<close>,
      \<open>brentq_affine\<close>); \<open>scipy_like\<close> is all of them together.
    \<^item> A separate contract, \<open>brentq_local\<close>, says that \<open>brentq\<close> evaluates
      the target only inside the bracket.
    \<^item> \<open>np_linspace\<close> and \<open>np_max\<close> model numpy.
    \<^item> \<open>brentq_affine_root\<close> gives the root a sound, affine-exact
      \<open>brentq\<close> returns on an affine target with a sign change.
    \<^item> \<open>ref_lib\<close> is an executable implementation meeting every contract:
      trapezoid quadrature and a secant search with fuel \<open>maxiter = 100\<close>,
      brentq's default. Fuel only bounds the iterations; on the affine
      targets of the witnesses the first step is exact.
  \<^item> \<open>AreaInverse\<close>: \<open>area_under_curve\<close>, \<open>compute_inverse_function_value\<close>
    and \<open>inverse_area_under_curve\<close>, with what a returned inverse has found.
  \<^item> \<open>CoveredArea\<close>: \<open>compute_covered_area\<close>.
    \<^item> The \<open>for\<close> loop is \<open>cover_step\<close>, repeated by \<open>cover_loop\<close> over the
      record \<open>cover_state\<close> (total area, separator list).
    \<^item> Lemmas: the area accounting, exactness of each patch, the layout
      invariant (separators in order inside the interval), the error paths,
      and monotonicity in the patch area (C1 to C8).
  \<^item> \<open>PatchOptimizer\<close>: \<open>optimize_patch_area\<close> with its inner \<open>target\<close>
    (\<open>optimize_target\<close>) and its bracket (\<open>patch_area_bracket\<close>).
    \<^item> Lemmas: the infeasibility guard, the \<open>npatches = 0\<close> case, the
      bracket bounds, soundness and uniqueness of a returned area.
    \<^item> C14: a feasible input on which the function raises.
    \<^item> C9 to C14 in all.
  \<^item> \<open>ConstantWidth\<close>: both solver functions in closed form for a constant
    width \<open>c\<close>.
    \<^item> \<open>const_seps\<close> lists the separators the loop places.
    \<^item> C32 gives the exact result of \<open>compute_covered_area\<close>: success or
      the \<open>brentq\<close> error.
    \<^item> \<open>const_fits\<close> is the test that the layout needs no more area than the
      interval holds. C33 characterises \<open>optimize_patch_area\<close> by it,
      tested at the upper bracket end \<open>1.1 A/n\<close>: the function returns the
      exact optimum \<open>(A - (n-1) c w)/n\<close> when the layout fits there, and
      raises \<open>ValueError\<close> otherwise. This generalises C14.
  \<^item> \<open>Pipeline\<close>: the \<open>__main__\<close> script of \<open>adams_patch.py\<close> up to the
    plot.
    \<^item> \<open>solve_layout\<close> chains \<open>optimize_patch_area\<close> into
      \<open>compute_covered_area\<close>; \<open>adams_patch_main\<close> fixes the script's
      inputs.
    \<^item> C34 composes the two components: when the pipeline returns, all
      \<open>npatches\<close> patches have the optimizer's area, the last patch up to
      \<open>xmax\<close> included.
  \<^item> \<open>Plot\<close>: the rest of the \<open>__main__\<close> block, and \<open>fancy_plot\<close> of
    \<open>src/doctest/solutions.py\<close>.
    \<^item> pyplot's global state is the record \<open>pyplot\<close>: all figures created,
      the open ones, the ones \<open>plt.show()\<close> displayed, and numpy's generator
      state.
    \<^item> The script is a computation in HOL-Library's state monad, one step per
      statement: \<open>adams_patch_plot\<close> with \<open>draw_flowers\<close> and the separator
      loop \<open>draw_separators\<close>. \<open>adams_patch_script\<close> chains it after the
      solve step.
    \<^item> The generator is an interface with one contract: draws lie in
      \<open>[0, 1)\<close> and indices below the bound. Randomness is therefore a
      parameter, and the theorems hold for every sequence of draws.
    \<^item> Theorems:
      \<^item> C17: the 80 flowers lie in the bed.
      \<^item> C23: the legend names the separators once, because of the label
        reset.
      \<^item> C24: the script never displays its figure.
      \<^item> C26: composed with \<open>CoveredArea\<close>'s ordering, no grid point is
        shaded by two separators.
  \<^item> \<open>Convergence\<close>: two further contracts. \<open>quad_exact_quadratic\<close>
    says \<open>quad\<close> is exact on quadratics; \<open>brentq_converges\<close> says
    \<open>brentq\<close> returns on a continuous target with a sign change over the
    bracket. \<open>ideal_lib\<close> (Simpson's rule and an exact root finder) shows
    they hold together with all the others. Its root finder is a choice
    (\<open>SOME\<close>), since no executable method finds exact zeros.
    C27 is the specification's round trip, stated as a total result. For a
    positive width function with continuous cumulative area, inverting the
    area up to \<open>x0\<close> returns, and returns \<open>x0\<close>.
  \<^item> \<open>AdamsPatchTests\<close>: the pytest suite \<open>test_adams_patch.py\<close>, each test
    a function of the library to its outcome. Every case of every test passes
    for every library meeting the contracts it names (C28 to C31;
    the raising test passes for every library, as a lemma).
    \<^item> The affine and constant-width cases need only \<open>Numerics\<close>.
    \<^item> The area of \<open>x**2 + 1\<close>, the quadratic inverses and the inverse of
      the cumulative area use \<open>Convergence\<close>.
    \<^item> So does the optimizer case with width \<open>x\<close>: its target is
      \<open>15/2 - 2p - sqrt(2p)\<close> on the bracket, and the optimizer returns
      exactly \<open>4 - sqrt 31 / 4\<close>.
  \<^item> \<open>Trapezoid\<close>: \<open>integrate_using_trapezoidal_rule\<close>
    (\<open>src/doctest/solutions.py\<close>) and \<open>integrate\<close> with \<open>test_integrate\<close>
    (\<open>src/pytest/solutions.py\<close>).
    \<^item> The two integrators agree (C15).
    \<^item> They are exact on affine integrands (C16) and additive over joined
      grids (\<open>integrate_additive\<close>).
    \<^item> The pytest cases pass (\<open>test_integrate_cases\<close>).
  \<^item> \<open>PyFloat\<close>: Python floats as IEEE binary64 values.
    \<^item> A \<open>pyfloat\<close> is \<open>Fin r\<close>, \<open>Inf\<close>, \<open>NInf\<close> or \<open>NaN\<close>; \<open>is_double r\<close>
      says that the real \<open>r\<close> is a double.
    \<^item> \<open>round64\<close> rounds a real to the nearest double, ties to even
      (\<open>round_even\<close>), with 53-bit significands, subnormals below
      \<open>2^-1022\<close>, and overflow to \<open>inf\<close> from \<open>2^1024 - 2^970\<close> on.
      \<open>fadd\<close>, \<open>fsub\<close> and \<open>fdiv_pos\<close> are the rounded operations, with
      the IEEE rules for \<open>inf\<close> and \<open>nan\<close>; \<open>float_lit\<close> reads a decimal
      literal.
    \<^item> \<open>py_sum\<close>, \<open>py_min\<close> and \<open>py_max\<close> are CPython's folds, \<open>sum\<close> as
      before Python 3.12 (a plain left fold, no compensated summation).
      \<open>floats_elem\<close> is hypothesis's \<open>floats\<close> strategy.
    \<^item> Lemmas: the rounding error bound (\<open>round64_finite\<close>, relative
      \<open>2^-53\<close> plus half the smallest subnormal), overflow, and the error
      of a fold of additions (\<open>foldl_fadd_err\<close>).
  \<^item> \<open>MeanTests\<close>: \<open>mean\<close> and the tests of \<open>src/hypothesis/intro_mean_*.py\<close>.
    \<open>mean_1\<close> to \<open>mean_4\<close> and \<open>test_mean_0\<close> to \<open>test_mean_4\<close> each
    translate their own file.
    \<^item> C18, C19: the empty list and the lists holding \<open>nan\<close> or both
      infinities, on which the tests fail whatever the rounding.
    \<^item> C20: overflow of the sum fails \<open>intro_mean_4.py\<close> on finite floats.
    \<^item> C21: rounding fails \<open>intro_mean_3.py\<close> on \<open>[0.1, 0.1, 0.1]\<close>.
    \<^item> C22: \<open>intro_mean_4.py\<close> passes on every non-empty list of at most
      \<open>2^20\<close> floats of magnitude at most \<open>M\<close> with \<open>n M \<le> 2^20\<close>: the
      float mean is then within \<open>2^-30\<close> of the exact mean
      (\<open>mean_err\<close>), well inside the tolerance \<open>1e-8\<close>. The bounds are
      what the error lemma needs, not a limit of the code; they cover the
      lists hypothesis draws by default.
  \<^item> \<open>Doctests\<close>: \<open>multiply\<close> over the value type \<open>pyval\<close> with Python's
    \<open>*\<close> (its values on the doctest inputs, list repetition, commutativity
    and the exact error cases as lemmas); the exception examples and their
    \<open>pytest.raises\<close> tests; the dict example; \<open>many_digit_number\<close>.
  \<^item> \<open>Fixtures\<close>: the tmpdir fixture test of \<open>src/pytest/solutions.py\<close>.
    \<^item> A data frame is a list of named integer columns.
    \<^item> \<open>to_csv\<close> and \<open>read_csv\<close> model pandas' CSV writer and reader.
      \<open>to_csv True\<close> writes the index as a first column with an empty
      header, which \<open>read_csv\<close> names \<open>Unnamed: 0\<close>
      (\<open>read_csv_to_csv_index\<close>); \<open>create_data\<close> passes \<open>index=None\<close>,
      which pandas takes as false.
    \<^item> The file system is a map from paths to contents.
    \<^item> \<open>create_data\<close> writes the frame; \<open>read_csv_file\<close> raises
      \<open>FileNotFoundError\<close> on a missing path.
    \<^item> C35 is the round trip: reading back the written file gives the
      frame, for every well-formed frame (column names without comma or
      newline, equal column lengths). So the fixture test passes.
  \<^item> \<open>TestRunners\<close>: the \<open>__main__\<close> blocks, composing the test functions
    of the theories above with a model of the runner they call.
    \<^item> doctest: an example is the text it prints or the exception it
      raises, with the text its docstring expects and its directives.
      \<open>check_output\<close> and \<open>ellipsis_match\<close> follow
      \<open>doctest.OutputChecker\<close>. The printed text is Python's \<open>repr\<close> of
      the model's values (\<open>py_repr\<close>, \<open>py_float_repr\<close>).
      \<open>doctest_summary\<close> is \<open>TestResults(failed, attempted)\<close>.
    \<^item> Lemmas: \<open>testmod\<close> of \<open>intro_1_multiply.py\<close> reports one
      failure in three examples (\<open>testmod_intro_1_multiply_results\<close>);
      \<open>testmod\<close> of \<open>solutions.py\<close> passes 13 of 14 examples
      unconditionally, and the \<open>fancy_plot\<close> example exactly when the axes'
      repr matches the ellipsis pattern (\<open>testmod_solutions_results\<close>).
    \<^item> hypothesis: \<open>hypothesis_given\<close> runs the explicit examples, then the
      drawn ones (\<open>run_draws\<close>), and raises \<open>Unsatisfiable\<close> when
      \<open>assume\<close> rejected every draw. The draws are a parameter: every
      theorem holds for every sequence hypothesis may generate.
    \<^item> pytest: \<open>pytest_main\<close> maps the outcomes of the collected tests to
      the exit code. The session of \<open>src/pytest/solutions.py\<close> exits
      \<open>OK\<close> for every temporary directory
      (\<open>pytest_main_solutions_passes\<close>). C25: the sessions of
      \<open>intro_mean_k.py\<close> under the draws: \<open>intro_mean_4.py\<close> exits \<open>OK\<close>
      exactly when some draw is non-empty (for bounded draws); the others
      fail on the draws C18 to C21 name, and \<open>intro_mean_1.py\<close> with
      \<open>Unsatisfiable\<close> when every draw is empty.

  \<^bold>\<open>Across components (this theory).\<close> The four end-to-end examples of
  the specification, each through the component it names, as the lemma
  \<open>spec_end_to_end_examples\<close>.

  \<^bold>\<open>Abstractions.\<close>
  \<^item> The floats of the hypothesis tests are binary64 (\<open>PyFloat\<close>); signed
    zero is not modelled, as no comparison of the tests tells \<open>-0.0\<close> from
    \<open>0.0\<close>. Elsewhere (the Adam's Patch solver, the trapezoid rules, the
    doctests) floats are reals with exact arithmetic: those theorems are
    about the algorithm, not its rounding, and the exact comparisons of
    \<open>test_integrate\<close> and of the doctests hold exactly in the model.
  \<^item> \<open>f(np.linspace(xmin, xmax, 100))\<close> in \<open>optimize_patch_area\<close> and the
    width functions of the plot are \<open>f\<close> applied to each grid point. That is
    numpy's result for a vectorised \<open>f\<close>, as every width function of the
    tests and the script is; a function that is not vectorised (one that
    branches on its argument with \<open>if\<close>, say) is outside the model.
  \<^item> The scipy routines are not code of the repository. The model takes them
    as a parameter, and every theorem states which of their contracts it
    assumes.
  \<^item> Termination needs no theorem of its own. Every loop of the program is a
    \<open>for\<close> loop over a finite range (the separator layout, the flowers, the
    separator fills) or a comprehension over a finite list, and each is
    modelled by structural recursion. The one iteration that could run
    forever is inside scipy's \<open>brentq\<close>, which stops after
    \<open>maxiter = 100\<close>; \<open>ref_lib\<close> models it with that fuel. The
    runners' loops (over examples, draws and tests) are structural recursion
    on finite lists as well.
  \<^item> The contracts idealise \<open>brentq\<close> as returning an exact zero in the
    bracket. They also require it to evaluate the function at both bracket
    ends before searching, as scipy does; that is what C14 rests on.

  \<^bold>\<open>Findings.\<close> C14: \<open>optimize_patch_area\<close> raises \<open>ValueError\<close> on an
  input with a solution (width 1 on \<open>[0, 10]\<close>, ten patches, \<open>w = 0.5\<close>,
  solution \<open>0.55\<close>). The reason: \<open>brentq\<close> evaluates the target at the upper
  bracket end, where the layout needs more area than the interval holds.
  C33 shows the condition is exact: the function raises on every input
  whose layout does not fit at \<open>1.1 A/n\<close>. This includes every positive
  constant width on a nonempty interval with \<open>w = 0\<close> and
  \<open>npatches \<ge> 12\<close>.
  \<open>spec_end_to_end_examples\<close>: the specification's first example gives the area under \<open>f(x) = x\<close>
  on \<open>[0, 2]\<close> as \<open>1.5\<close>. The code, with any \<open>quad\<close> exact on affine
  integrands, returns \<open>2\<close>, the integral.
  C24: \<open>plt.show()\<close> (line 130) comes before the figure is created and is
  not called again, so running the file as a script displays nothing.
  C7: \<open>compute_covered_area\<close> does not bound the separators; it fails only
  through \<open>brentq\<close>.
  \<open>testmod_intro_1_multiply_results\<close>: the docstring of \<open>multiply\<close> in \<open>intro_1_multiply.py\<close> expects
  \<open>42\<close> followed by three spaces. doctest compares printed text exactly,
  so \<open>multiply(6, 7)\<close> fails although it returns \<open>42\<close>. Running the
  file gives \<open>TestResults(failed=1, attempted=3)\<close>.
  \<open>testmod_solutions_results\<close>: the \<open>fancy_plot\<close> doctest passes only where the axes print with the
  default object repr, not with matplotlib's own \<open><Axes: >\<close>.
  \<open>testmod_solutions_numpy2\<close>: under numpy 2, which prints
  \<open>np.float64(2.0)\<close>, both trapezoid doctests fail as well.
  C21: \<open>intro_mean_3.py\<close> fails on finite floats: the mean of
  \<open>[0.1, 0.1, 0.1]\<close> is \<open>0.10000000000000002\<close>, above the maximum.
  C20: the tolerance of \<open>intro_mean_4.py\<close> does not cover overflow: on
  \<open>[1.79e308, 1.79e308]\<close> the sum is \<open>inf\<close> and the test fails.

  \<^bold>\<open>Not modelled.\<close> Not modelled:
  \<^item> what matplotlib renders (pixels, colours) and numpy's generator
    algorithm: the model keeps the artists and labels the script creates
    and the range of the draws. The repr that \<open>fancy_plot\<close>'s doctest
    prints is a parameter;
  \<^item> of the test runners: pytest's collection by file and function name
    (each session lists the tests it collects), doctest's
    \<open><BLANKLINE>\<close> handling and its other directives, and hypothesis's
    shrinking and health checks. A float's \<open>repr\<close> is its shortest exact
    decimal expansion with at most 17 digits, else 17 digits truncated;
    this agrees with Python on the values the doctests print;
  \<^item> pandas beyond what the fixture test uses: only integer columns and
    \<open>to_csv\<close>/\<open>read_csv\<close> without quoting or type inference;
  \<^item> hypothesis's search itself: a strategy is modelled as the set of lists
    it can draw;
  \<^item> scipy's internals.

  \<^bold>\<open>Plan.\<close> Later work: float rounding in the solver (a \<open>quad\<close>
  contract with an error bound instead of exactness).
\<close>

subsection \<open>The end-to-end examples of the specification\<close>

lemma inverse_linear_area_end:
  assumes "scipy_like lib" "brentq_converges lib"
  shows "inverse_area_under_curve lib (cumulative_area lib (\<lambda>x. x) 0) 4.5 0 3 = Inr 3"
proof -
  have lib: "brentq_sound lib" "quad_exact_affine lib" using assms(1) by (simp_all add: scipy_like_def)
  have cum: "cumulative_area lib (\<lambda>x. x) 0 = (\<lambda>x. x\<^sup>2 / 2)"
    using cumulative_linear [OF lib(2), of 0] by simp
  have "continuous_on {min 0 3..max 0 3} (\<lambda>x::real. x\<^sup>2 / 2)" by (intro continuous_intros) simp
  moreover have "(0\<^sup>2 / 2 - 4.5) * (3\<^sup>2 / 2 - 4.5) \<le> (0::real)" by simp
  ultimately obtain x where x: "compute_inverse_function_value lib (\<lambda>x. x\<^sup>2 / 2) 4.5 0 3 = Inr x"
      "x\<^sup>2 / 2 = 4.5" "0 \<le> x"
    using compute_inverse_exists [OF lib(1) assms(2), of 0 3 "\<lambda>x. x\<^sup>2 / 2" "4.5"] by auto
  have "x = sqrt 9" using x(2,3) by (intro sqrt_of_square) simp_all
  then have "x = 3" by simp
  with x(1) show ?thesis unfolding cum by simp
qed

text \<open>
  The four end-to-end examples of the specification, for every library
  meeting the contracts whose \<open>brentq\<close> returns on continuous targets with a
  sign change. The area under \<open>f(x) = x\<close> on \<open>[0, 2]\<close> is \<open>2\<close>, where the
  specification says \<open>1.5\<close>. The inverse of that area at \<open>4.5\<close> on \<open>[0, 3]\<close>
  is \<open>3\<close>. The constant layout covers \<open>3\<close> with the separator \<open>[1, 2]\<close>. The
  optimizer for \<open>f(x) = x\<close> on \<open>[0, 4]\<close> returns \<open>4 - sqrt 31 / 4\<close>, the exact
  value of the regression constant \<open>2.608058909292573\<close>.
\<close>

lemma spec_end_to_end_examples:
  assumes "scipy_like lib" "brentq_converges lib"
  shows "area_under_curve lib (\<lambda>x. x) 0 2 = 2 \<and>
         inverse_area_under_curve lib (cumulative_area lib (\<lambda>x. x) 0) 4.5 0 3 = Inr 3 \<and>
         compute_covered_area lib (\<lambda>_. 1) 1 2 1 0 10 = Inr (3, [(1, 2)]) \<and>
         optimize_patch_area lib (\<lambda>x. x) 0 4 2 1 = Inr (4 - sqrt 31 / 4)"
proof (intro conjI)
  have aff: "quad_exact_affine lib" using assms(1) by (simp add: scipy_like_def)
  show "area_under_curve lib (\<lambda>x. x) 0 2 = 2"
    using fun_cong [OF cumulative_linear [OF aff, of 0], of 2] by simp
  show "inverse_area_under_curve lib (cumulative_area lib (\<lambda>x. x) 0) 4.5 0 3 = Inr 3"
    by (rule inverse_linear_area_end [OF assms])
  show "compute_covered_area lib (\<lambda>_. 1) 1 2 1 0 10 = Inr (3, [(1, 2)])"
    by (simp add: compute_covered_area_def cover_step_const_Inr [OF assms(1)])
  show "optimize_patch_area lib (\<lambda>x. x) 0 4 2 1 = Inr (4 - sqrt 31 / 4)"
    by (rule optimize_linear_case [OF assms])
qed

end
